theory Spec2Isabelle
  imports Complex_Main
begin

section \<open>Python values used by the metrics\<close>

text \<open>
  Python's \<open>float\<close> scores and thresholds are modelled as \<open>real\<close>: the quotient of two
  verdict counts is the exact quotient. A field that may hold Python's \<open>None\<close> is an
  \<open>option\<close>. Strings are lists of characters, one \<open>char\<close> per code point below 256.
\<close>

datatype py_error =
    ValidationError
  | KeyError string
  | ValueError string
  | TypeError
  | IndexError
  | ModelError string

subsection \<open>\<open>str.strip()\<close> and \<open>str.lower()\<close>\<close>

definition whitespace :: "char list" where
  "whitespace = [CHR 0x09, CHR 0x0A, CHR 0x0B, CHR 0x0C, CHR 0x0D, CHR 0x1C, CHR 0x1D,
     CHR 0x1E, CHR 0x1F, CHR 0x20, CHR 0x85, CHR 0xA0]"

definition is_space :: "char \<Rightarrow> bool" where
  "is_space c = (c \<in> set whitespace)"

definition strip :: "string \<Rightarrow> string" where
  "strip s = rev (dropWhile is_space (rev (dropWhile is_space s)))"

definition upper_chars :: "char list" where
  "upper_chars = ''ABCDEFGHIJKLMNOPQRSTUVWXYZ'' @
     [CHR 0xC0, CHR 0xC1, CHR 0xC2, CHR 0xC3, CHR 0xC4, CHR 0xC5, CHR 0xC6, CHR 0xC7,
      CHR 0xC8, CHR 0xC9, CHR 0xCA, CHR 0xCB, CHR 0xCC, CHR 0xCD, CHR 0xCE, CHR 0xCF,
      CHR 0xD0, CHR 0xD1, CHR 0xD2, CHR 0xD3, CHR 0xD4, CHR 0xD5, CHR 0xD6,
      CHR 0xD8, CHR 0xD9, CHR 0xDA, CHR 0xDB, CHR 0xDC, CHR 0xDD, CHR 0xDE]"

definition lower_chars :: "char list" where
  "lower_chars = ''abcdefghijklmnopqrstuvwxyz'' @
     [CHR 0xE0, CHR 0xE1, CHR 0xE2, CHR 0xE3, CHR 0xE4, CHR 0xE5, CHR 0xE6, CHR 0xE7,
      CHR 0xE8, CHR 0xE9, CHR 0xEA, CHR 0xEB, CHR 0xEC, CHR 0xED, CHR 0xEE, CHR 0xEF,
      CHR 0xF0, CHR 0xF1, CHR 0xF2, CHR 0xF3, CHR 0xF4, CHR 0xF5, CHR 0xF6,
      CHR 0xF8, CHR 0xF9, CHR 0xFA, CHR 0xFB, CHR 0xFC, CHR 0xFD, CHR 0xFE]"

definition lower_char :: "char \<Rightarrow> char" where
  "lower_char c = (case map_of (zip upper_chars lower_chars) c of None \<Rightarrow> c | Some d \<Rightarrow> d)"

definition lower :: "string \<Rightarrow> string" where
  "lower s = map lower_char s"

text \<open>\<open>sep.join(xs)\<close>\<close>

fun join :: "string \<Rightarrow> string list \<Rightarrow> string" where
  "join sep [] = []"
| "join sep [x] = x"
| "join sep (x # y # ys) = x @ sep @ join sep (y # ys)"

text \<open>\<open>a <= b\<close> and \<open>a >= b\<close> where \<open>a\<close> may be \<open>None\<close>: comparing \<open>None\<close> with a float
  raises \<open>TypeError\<close>.\<close>

definition py_le :: "real option \<Rightarrow> real \<Rightarrow> py_error + bool" where
  "py_le a b = (case a of None \<Rightarrow> Inl TypeError | Some x \<Rightarrow> Inr (x \<le> b))"

definition py_ge :: "real option \<Rightarrow> real \<Rightarrow> py_error + bool" where
  "py_ge a b = (case a of None \<Rightarrow> Inl TypeError | Some x \<Rightarrow> Inr (x \<ge> b))"

section \<open>Collaborators outside the metric classes\<close>

text \<open>
  Modelled from the spec: the test case class \<open>LLMTestCase\<close> (input text, actual output
  text, optional retrieval context) and \<open>check_llm_test_case_params\<close>, which fails with
  a validation error when the test case lacks a field the metric requires.
\<close>

record test_case =
  input :: string
  actual_output :: string
  retrieval_context :: "string list option"

datatype LLMTestCaseParams = INPUT | ACTUAL_OUTPUT | RETRIEVAL_CONTEXT

fun has_param :: "test_case \<Rightarrow> LLMTestCaseParams \<Rightarrow> bool" where
  "has_param tc INPUT = True"
| "has_param tc ACTUAL_OUTPUT = True"
| "has_param tc RETRIEVAL_CONTEXT = (retrieval_context tc \<noteq> None)"

text \<open>
  Modelled from the spec: the prompt templates (\<open>BiasTemplate\<close>,
  \<open>FaithfulnessTemplate\<close>, \<open>SummarizationTemplate\<close>) are pure functions of the stage
  and its inputs. A prompt is represented by the template's name and arguments. The
  score argument stands for the text \<open>format(score, ".2f")\<close>; the summarization reason
  prompt stands for the template text with the suffixes the method appends, which are
  determined by the list of questions.
\<close>

datatype prompt =
    BiasTemplate_generate_opinions string
  | BiasTemplate_generate_verdicts "string list"
  | BiasTemplate_generate_reason "string option list" real
  | FaithfulnessTemplate_generate_truths string
  | FaithfulnessTemplate_generate_claims string
  | FaithfulnessTemplate_generate_verdicts "string list" string
  | FaithfulnessTemplate_generate_reason "string option list" real
  | SummarizationTemplate_generate_answers "string list option" string
  | SummarizationTemplate_generate_questions string int
  | SummarizationTemplate_generate_alignment_verdicts "string list" string
  | SummarizationTemplate_generate_reason "string option list" "string option list"
      "string option list" real

text \<open>
  Modelled from the spec: \<open>trimAndLoadJson\<close> extracts one JSON object from the judge's
  text or fails. The object is represented by the keys the stages read, each absent
  (\<open>None\<close>, so that reading it raises \<open>KeyError\<close>) or holding a value of the type the stage
  expects; an item of \<open>"verdicts"\<close> is its \<open>verdict\<close> label and its optional \<open>reason\<close>.
  A raw response is represented by what \<open>trimAndLoadJson\<close> makes of it.
\<close>

record data =
  opinions_key :: "string list option"
  verdicts_key :: "(string \<times> string option) list option"
  reason_key :: "string option"
  truths_key :: "string list option"
  claims_key :: "string list option"
  questions_key :: "string list option"
  answers_key :: "string list option"

definition no_data :: data where
  "no_data = \<lparr>opinions_key = None, verdicts_key = None, reason_key = None, truths_key = None,
     claims_key = None, questions_key = None, answers_key = None\<rparr>"

type_synonym response = "py_error + data"

text \<open>
  The judge model adapter (\<open>DeepEvalBaseLLM\<close>): \<open>generate\<close> and its suspending twin
  \<open>a_generate\<close>. A call fails or returns the response and the cost; a model that is not
  native returns the response alone and the cost component is not read.
\<close>

record adapter =
  generate :: "prompt \<Rightarrow> py_error + response \<times> real"
  a_generate :: "prompt \<Rightarrow> py_error + response \<times> real"

section \<open>Methods as state transformers that may raise\<close>

text \<open>
  A method of a metric object takes the object's state and returns the state it leaves
  behind together with its return value or the exception it raised.
\<close>

type_synonym ('s, 'a) prog = "'s \<Rightarrow> (py_error + 'a) \<times> 's"

definition ret :: "'a \<Rightarrow> ('s, 'a) prog" where
  "ret x = (\<lambda>s. (Inr x, s))"

definition raise :: "py_error \<Rightarrow> ('s, 'a) prog" where
  "raise e = (\<lambda>s. (Inl e, s))"

definition seq :: "('s, 'a) prog \<Rightarrow> ('a \<Rightarrow> ('s, 'b) prog) \<Rightarrow> ('s, 'b) prog" where
  "seq f g = (\<lambda>s. case f s of (Inl e, s') \<Rightarrow> (Inl e, s') | (Inr x, s') \<Rightarrow> g x s')"

definition read :: "('s \<Rightarrow> 'a) \<Rightarrow> ('s, 'a) prog" where
  "read f = (\<lambda>s. (Inr (f s), s))"

definition assign :: "('s \<Rightarrow> 's) \<Rightarrow> ('s, unit) prog" where
  "assign u = (\<lambda>s. (Inr (), u s))"

definition lift :: "py_error + 'a \<Rightarrow> ('s, 'a) prog" where
  "lift r = (\<lambda>s. (r, s))"

definition getkey :: "string \<Rightarrow> 'a option \<Rightarrow> ('s, 'a) prog" where
  "getkey k v = (case v of None \<Rightarrow> raise (KeyError k) | Some x \<Rightarrow> ret x)"

definition check_llm_test_case_params ::
    "test_case \<Rightarrow> LLMTestCaseParams list \<Rightarrow> ('s, unit) prog" where
  "check_llm_test_case_params tc required =
     (if list_all (has_param tc) required then ret () else raise ValidationError)"

section \<open>The metric base state\<close>

text \<open>
  The fields every metric object carries. \<open>judge_log\<close> is not a field of the source: it
  records, in order, the prompts sent to the judge model through this object.
\<close>

record base_metric =
  threshold :: real
  score :: "real option"
  reason :: "string option"
  success :: "bool option"
  evaluation_model :: string
  strict_mode :: bool
  async_mode :: bool
  verbose_mode :: bool
  include_reason :: bool
  error :: "string option"
  evaluation_cost :: "real option"
  using_native_model :: bool
  judge_log :: "prompt list"

text \<open>
  Modelled from the spec, and from the use \<open>measure\<close> makes of it: the class
  \<open>BaseMetric\<close>. \<open>measure\<close> takes \<open>score\<close>, \<open>reason\<close> and \<open>success\<close> out of the
  task that ran \<open>_measure_async\<close>, together with the stage outputs that are kept in
  context variables. So these three attributes are task-local as well: what a task
  assigns to them is read in the context of that task only. \<open>in_context ctx m\<close> is the
  object \<open>m\<close> with these attributes as they are in the context \<open>ctx\<close>.
\<close>

definition in_context ::
    "'a base_metric_scheme \<Rightarrow> 'a base_metric_scheme \<Rightarrow> 'a base_metric_scheme" where
  "in_context ctx m = m\<lparr>score := score ctx, reason := reason ctx, success := success ctx\<rparr>"

text \<open>
  The call pattern every stage repeats:
  \<^verbatim>\<open>
  if self.using_native_model:
      res, cost = self.model.generate(prompt)
      self.evaluation_cost += cost
  else:
      res = self.model.generate(prompt)
  data = trimAndLoadJson(res, self)
  \<close>
  with \<open>g\<close> the adapter method the stage calls (\<open>generate\<close> or \<open>a_generate\<close>).
\<close>

definition invoke ::
    "(prompt \<Rightarrow> py_error + response \<times> real) \<Rightarrow> prompt \<Rightarrow> ('a base_metric_scheme, data) prog" where
  "invoke g p = (\<lambda>m.
     let m1 = m\<lparr>judge_log := judge_log m @ [p]\<rparr> in
     case g p of
       Inl e \<Rightarrow> (Inl e, m1)
     | Inr (res, cost) \<Rightarrow>
         if using_native_model m then
           (case evaluation_cost m of
              None \<Rightarrow> (Inl TypeError, m1)
            | Some c \<Rightarrow> (res, m1\<lparr>evaluation_cost := Some (c + cost)\<rparr>))
         else (res, m1))"

definition reset_cost :: "('a base_metric_scheme, unit) prog" where
  "reset_cost = assign (\<lambda>m. m\<lparr>evaluation_cost := (if using_native_model m then Some 0 else None)\<rparr>)"

section \<open>BiasMetric\<close>

datatype BiasVerdict = BiasVerdict (bias_verdict: string) (bias_reason: "string option")

record bias_metric = base_metric +
  opinions :: "string list option"
  verdicts :: "BiasVerdict list option"

definition Bias_required_params :: "LLMTestCaseParams list" where
  "Bias_required_params = [INPUT, ACTUAL_OUTPUT]"

text \<open>\<open>BiasMetric.__init__\<close>; the model's name and whether it is native come from
  \<open>initialize_model\<close>.\<close>

definition BiasMetric ::
    "real \<Rightarrow> string \<Rightarrow> bool \<Rightarrow> bool \<Rightarrow> bool \<Rightarrow> bool \<Rightarrow> bool \<Rightarrow> bias_metric" where
  "BiasMetric thr model_name native incl_reason async strict verbose =
     \<lparr>threshold = (if strict then 0 else thr), score = None, reason = None, success = None,
      evaluation_model = model_name, strict_mode = strict, async_mode = async,
      verbose_mode = verbose, include_reason = incl_reason, error = None,
      evaluation_cost = None, using_native_model = native, judge_log = [],
      opinions = None, verdicts = None\<rparr>"

definition Bias_calculate_score :: "(bias_metric, real) prog" where
  "Bias_calculate_score = (\<lambda>m.
     case verdicts m of
       None \<Rightarrow> (Inl TypeError, m)
     | Some vs \<Rightarrow>
         let number_of_verdicts = length vs in
         if number_of_verdicts = 0 then (Inr 0, m)
         else
           let bias_count = length (filter (\<lambda>v. lower (strip (bias_verdict v)) = ''yes'') vs);
               score = real bias_count / real number_of_verdicts
           in (Inr (if strict_mode m \<and> score > threshold m then 1 else score), m))"

text \<open>The prompt of the reason stage: iterating over \<open>None\<close> and formatting \<open>None\<close> as a
  float raise \<open>TypeError\<close>.\<close>

definition Bias_reason_prompt :: "bias_metric \<Rightarrow> py_error + prompt" where
  "Bias_reason_prompt m =
     (case verdicts m of
        None \<Rightarrow> Inl TypeError
      | Some vs \<Rightarrow>
          (case score m of
             None \<Rightarrow> Inl TypeError
           | Some sc \<Rightarrow>
               Inr (BiasTemplate_generate_reason
                 (map bias_reason (filter (\<lambda>v. lower (strip (bias_verdict v)) = ''yes'') vs))
                 sc)))"

definition Bias_a_generate_reason :: "adapter \<Rightarrow> (bias_metric, string option) prog" where
  "Bias_a_generate_reason J =
     seq (read include_reason) (\<lambda>incl.
       if \<not> incl then ret None
       else
         seq (\<lambda>m. (Bias_reason_prompt m, m)) (\<lambda>prompt.
         seq (invoke (generate J) prompt) (\<lambda>d.
         seq (getkey ''reason'' (reason_key d)) (\<lambda>r.
         ret (Some r)))))"

definition Bias_generate_reason :: "adapter \<Rightarrow> (bias_metric, string option) prog" where
  "Bias_generate_reason J =
     seq (read include_reason) (\<lambda>incl.
       if \<not> incl then ret None
       else
         seq (\<lambda>m. (Bias_reason_prompt m, m)) (\<lambda>prompt.
         seq (invoke (generate J) prompt) (\<lambda>d.
         seq (getkey ''reason'' (reason_key d)) (\<lambda>r.
         ret (Some r)))))"

definition Bias_a_generate_verdicts :: "adapter \<Rightarrow> (bias_metric, BiasVerdict list) prog" where
  "Bias_a_generate_verdicts J =
     seq (read opinions) (\<lambda>ops.
       case ops of
         None \<Rightarrow> raise TypeError
       | Some os \<Rightarrow>
           if length os = 0 then ret []
           else
             seq (invoke (a_generate J) (BiasTemplate_generate_verdicts os)) (\<lambda>d.
             seq (getkey ''verdicts'' (verdicts_key d)) (\<lambda>items.
             ret (map (\<lambda>(v, r). BiasVerdict v r) items))))"

definition Bias_generate_verdicts :: "adapter \<Rightarrow> (bias_metric, BiasVerdict list) prog" where
  "Bias_generate_verdicts J =
     seq (read opinions) (\<lambda>ops.
       case ops of
         None \<Rightarrow> raise TypeError
       | Some os \<Rightarrow>
           if length os = 0 then ret []
           else
             seq (invoke (generate J) (BiasTemplate_generate_verdicts os)) (\<lambda>d.
             seq (getkey ''verdicts'' (verdicts_key d)) (\<lambda>items.
             ret (map (\<lambda>(v, r). BiasVerdict v r) items))))"

definition Bias_a_generate_opinions :: "adapter \<Rightarrow> string \<Rightarrow> (bias_metric, string list) prog" where
  "Bias_a_generate_opinions J actual_output' =
     seq (invoke (a_generate J) (BiasTemplate_generate_opinions actual_output')) (\<lambda>d.
     getkey ''opinions'' (opinions_key d))"

definition Bias_generate_opinions :: "adapter \<Rightarrow> string \<Rightarrow> (bias_metric, string list) prog" where
  "Bias_generate_opinions J actual_output' =
     seq (invoke (generate J) (BiasTemplate_generate_opinions actual_output')) (\<lambda>d.
     getkey ''opinions'' (opinions_key d))"

text \<open>\<open>self.success = self.score <= self.threshold\<close>\<close>

definition Bias_set_success :: "(bias_metric, unit) prog" where
  "Bias_set_success =
     seq (\<lambda>m. (py_le (score m) (threshold m), m)) (\<lambda>b.
     assign (\<lambda>m. m\<lparr>success := Some b\<rparr>))"

definition Bias_a_measure :: "adapter \<Rightarrow> test_case \<Rightarrow> (bias_metric, real option) prog" where
  "Bias_a_measure J tc =
     seq (check_llm_test_case_params tc Bias_required_params) (\<lambda>_.
     seq reset_cost (\<lambda>_.
     seq (Bias_a_generate_opinions J (actual_output tc)) (\<lambda>os.
     seq (assign (\<lambda>m. m\<lparr>opinions := Some os\<rparr>)) (\<lambda>_.
     seq (Bias_a_generate_verdicts J) (\<lambda>vs.
     seq (assign (\<lambda>m. m\<lparr>verdicts := Some vs\<rparr>)) (\<lambda>_.
     seq Bias_calculate_score (\<lambda>sc.
     seq (assign (\<lambda>m. m\<lparr>score := Some sc\<rparr>)) (\<lambda>_.
     seq (Bias_a_generate_reason J) (\<lambda>r.
     seq (assign (\<lambda>m. m\<lparr>reason := r\<rparr>)) (\<lambda>_.
     seq Bias_set_success (\<lambda>_.
     read score)))))))))))"

text \<open>\<open>_measure_async\<close>: runs \<open>a_measure\<close> and returns the stage outputs and results.\<close>

definition Bias_measure_async ::
    "adapter \<Rightarrow> test_case \<Rightarrow>
     (bias_metric, string list option \<times> BiasVerdict list option \<times> real option \<times> string option
        \<times> bool option) prog" where
  "Bias_measure_async J tc =
     seq (Bias_a_measure J tc) (\<lambda>_.
     read (\<lambda>m. (opinions m, verdicts m, score m, reason m, success m)))"

text \<open>
  \<open>measure\<close>: the \<open>return self.score\<close> statement belongs to the \<open>else\<close> branch, so with
  \<open>async_mode\<close> the method ends without a \<open>return\<close> and yields \<open>None\<close>.
\<close>

definition Bias_measure :: "adapter \<Rightarrow> test_case \<Rightarrow> (bias_metric, real option) prog" where
  "Bias_measure J tc =
     seq (check_llm_test_case_params tc Bias_required_params) (\<lambda>_.
     seq reset_cost (\<lambda>_.
     seq (read async_mode) (\<lambda>am.
       if am then
         seq (Bias_measure_async J tc) (\<lambda>(os, vs, sc, r, su).
         seq (assign (\<lambda>m. m\<lparr>opinions := os, verdicts := vs, score := sc, reason := r,
                success := su\<rparr>)) (\<lambda>_.
         ret None))
       else
         seq (Bias_generate_opinions J (actual_output tc)) (\<lambda>os.
         seq (assign (\<lambda>m. m\<lparr>opinions := Some os\<rparr>)) (\<lambda>_.
         seq (Bias_generate_verdicts J) (\<lambda>vs.
         seq (assign (\<lambda>m. m\<lparr>verdicts := Some vs\<rparr>)) (\<lambda>_.
         seq Bias_calculate_score (\<lambda>sc.
         seq (assign (\<lambda>m. m\<lparr>score := Some sc\<rparr>)) (\<lambda>_.
         seq (Bias_generate_reason J) (\<lambda>r.
         seq (assign (\<lambda>m. m\<lparr>reason := r\<rparr>)) (\<lambda>_.
         seq Bias_set_success (\<lambda>_.
         read score))))))))))))"

text \<open>
  \<open>is_successful\<close>: a comparison that raises is caught by the bare \<open>except\<close>.
\<close>

definition Bias_is_successful :: "(bias_metric, bool option) prog" where
  "Bias_is_successful = (\<lambda>m.
     let m' =
       (if error m \<noteq> None then m\<lparr>success := Some False\<rparr>
        else (case py_le (score m) (threshold m) of
                Inr b \<Rightarrow> m\<lparr>success := Some b\<rparr>
              | Inl e \<Rightarrow> m\<lparr>success := Some False\<rparr>))
     in (Inr (success m'), m'))"

section \<open>FaithfulnessMetric\<close>

text \<open>
  \<open>asyncio.gather(a, b)\<close> of two stages that call the judge once each is modelled as
  running \<open>a\<close>, then \<open>b\<close>: the gathered stages write only the judge log and the cost,
  and the results are assigned in the order listed.
\<close>

datatype FaithfulnessVerdict =
  FaithfulnessVerdict (faith_verdict: string) (faith_reason: "string option")

record faithfulness_metric = base_metric +
  truths :: "string list option"
  claims :: "string list option"
  faith_verdicts :: "FaithfulnessVerdict list option"

definition Faith_required_params :: "LLMTestCaseParams list" where
  "Faith_required_params = [INPUT, ACTUAL_OUTPUT, RETRIEVAL_CONTEXT]"

definition FaithfulnessMetric ::
    "real \<Rightarrow> string \<Rightarrow> bool \<Rightarrow> bool \<Rightarrow> bool \<Rightarrow> bool \<Rightarrow> bool \<Rightarrow> faithfulness_metric" where
  "FaithfulnessMetric thr model_name native incl_reason async strict verbose =
     \<lparr>threshold = (if strict then 1 else thr), score = None, reason = None, success = None,
      evaluation_model = model_name, strict_mode = strict, async_mode = async,
      verbose_mode = verbose, include_reason = incl_reason, error = None,
      evaluation_cost = None, using_native_model = native, judge_log = [],
      truths = None, claims = None, faith_verdicts = None\<rparr>"

definition Faith_calculate_score :: "(faithfulness_metric, real) prog" where
  "Faith_calculate_score = (\<lambda>m.
     case faith_verdicts m of
       None \<Rightarrow> (Inl TypeError, m)
     | Some vs \<Rightarrow>
         let number_of_verdicts = length vs in
         if number_of_verdicts = 0 then (Inr 1, m)
         else
           let faithfulness_count =
                 length (filter (\<lambda>v. lower (strip (faith_verdict v)) \<noteq> ''no'') vs);
               score = real faithfulness_count / real number_of_verdicts
           in (Inr (if strict_mode m \<and> score < threshold m then 0 else score), m))"

definition Faith_reason_prompt :: "faithfulness_metric \<Rightarrow> py_error + prompt" where
  "Faith_reason_prompt m =
     (case faith_verdicts m of
        None \<Rightarrow> Inl TypeError
      | Some vs \<Rightarrow>
          (case score m of
             None \<Rightarrow> Inl TypeError
           | Some sc \<Rightarrow>
               Inr (FaithfulnessTemplate_generate_reason
                 (map faith_reason (filter (\<lambda>v. lower (strip (faith_verdict v)) = ''no'') vs))
                 sc)))"

definition Faith_a_generate_reason :: "adapter \<Rightarrow> (faithfulness_metric, string option) prog" where
  "Faith_a_generate_reason J =
     seq (read include_reason) (\<lambda>incl.
       if \<not> incl then ret None
       else
         seq (\<lambda>m. (Faith_reason_prompt m, m)) (\<lambda>prompt.
         seq (invoke (generate J) prompt) (\<lambda>d.
         seq (getkey ''reason'' (reason_key d)) (\<lambda>r.
         ret (Some r)))))"

definition Faith_generate_reason :: "adapter \<Rightarrow> (faithfulness_metric, string option) prog" where
  "Faith_generate_reason J =
     seq (read include_reason) (\<lambda>incl.
       if \<not> incl then ret None
       else
         seq (\<lambda>m. (Faith_reason_prompt m, m)) (\<lambda>prompt.
         seq (invoke (generate J) prompt) (\<lambda>d.
         seq (getkey ''reason'' (reason_key d)) (\<lambda>r.
         ret (Some r)))))"

text \<open>The prompt of the verdict stage; \<open>"\n\n".join(None)\<close> raises \<open>TypeError\<close>.\<close>

definition Faith_verdicts_prompt :: "string list \<Rightarrow> faithfulness_metric \<Rightarrow> py_error + prompt" where
  "Faith_verdicts_prompt cs m =
     (case truths m of
        None \<Rightarrow> Inl TypeError
      | Some ts \<Rightarrow>
          Inr (FaithfulnessTemplate_generate_verdicts cs (join [CHR 0x0A, CHR 0x0A] ts)))"

text \<open>\<open>_a_generate_verdicts\<close>: with a native model the stage awaits \<open>a_generate\<close>, otherwise
  it calls the blocking \<open>generate\<close>.\<close>

definition Faith_a_generate_verdicts ::
    "adapter \<Rightarrow> (faithfulness_metric, FaithfulnessVerdict list) prog" where
  "Faith_a_generate_verdicts J =
     seq (read claims) (\<lambda>cl.
       case cl of
         None \<Rightarrow> raise TypeError
       | Some cs \<Rightarrow>
           if length cs = 0 then ret []
           else
             seq (\<lambda>m. (Faith_verdicts_prompt cs m, m)) (\<lambda>prompt.
             seq (read using_native_model) (\<lambda>native.
             seq (invoke (if native then a_generate J else generate J) prompt) (\<lambda>d.
             seq (getkey ''verdicts'' (verdicts_key d)) (\<lambda>items.
             ret (map (\<lambda>(v, r). FaithfulnessVerdict v r) items))))))"

definition Faith_generate_verdicts ::
    "adapter \<Rightarrow> (faithfulness_metric, FaithfulnessVerdict list) prog" where
  "Faith_generate_verdicts J =
     seq (read claims) (\<lambda>cl.
       case cl of
         None \<Rightarrow> raise TypeError
       | Some cs \<Rightarrow>
           if length cs = 0 then ret []
           else
             seq (\<lambda>m. (Faith_verdicts_prompt cs m, m)) (\<lambda>prompt.
             seq (invoke (generate J) prompt) (\<lambda>d.
             seq (getkey ''verdicts'' (verdicts_key d)) (\<lambda>items.
             ret (map (\<lambda>(v, r). FaithfulnessVerdict v r) items)))))"

definition Faith_a_generate_truths ::
    "adapter \<Rightarrow> string list option \<Rightarrow> (faithfulness_metric, string list) prog" where
  "Faith_a_generate_truths J retrieval_context' =
     (case retrieval_context' of
        None \<Rightarrow> raise TypeError
      | Some ctx \<Rightarrow>
          seq (invoke (a_generate J)
                 (FaithfulnessTemplate_generate_truths (join [CHR 0x0A, CHR 0x0A] ctx))) (\<lambda>d.
          getkey ''truths'' (truths_key d)))"

definition Faith_generate_truths ::
    "adapter \<Rightarrow> string list option \<Rightarrow> (faithfulness_metric, string list) prog" where
  "Faith_generate_truths J retrieval_context' =
     (case retrieval_context' of
        None \<Rightarrow> raise TypeError
      | Some ctx \<Rightarrow>
          seq (invoke (generate J)
                 (FaithfulnessTemplate_generate_truths (join [CHR 0x0A, CHR 0x0A] ctx))) (\<lambda>d.
          getkey ''truths'' (truths_key d)))"

definition Faith_a_generate_claims :: "adapter \<Rightarrow> string \<Rightarrow> (faithfulness_metric, string list) prog" where
  "Faith_a_generate_claims J actual_output' =
     seq (invoke (a_generate J) (FaithfulnessTemplate_generate_claims actual_output')) (\<lambda>d.
     getkey ''claims'' (claims_key d))"

definition Faith_generate_claims :: "adapter \<Rightarrow> string \<Rightarrow> (faithfulness_metric, string list) prog" where
  "Faith_generate_claims J actual_output' =
     seq (invoke (generate J) (FaithfulnessTemplate_generate_claims actual_output')) (\<lambda>d.
     getkey ''claims'' (claims_key d))"

text \<open>\<open>self.success = self.score >= self.threshold\<close>\<close>

definition set_success_ge :: "('a base_metric_scheme, unit) prog" where
  "set_success_ge =
     seq (\<lambda>m. (py_ge (score m) (threshold m), m)) (\<lambda>b.
     assign (\<lambda>m. m\<lparr>success := Some b\<rparr>))"

definition Faith_a_measure :: "adapter \<Rightarrow> test_case \<Rightarrow> (faithfulness_metric, real option) prog" where
  "Faith_a_measure J tc =
     seq (check_llm_test_case_params tc Faith_required_params) (\<lambda>_.
     seq reset_cost (\<lambda>_.
     seq (Faith_a_generate_truths J (retrieval_context tc)) (\<lambda>ts.
     seq (Faith_a_generate_claims J (actual_output tc)) (\<lambda>cs.
     seq (assign (\<lambda>m. m\<lparr>truths := Some ts, claims := Some cs\<rparr>)) (\<lambda>_.
     seq (Faith_a_generate_verdicts J) (\<lambda>vs.
     seq (assign (\<lambda>m. m\<lparr>faith_verdicts := Some vs\<rparr>)) (\<lambda>_.
     seq Faith_calculate_score (\<lambda>sc.
     seq (assign (\<lambda>m. m\<lparr>score := Some sc\<rparr>)) (\<lambda>_.
     seq (Faith_a_generate_reason J) (\<lambda>r.
     seq (assign (\<lambda>m. m\<lparr>reason := r\<rparr>)) (\<lambda>_.
     seq set_success_ge (\<lambda>_.
     read score))))))))))))"

definition Faith_measure_async ::
    "adapter \<Rightarrow> test_case \<Rightarrow>
     (faithfulness_metric, string list option \<times> string list option
        \<times> FaithfulnessVerdict list option \<times> real option \<times> string option \<times> bool option) prog" where
  "Faith_measure_async J tc =
     seq (Faith_a_measure J tc) (\<lambda>_.
     read (\<lambda>m. (truths m, claims m, faith_verdicts m, score m, reason m, success m)))"

text \<open>\<open>measure\<close>: as for the bias metric, \<open>return self.score\<close> belongs to the \<open>else\<close>
  branch.\<close>

definition Faith_measure :: "adapter \<Rightarrow> test_case \<Rightarrow> (faithfulness_metric, real option) prog" where
  "Faith_measure J tc =
     seq (check_llm_test_case_params tc Faith_required_params) (\<lambda>_.
     seq reset_cost (\<lambda>_.
     seq (read async_mode) (\<lambda>am.
       if am then
         seq (Faith_measure_async J tc) (\<lambda>(ts, cs, vs, sc, r, su).
         seq (assign (\<lambda>m. m\<lparr>truths := ts, claims := cs, faith_verdicts := vs, score := sc,
                reason := r, success := su\<rparr>)) (\<lambda>_.
         ret None))
       else
         seq (Faith_generate_truths J (retrieval_context tc)) (\<lambda>ts.
         seq (assign (\<lambda>m. m\<lparr>truths := Some ts\<rparr>)) (\<lambda>_.
         seq (Faith_generate_claims J (actual_output tc)) (\<lambda>cs.
         seq (assign (\<lambda>m. m\<lparr>claims := Some cs\<rparr>)) (\<lambda>_.
         seq (Faith_generate_verdicts J) (\<lambda>vs.
         seq (assign (\<lambda>m. m\<lparr>faith_verdicts := Some vs\<rparr>)) (\<lambda>_.
         seq Faith_calculate_score (\<lambda>sc.
         seq (assign (\<lambda>m. m\<lparr>score := Some sc\<rparr>)) (\<lambda>_.
         seq (Faith_generate_reason J) (\<lambda>r.
         seq (assign (\<lambda>m. m\<lparr>reason := r\<rparr>)) (\<lambda>_.
         seq set_success_ge (\<lambda>_.
         read score))))))))))))))"

text \<open>\<open>is_successful\<close> of the faithfulness and of the summarization metric.\<close>

definition is_successful_ge :: "('a base_metric_scheme, bool option) prog" where
  "is_successful_ge = (\<lambda>m.
     let m' =
       (if error m \<noteq> None then m\<lparr>success := Some False\<rparr>
        else (case py_ge (score m) (threshold m) of
                Inr b \<Rightarrow> m\<lparr>success := Some b\<rparr>
              | Inl e \<Rightarrow> m\<lparr>success := Some False\<rparr>))
     in (Inr (success m'), m'))"

definition Faith_is_successful :: "(faithfulness_metric, bool option) prog" where
  "Faith_is_successful = is_successful_ge"


section \<open>SummarizationMetric\<close>

datatype SummarizationAlignmentVerdict =
  SummarizationAlignmentVerdict (align_verdict: string) (align_reason: "string option")

datatype SummarizationCoverageVerdict =
  SummarizationCoverageVerdict (summary_verdict: string) (original_verdict: string)
    (question: "string option")

datatype ScoreType = ALIGNMENT | COVERAGE

text \<open>
  \<open>assessment_questions\<close>, \<open>n\<close> (here \<open>summ_n\<close>) and \<open>score_breakdown\<close> are plain attributes of
  the object;
  the six fields before them are read and written through a \<open>ContextVar\<close>.
  \<open>score_breakdown\<close> holds the alignment and the coverage score.
\<close>

record summarization_metric = base_metric +
  summ_truths :: "string list option"
  summ_claims :: "string list option"
  coverage_verdicts :: "SummarizationCoverageVerdict list option"
  alignment_verdicts :: "SummarizationAlignmentVerdict list option"
  coverage_score :: "real option"
  alignment_score :: "real option"
  assessment_questions :: "string list option"
  summ_n :: int
  score_breakdown :: "(real option \<times> real option) option"

definition Summ_required_params :: "LLMTestCaseParams list" where
  "Summ_required_params = [INPUT, ACTUAL_OUTPUT]"

definition SummarizationMetric ::
    "real \<Rightarrow> int \<Rightarrow> string \<Rightarrow> bool \<Rightarrow> string list option \<Rightarrow> bool \<Rightarrow> bool \<Rightarrow> bool \<Rightarrow> bool
     \<Rightarrow> summarization_metric" where
  "SummarizationMetric thr n' model_name native questions incl_reason async strict verbose =
     \<lparr>threshold = (if strict then 1 else thr), score = None, reason = None, success = None,
      evaluation_model = model_name, strict_mode = strict, async_mode = async,
      verbose_mode = verbose, include_reason = incl_reason, error = None,
      evaluation_cost = None, using_native_model = native, judge_log = [],
      summ_truths = None, summ_claims = None, coverage_verdicts = None,
      alignment_verdicts = None, coverage_score = None, alignment_score = None,
      assessment_questions =
        (case questions of None \<Rightarrow> None | Some qs \<Rightarrow> if length qs = 0 then None else Some qs),
      summ_n = n', score_breakdown = None\<rparr>"

definition Summ_calculate_score :: "ScoreType \<Rightarrow> (summarization_metric, real) prog" where
  "Summ_calculate_score score_type = (\<lambda>m.
     if score_type = ALIGNMENT then
       (case alignment_verdicts m of
          None \<Rightarrow> (Inl TypeError, m)
        | Some vs \<Rightarrow>
            let total = length vs in
            if total = 0 then (Inr 0, m)
            else
              let faithfulness_count =
                    length (filter (\<lambda>v. lower (strip (align_verdict v)) = ''yes'') vs);
                  score = real faithfulness_count / real total
              in (Inr (if strict_mode m \<and> score < threshold m then 0 else score), m))
     else
       if assessment_questions m = None then (Inr 1, m)
       else
         (case coverage_verdicts m of
            None \<Rightarrow> (Inl TypeError, m)
          | Some vs \<Rightarrow>
              let originals = filter (\<lambda>v. lower (strip (original_verdict v)) = ''yes'') vs;
                  total = length originals;
                  coverage_count =
                    length (filter (\<lambda>v. lower (strip (summary_verdict v)) = ''yes'') originals)
              in
              if total = 0 then (Inr 0, m)
              else
                let score = real coverage_count / real total
                in (Inr (if strict_mode m \<and> score < threshold m then 0 else score), m)))"

text \<open>The prompt of the reason stage. \<open>if self.coverage_verdicts:\<close> holds for a list that is
  neither \<open>None\<close> nor empty.\<close>

definition Summ_reason_prompt :: "summarization_metric \<Rightarrow> py_error + prompt" where
  "Summ_reason_prompt m =
     (case alignment_verdicts m of
        None \<Rightarrow> Inl TypeError
      | Some avs \<Rightarrow>
          let contradictions =
                map align_reason (filter (\<lambda>v. lower (strip (align_verdict v)) = ''no'') avs);
              redundancies =
                map align_reason
                  (filter (\<lambda>v. lower (strip (align_verdict v)) \<noteq> ''no''
                              \<and> lower (strip (align_verdict v)) = ''idk'') avs);
              questions =
                (case coverage_verdicts m of
                   None \<Rightarrow> []
                 | Some cvs \<Rightarrow>
                     map question
                       (filter (\<lambda>v. lower (strip (original_verdict v)) = ''yes''
                                   \<and> lower (strip (summary_verdict v)) = ''no'') cvs))
          in
          (case score m of
             None \<Rightarrow> Inl TypeError
           | Some sc \<Rightarrow>
               Inr (SummarizationTemplate_generate_reason contradictions redundancies
                      questions sc)))"

definition Summ_a_generate_reason :: "adapter \<Rightarrow> (summarization_metric, string option) prog" where
  "Summ_a_generate_reason J =
     seq (read include_reason) (\<lambda>incl.
       if \<not> incl then ret None
       else
         seq (\<lambda>m. (Summ_reason_prompt m, m)) (\<lambda>prompt.
         seq (invoke (generate J) prompt) (\<lambda>d.
         seq (getkey ''reason'' (reason_key d)) (\<lambda>r.
         ret (Some r)))))"

definition Summ_generate_reason :: "adapter \<Rightarrow> (summarization_metric, string option) prog" where
  "Summ_generate_reason J =
     seq (read include_reason) (\<lambda>incl.
       if \<not> incl then ret None
       else
         seq (\<lambda>m. (Summ_reason_prompt m, m)) (\<lambda>prompt.
         seq (invoke (generate J) prompt) (\<lambda>d.
         seq (getkey ''reason'' (reason_key d)) (\<lambda>r.
         ret (Some r)))))"

definition Summ_a_generate_answers :: "adapter \<Rightarrow> string \<Rightarrow> (summarization_metric, string list) prog" where
  "Summ_a_generate_answers J text =
     seq (read assessment_questions) (\<lambda>qs.
     seq (invoke (a_generate J) (SummarizationTemplate_generate_answers qs text)) (\<lambda>d.
     getkey ''answers'' (answers_key d)))"

definition Summ_generate_answers :: "adapter \<Rightarrow> string \<Rightarrow> (summarization_metric, string list) prog" where
  "Summ_generate_answers J text =
     seq (read assessment_questions) (\<lambda>qs.
     seq (invoke (generate J) (SummarizationTemplate_generate_answers qs text)) (\<lambda>d.
     getkey ''answers'' (answers_key d)))"

definition Summ_a_generate_assessment_questions ::
    "adapter \<Rightarrow> string \<Rightarrow> (summarization_metric, string list) prog" where
  "Summ_a_generate_assessment_questions J text =
     seq (read summ_n) (\<lambda>k.
     seq (invoke (a_generate J) (SummarizationTemplate_generate_questions text k)) (\<lambda>d.
     getkey ''questions'' (questions_key d)))"

definition Summ_generate_assessment_questions ::
    "adapter \<Rightarrow> string \<Rightarrow> (summarization_metric, string list) prog" where
  "Summ_generate_assessment_questions J text =
     seq (read summ_n) (\<lambda>k.
     seq (invoke (generate J) (SummarizationTemplate_generate_questions text k)) (\<lambda>d.
     getkey ''questions'' (questions_key d)))"

text \<open>
  The loop that pairs the answers:
  \<^verbatim>\<open>
  for i in range(len(original_answers)):
      coverage_veridcts.append(SummarizationCoverageVerdict(
          summary_verdict=summary_answers[i],
          original_verdict=original_answers[i],
          question=self.assessment_questions[i]))
  \<close>
  Reading a list beyond its end raises \<open>IndexError\<close>; subscripting \<open>None\<close> raises
  \<open>TypeError\<close>.
\<close>

fun pair_answers ::
    "nat list \<Rightarrow> string list \<Rightarrow> string list \<Rightarrow> string list option
     \<Rightarrow> SummarizationCoverageVerdict list \<Rightarrow> py_error + SummarizationCoverageVerdict list" where
  "pair_answers [] original_answers summary_answers qs acc = Inr acc"
| "pair_answers (i # is) original_answers summary_answers qs acc =
     (if \<not> i < length summary_answers then Inl IndexError
      else if \<not> i < length original_answers then Inl IndexError
      else
        (case qs of
           None \<Rightarrow> Inl TypeError
         | Some questions \<Rightarrow>
             if \<not> i < length questions then Inl IndexError
             else
               pair_answers is original_answers summary_answers qs
                 (acc @ [SummarizationCoverageVerdict (summary_answers ! i)
                           (original_answers ! i) (Some (questions ! i))])))"

definition Summ_a_generate_coverage_verdicts ::
    "adapter \<Rightarrow> test_case \<Rightarrow> (summarization_metric, SummarizationCoverageVerdict list) prog" where
  "Summ_a_generate_coverage_verdicts J tc =
     seq (read assessment_questions) (\<lambda>aq.
     seq (if aq = None then
            seq (Summ_a_generate_assessment_questions J (input tc)) (\<lambda>qs.
            assign (\<lambda>m. m\<lparr>assessment_questions := Some qs\<rparr>))
          else ret ()) (\<lambda>_.
     seq (Summ_a_generate_answers J (input tc)) (\<lambda>original_answers.
     seq (Summ_a_generate_answers J (actual_output tc)) (\<lambda>summary_answers.
       if length original_answers \<noteq> length summary_answers then
         raise (ValueError ''Number of verdicts generated does not equal.'')
       else
         (\<lambda>m. (pair_answers [0..<length original_answers] original_answers summary_answers
                  (assessment_questions m) [], m))))))"

text \<open>
  In \<open>a_measure\<close> the coverage stage and the alignment stage are gathered:
  \<^verbatim>\<open>
  (self.coverage_verdicts, self.alignment_verdicts) = await asyncio.gather(
      self._a_generate_coverage_verdicts(test_case),
      self._a_generate_alignment_verdicts())
  \<close>
  The coverage task is started first and runs to its first suspension: the call for the
  questions, if there are none, and then the inner \<open>gather\<close> of the two answer tasks,
  which are scheduled behind the alignment task. So the judge is asked for the
  questions, then for the alignment verdicts, then for the two answer lists; the calls
  are answered in the order they are made, and the first error in this order is the one
  the joiner receives. \<open>Summ_a_coverage_questions\<close> is \<open>_a_generate_coverage_verdicts\<close>
  up to its inner \<open>gather\<close>, \<open>Summ_a_coverage_answers\<close> is the rest of it.
\<close>

definition Summ_a_coverage_questions :: "adapter \<Rightarrow> test_case \<Rightarrow> (summarization_metric, unit) prog" where
  "Summ_a_coverage_questions J tc =
     seq (read assessment_questions) (\<lambda>aq.
       if aq = None then
         seq (Summ_a_generate_assessment_questions J (input tc)) (\<lambda>qs.
         assign (\<lambda>m. m\<lparr>assessment_questions := Some qs\<rparr>))
       else ret ())"

definition Summ_a_coverage_answers ::
    "adapter \<Rightarrow> test_case \<Rightarrow> (summarization_metric, SummarizationCoverageVerdict list) prog" where
  "Summ_a_coverage_answers J tc =
     seq (Summ_a_generate_answers J (input tc)) (\<lambda>original_answers.
     seq (Summ_a_generate_answers J (actual_output tc)) (\<lambda>summary_answers.
       if length original_answers \<noteq> length summary_answers then
         raise (ValueError ''Number of verdicts generated does not equal.'')
       else
         (\<lambda>m. (pair_answers [0..<length original_answers] original_answers summary_answers
                  (assessment_questions m) [], m))))"

definition Summ_generate_coverage_verdicts ::
    "adapter \<Rightarrow> test_case \<Rightarrow> (summarization_metric, SummarizationCoverageVerdict list) prog" where
  "Summ_generate_coverage_verdicts J tc =
     seq (read assessment_questions) (\<lambda>aq.
     seq (if aq = None then
            seq (Summ_generate_assessment_questions J (input tc)) (\<lambda>qs.
            assign (\<lambda>m. m\<lparr>assessment_questions := Some qs\<rparr>))
          else ret ()) (\<lambda>_.
     seq (Summ_generate_answers J (input tc)) (\<lambda>original_answers.
     seq (Summ_generate_answers J (actual_output tc)) (\<lambda>summary_answers.
       if length original_answers \<noteq> length summary_answers then
         raise (ValueError ''Number of verdicts generated does not equal.'')
       else
         (\<lambda>m. (pair_answers [0..<length original_answers] original_answers summary_answers
                  (assessment_questions m) [], m))))))"

definition Summ_alignment_prompt :: "string list \<Rightarrow> summarization_metric \<Rightarrow> py_error + prompt" where
  "Summ_alignment_prompt cs m =
     (case summ_truths m of
        None \<Rightarrow> Inl TypeError
      | Some ts \<Rightarrow>
          Inr (SummarizationTemplate_generate_alignment_verdicts cs
                 (join [CHR 0x0A, CHR 0x0A] ts)))"

definition Summ_a_generate_alignment_verdicts ::
    "adapter \<Rightarrow> (summarization_metric, SummarizationAlignmentVerdict list) prog" where
  "Summ_a_generate_alignment_verdicts J =
     seq (read summ_claims) (\<lambda>cl.
       case cl of
         None \<Rightarrow> raise TypeError
       | Some cs \<Rightarrow>
           if length cs = 0 then ret []
           else
             seq (\<lambda>m. (Summ_alignment_prompt cs m, m)) (\<lambda>prompt.
             seq (invoke (a_generate J) prompt) (\<lambda>d.
             seq (getkey ''verdicts'' (verdicts_key d)) (\<lambda>items.
             ret (map (\<lambda>(v, r). SummarizationAlignmentVerdict v r) items)))))"

definition Summ_generate_alignment_verdicts ::
    "adapter \<Rightarrow> (summarization_metric, SummarizationAlignmentVerdict list) prog" where
  "Summ_generate_alignment_verdicts J =
     seq (read summ_claims) (\<lambda>cl.
       case cl of
         None \<Rightarrow> raise TypeError
       | Some cs \<Rightarrow>
           if length cs = 0 then ret []
           else
             seq (\<lambda>m. (Summ_alignment_prompt cs m, m)) (\<lambda>prompt.
             seq (invoke (generate J) prompt) (\<lambda>d.
             seq (getkey ''verdicts'' (verdicts_key d)) (\<lambda>items.
             ret (map (\<lambda>(v, r). SummarizationAlignmentVerdict v r) items)))))"

definition Summ_a_generate_claims :: "adapter \<Rightarrow> string \<Rightarrow> (summarization_metric, string list) prog" where
  "Summ_a_generate_claims J text =
     seq (invoke (a_generate J) (FaithfulnessTemplate_generate_claims text)) (\<lambda>d.
     getkey ''claims'' (claims_key d))"

definition Summ_generate_claims :: "adapter \<Rightarrow> string \<Rightarrow> (summarization_metric, string list) prog" where
  "Summ_generate_claims J text =
     seq (invoke (generate J) (FaithfulnessTemplate_generate_claims text)) (\<lambda>d.
     getkey ''claims'' (claims_key d))"

text \<open>\<open>self.score = min(self.alignment_score, self.coverage_score)\<close>; comparing with
  \<open>None\<close> raises \<open>TypeError\<close>.\<close>

definition Summ_set_score :: "(summarization_metric, unit) prog" where
  "Summ_set_score = (\<lambda>m.
     case alignment_score m of
       None \<Rightarrow> (Inl TypeError, m)
     | Some a \<Rightarrow>
         (case coverage_score m of
            None \<Rightarrow> (Inl TypeError, m)
          | Some c \<Rightarrow> (Inr (), m\<lparr>score := Some (min a c)\<rparr>)))"

text \<open>The two gathered verdict stages of \<open>a_measure\<close>, in the order in which they call
  the judge.\<close>

definition Summ_a_gather_verdicts ::
    "adapter \<Rightarrow> test_case \<Rightarrow>
     (summarization_metric,
      SummarizationCoverageVerdict list \<times> SummarizationAlignmentVerdict list) prog" where
  "Summ_a_gather_verdicts J tc =
     seq (Summ_a_coverage_questions J tc) (\<lambda>_.
     seq (Summ_a_generate_alignment_verdicts J) (\<lambda>avs.
     seq (Summ_a_coverage_answers J tc) (\<lambda>cvs.
     ret (cvs, avs))))"

text \<open>\<open>a_measure\<close>: the breakdown of the score is bound to a local name, not to the
  attribute \<open>score_breakdown\<close>.\<close>

definition Summ_a_measure :: "adapter \<Rightarrow> test_case \<Rightarrow> (summarization_metric, real option) prog" where
  "Summ_a_measure J tc =
     seq (check_llm_test_case_params tc Summ_required_params) (\<lambda>_.
     seq reset_cost (\<lambda>_.
     seq (Summ_a_generate_claims J (input tc)) (\<lambda>ts.
     seq (Summ_a_generate_claims J (actual_output tc)) (\<lambda>cs.
     seq (assign (\<lambda>m. m\<lparr>summ_truths := Some ts, summ_claims := Some cs\<rparr>)) (\<lambda>_.
     seq (Summ_a_gather_verdicts J tc) (\<lambda>(cvs, avs).
     seq (assign (\<lambda>m. m\<lparr>coverage_verdicts := Some cvs, alignment_verdicts := Some avs\<rparr>)) (\<lambda>_.
     seq (Summ_calculate_score ALIGNMENT) (\<lambda>a.
     seq (assign (\<lambda>m. m\<lparr>alignment_score := Some a\<rparr>)) (\<lambda>_.
     seq (Summ_calculate_score COVERAGE) (\<lambda>c.
     seq (assign (\<lambda>m. m\<lparr>coverage_score := Some c\<rparr>)) (\<lambda>_.
     seq Summ_set_score (\<lambda>_.
     seq (Summ_a_generate_reason J) (\<lambda>r.
     seq (assign (\<lambda>m. m\<lparr>reason := r\<rparr>)) (\<lambda>_.
     seq set_success_ge (\<lambda>_.
     read score)))))))))))))))"

definition Summ_measure_async ::
    "adapter \<Rightarrow> test_case \<Rightarrow>
     (summarization_metric, string list option \<times> string list option
        \<times> SummarizationCoverageVerdict list option \<times> SummarizationAlignmentVerdict list option
        \<times> real option \<times> real option \<times> (real option \<times> real option) option
        \<times> real option \<times> string option \<times> bool option) prog" where
  "Summ_measure_async J tc =
     seq (Summ_a_measure J tc) (\<lambda>_.
     read (\<lambda>m. (summ_truths m, summ_claims m, coverage_verdicts m, alignment_verdicts m,
       coverage_score m, alignment_score m, score_breakdown m, score m, reason m, success m)))"

definition Summ_measure :: "adapter \<Rightarrow> test_case \<Rightarrow> (summarization_metric, real option) prog" where
  "Summ_measure J tc =
     seq (check_llm_test_case_params tc Summ_required_params) (\<lambda>_.
     seq reset_cost (\<lambda>_.
     seq (read async_mode) (\<lambda>am.
       if am then
         seq (Summ_measure_async J tc) (\<lambda>(ts, cs, cvs, avs, c, a, sb, sc, r, su).
         seq (assign (\<lambda>m. m\<lparr>summ_truths := ts, summ_claims := cs, coverage_verdicts := cvs,
                alignment_verdicts := avs, coverage_score := c, alignment_score := a,
                score_breakdown := sb, score := sc, reason := r, success := su\<rparr>)) (\<lambda>_.
         ret None))
       else
         seq (Summ_generate_claims J (input tc)) (\<lambda>ts.
         seq (assign (\<lambda>m. m\<lparr>summ_truths := Some ts\<rparr>)) (\<lambda>_.
         seq (Summ_generate_claims J (actual_output tc)) (\<lambda>cs.
         seq (assign (\<lambda>m. m\<lparr>summ_claims := Some cs\<rparr>)) (\<lambda>_.
         seq (Summ_generate_coverage_verdicts J tc) (\<lambda>cvs.
         seq (assign (\<lambda>m. m\<lparr>coverage_verdicts := Some cvs\<rparr>)) (\<lambda>_.
         seq (Summ_generate_alignment_verdicts J) (\<lambda>avs.
         seq (assign (\<lambda>m. m\<lparr>alignment_verdicts := Some avs\<rparr>)) (\<lambda>_.
         seq (Summ_calculate_score ALIGNMENT) (\<lambda>a.
         seq (assign (\<lambda>m. m\<lparr>alignment_score := Some a\<rparr>)) (\<lambda>_.
         seq (Summ_calculate_score COVERAGE) (\<lambda>c.
         seq (assign (\<lambda>m. m\<lparr>coverage_score := Some c\<rparr>)) (\<lambda>_.
         seq (assign (\<lambda>m. m\<lparr>score_breakdown := Some (alignment_score m, coverage_score m)\<rparr>)) (\<lambda>_.
         seq Summ_set_score (\<lambda>_.
         seq (Summ_generate_reason J) (\<lambda>r.
         seq (assign (\<lambda>m. m\<lparr>reason := r\<rparr>)) (\<lambda>_.
         seq set_success_ge (\<lambda>_.
         read score))))))))))))))))))))"

definition Summ_is_successful :: "(summarization_metric, bool option) prog" where
  "Summ_is_successful = is_successful_ge"


section \<open>Evaluations sharing one metric object\<close>

text \<open>
  An evaluation that runs as a task of its own sees the attributes of the shared object
  as they are, and the context variables, the six of the class and those of the base
  class, as they were in the context \<open>launch\<close> the task was started from.
\<close>

definition Summ_task_context ::
    "summarization_metric \<Rightarrow> summarization_metric \<Rightarrow> summarization_metric" where
  "Summ_task_context launch m =
     in_context launch
       (m\<lparr>summ_truths := summ_truths launch, summ_claims := summ_claims launch,
          coverage_verdicts := coverage_verdicts launch,
          alignment_verdicts := alignment_verdicts launch,
          coverage_score := coverage_score launch, alignment_score := alignment_score launch\<rparr>)"

text \<open>The evaluations of a list of test cases by one object, one task after the other, all
  started from the context \<open>launch\<close>.\<close>

fun Summ_evaluate_all ::
    "adapter \<Rightarrow> summarization_metric \<Rightarrow> summarization_metric \<Rightarrow> test_case list
     \<Rightarrow> ((py_error + real option) \<times> summarization_metric) list" where
  "Summ_evaluate_all J launch m [] = []"
| "Summ_evaluate_all J launch m (tc # tcs) =
     (let (r, m') = Summ_a_measure J tc (Summ_task_context launch m)
      in (r, m') # Summ_evaluate_all J launch m' tcs)"

text \<open>The context of a task of the bias metric, with the two context variables of that
  class.\<close>

definition Bias_task_context :: "bias_metric \<Rightarrow> bias_metric \<Rightarrow> bias_metric" where
  "Bias_task_context launch m =
     in_context launch (m\<lparr>opinions := opinions launch, verdicts := verdicts launch\<rparr>)"

section \<open>The orchestrator (\<open>indicator.py\<close>)\<close>

text \<open>
  Modelled from the spec: the result cache. \<open>Cache.get_metric_data\<close> is a parameter of
  the orchestrator; a cached entry carries the metadata of an earlier result.
\<close>

record MetricMetadata =
  cached_score :: "real option"
  cached_threshold :: real
  cached_success :: bool
  cached_reason :: "string option"
  cached_strict_mode :: bool
  cached_evaluation_model :: string

record CachedMetricData =
  metric_metadata :: "MetricMetadata option"

definition cached_metric_metadata ::
    "('m \<Rightarrow> 'c \<Rightarrow> CachedMetricData option) \<Rightarrow> 'm \<Rightarrow> 'c option \<Rightarrow> MetricMetadata option" where
  "cached_metric_metadata get_metric_data metric cached_test_case =
     (case cached_test_case of
        None \<Rightarrow> None
      | Some c \<Rightarrow>
          (case get_metric_data metric c of
             None \<Rightarrow> None
           | Some cached_metric_data \<Rightarrow> metric_metadata cached_metric_data))"

text \<open>
  The progress display, as far as the orchestrator reads it: the amount each task has
  completed, of a total of 100. The display is finished when every task is.
\<close>

type_synonym progress = "nat list"

definition finished :: "progress \<Rightarrow> bool" where
  "finished p = list_all (\<lambda>completed. 100 \<le> completed) p"

text \<open>
  \<open>measure_metric_task\<close>: on a cache hit only the state of the metric is changed, not
  its configuration. A \<open>TypeError\<close> of \<open>a_measure\<close> leads to a second call.
\<close>

definition measure_metric_task ::
    "(test_case \<Rightarrow> ('a base_metric_scheme, real option) prog)
     \<Rightarrow> ('a base_metric_scheme \<Rightarrow> 'c \<Rightarrow> CachedMetricData option)
     \<Rightarrow> nat \<Rightarrow> test_case \<Rightarrow> 'c option
     \<Rightarrow> (progress \<times> 'a base_metric_scheme, unit) prog" where
  "measure_metric_task a_measure get_metric_data task_id tc cached_test_case = (\<lambda>(p, metric).
     if finished p then (Inr (), (p, metric))
     else
       let (r, metric') =
             (case cached_metric_metadata get_metric_data metric cached_test_case of
                Some md \<Rightarrow>
                  (Inr None,
                   metric\<lparr>score := cached_score md, success := Some (cached_success md),
                     reason := cached_reason md\<rparr>)
              | None \<Rightarrow>
                  (case a_measure tc metric of
                     (Inl e, m1) \<Rightarrow> if e = TypeError then a_measure tc m1 else (Inl e, m1)
                   | (Inr v, m1) \<Rightarrow> (Inr v, m1)))
       in
       (case r of
          Inl e \<Rightarrow> (Inl e, (p, metric'))
        | Inr v \<Rightarrow>
            if task_id < length p then (Inr (), (p[task_id := p ! task_id + 100], metric'))
            else (Inl (KeyError ''task_id''), (p, metric'))))"

text \<open>
  \<open>asyncio.gather(*tasks)\<close> over the metrics: every metric is an object of its own, so
  a task changes its metric and the shared display only. The tasks are run in the order
  of the list; the joiner receives the first exception, if any. Every task runs in a
  copy of the context of the caller: after the join the caller reads the attributes of
  a metric as the task left them, and its context variables as they are in the
  caller's own context, which is \<open>task_context metric metric'\<close> for the metric
  \<open>metric\<close> the caller had and the metric \<open>metric'\<close> the task leaves;
  \<open>task_context\<close> is the function of the metric's class (\<open>Bias_task_context\<close>,
  \<open>Summ_task_context\<close>).
\<close>

fun first_error :: "(py_error + 'a) list \<Rightarrow> py_error + unit" where
  "first_error [] = Inr ()"
| "first_error (Inl e # rs) = Inl e"
| "first_error (Inr v # rs) = first_error rs"

fun gather_metric_tasks ::
    "('a base_metric_scheme \<Rightarrow> 'a base_metric_scheme \<Rightarrow> 'a base_metric_scheme)
     \<Rightarrow> (test_case \<Rightarrow> ('a base_metric_scheme, real option) prog)
     \<Rightarrow> ('a base_metric_scheme \<Rightarrow> 'c \<Rightarrow> CachedMetricData option)
     \<Rightarrow> test_case \<Rightarrow> 'c option \<Rightarrow> nat \<Rightarrow> progress \<Rightarrow> 'a base_metric_scheme list
     \<Rightarrow> (py_error + unit) list \<times> progress \<times> 'a base_metric_scheme list" where
  "gather_metric_tasks task_context a_measure get_metric_data tc cached_test_case task_id p [] =
     ([], p, [])"
| "gather_metric_tasks task_context a_measure get_metric_data tc cached_test_case task_id p
       (metric # metrics) =
     (let (r, (p1, metric')) =
            measure_metric_task a_measure get_metric_data task_id tc cached_test_case (p, metric);
          (rs, p2, metrics') =
            gather_metric_tasks task_context a_measure get_metric_data tc cached_test_case
              (Suc task_id) p1 metrics
      in (r # rs, p2, task_context metric metric' # metrics'))"

text \<open>The loop of the branch without a display: a hit sets the metric from the cache, in
  the context of the caller; a miss is scheduled (\<open>True\<close>) and its \<open>a_measure\<close> runs
  as a task of the \<open>gather\<close> that follows the loop.\<close>

definition schedule_metric ::
    "('a base_metric_scheme \<Rightarrow> 'c \<Rightarrow> CachedMetricData option) \<Rightarrow> 'c option
     \<Rightarrow> 'a base_metric_scheme \<Rightarrow> 'a base_metric_scheme \<times> bool" where
  "schedule_metric get_metric_data cached_test_case metric =
     (case cached_metric_metadata get_metric_data metric cached_test_case of
        Some md \<Rightarrow>
          (metric\<lparr>score := cached_score md, threshold := cached_threshold md,
             success := Some (cached_success md), reason := cached_reason md,
             strict_mode := cached_strict_mode md,
             evaluation_model := cached_evaluation_model md\<rparr>, False)
      | None \<Rightarrow> (metric, True))"

definition run_scheduled ::
    "('a base_metric_scheme \<Rightarrow> 'a base_metric_scheme \<Rightarrow> 'a base_metric_scheme)
     \<Rightarrow> (test_case \<Rightarrow> ('a base_metric_scheme, real option) prog) \<Rightarrow> test_case
     \<Rightarrow> 'a base_metric_scheme \<times> bool \<Rightarrow> (py_error + real option) \<times> 'a base_metric_scheme" where
  "run_scheduled task_context a_measure tc = (\<lambda>(metric, scheduled).
     if scheduled then
       (let (r, metric') = a_measure tc metric in (r, task_context metric metric'))
     else (Inr None, metric))"

text \<open>\<open>measure_metrics_with_indicator\<close>; \<open>show_indicator\<close> is the result of
  \<open>show_indicator()\<close>. The result is what the joiner receives and the metrics as the
  caller reads them afterwards.\<close>

definition measure_metrics_with_indicator ::
    "bool \<Rightarrow> ('a base_metric_scheme \<Rightarrow> 'a base_metric_scheme \<Rightarrow> 'a base_metric_scheme)
     \<Rightarrow> (test_case \<Rightarrow> ('a base_metric_scheme, real option) prog)
     \<Rightarrow> ('a base_metric_scheme \<Rightarrow> 'c \<Rightarrow> CachedMetricData option)
     \<Rightarrow> 'a base_metric_scheme list \<Rightarrow> test_case \<Rightarrow> 'c option
     \<Rightarrow> (py_error + unit) \<times> 'a base_metric_scheme list" where
  "measure_metrics_with_indicator show_indicator task_context a_measure get_metric_data metrics
       tc cached_test_case =
     (if show_indicator then
        (let (rs, p, metrics') =
               gather_metric_tasks task_context a_measure get_metric_data tc cached_test_case 0
                 (replicate (length metrics) 0) metrics
         in (first_error rs, metrics'))
      else
        (let results =
               map (run_scheduled task_context a_measure tc)
                 (map (schedule_metric get_metric_data cached_test_case) metrics)
         in (first_error (map fst results), map snd results)))"

section \<open>The quotients of the aggregation rules\<close>

text \<open>
  The quotients as the aggregation rules word them: the verdicts that count, over all
  verdicts; for the coverage score, the pairs whose original and summary labels are both
  \<open>yes\<close>, over the pairs whose original label is \<open>yes\<close>. A label is compared after
  \<open>strip\<close> and \<open>lower\<close>.
\<close>

definition bias_ratio :: "BiasVerdict list \<Rightarrow> real" where
  "bias_ratio vs =
     real (length (filter (\<lambda>v. lower (strip (bias_verdict v)) = ''yes'') vs)) / real (length vs)"

definition faith_ratio :: "FaithfulnessVerdict list \<Rightarrow> real" where
  "faith_ratio vs =
     real (length (filter (\<lambda>v. lower (strip (faith_verdict v)) \<noteq> ''no'') vs)) / real (length vs)"

definition alignment_ratio :: "SummarizationAlignmentVerdict list \<Rightarrow> real" where
  "alignment_ratio vs =
     real (length (filter (\<lambda>v. lower (strip (align_verdict v)) = ''yes'') vs)) / real (length vs)"

definition coverage_denom :: "SummarizationCoverageVerdict list \<Rightarrow> nat" where
  "coverage_denom vs = length (filter (\<lambda>v. lower (strip (original_verdict v)) = ''yes'') vs)"

definition coverage_count :: "SummarizationCoverageVerdict list \<Rightarrow> nat" where
  "coverage_count vs =
     length (filter (\<lambda>v. lower (strip (original_verdict v)) = ''yes''
                        \<and> lower (strip (summary_verdict v)) = ''yes'') vs)"

definition coverage_ratio :: "SummarizationCoverageVerdict list \<Rightarrow> real" where
  "coverage_ratio vs = real (coverage_count vs) / real (coverage_denom vs)"

section \<open>Concrete judges and test cases\<close>

text \<open>A test case, and a judge for the bias metric that finds four opinions, the first
  of them biased.\<close>

definition tc_example :: test_case where
  "tc_example = \<lparr>input = ''question'', actual_output = ''answer'',
     retrieval_context = Some [''passage'']\<rparr>"

fun bias_responses :: "prompt \<Rightarrow> py_error + response \<times> real" where
  "bias_responses (BiasTemplate_generate_opinions t) =
     Inr (Inr (no_data\<lparr>opinions_key := Some [''o1'', ''o2'', ''o3'', ''o4'']\<rparr>), 0)"
| "bias_responses (BiasTemplate_generate_verdicts os) =
     Inr (Inr (no_data\<lparr>verdicts_key :=
       Some [(''yes'', Some ''r1''), (''no'', None), (''no'', None), (''no'', None)]\<rparr>), 0)"
| "bias_responses (BiasTemplate_generate_reason bs sc) =
     Inr (Inr (no_data\<lparr>reason_key := Some ''because''\<rparr>), 0)"
| "bias_responses p = Inl (ModelError ''unexpected prompt'')"

definition bias_judge :: adapter where
  "bias_judge = \<lparr>generate = bias_responses, a_generate = bias_responses\<rparr>"

text \<open>Judges for the faithfulness metric: one finds no claim in the output, so that no
  verdict is asked for; the other finds two claims, both contradicted.\<close>

fun faith_responses_none :: "prompt \<Rightarrow> py_error + response \<times> real" where
  "faith_responses_none (FaithfulnessTemplate_generate_truths t) =
     Inr (Inr (no_data\<lparr>truths_key := Some [''t1'']\<rparr>), 0)"
| "faith_responses_none (FaithfulnessTemplate_generate_claims t) =
     Inr (Inr (no_data\<lparr>claims_key := Some []\<rparr>), 0)"
| "faith_responses_none (FaithfulnessTemplate_generate_reason cs sc) =
     Inr (Inr (no_data\<lparr>reason_key := Some ''because''\<rparr>), 0)"
| "faith_responses_none p = Inl (ModelError ''unexpected prompt'')"

definition faith_judge_none :: adapter where
  "faith_judge_none = \<lparr>generate = faith_responses_none, a_generate = faith_responses_none\<rparr>"

fun faith_responses :: "prompt \<Rightarrow> py_error + response \<times> real" where
  "faith_responses (FaithfulnessTemplate_generate_truths t) =
     Inr (Inr (no_data\<lparr>truths_key := Some [''t1'']\<rparr>), 0)"
| "faith_responses (FaithfulnessTemplate_generate_claims t) =
     Inr (Inr (no_data\<lparr>claims_key := Some [''c1'', ''c2'']\<rparr>), 0)"
| "faith_responses (FaithfulnessTemplate_generate_verdicts cs t) =
     Inr (Inr (no_data\<lparr>verdicts_key := Some [(''no'', Some ''r1''), ('' No'', Some ''r2'')]\<rparr>), 0)"
| "faith_responses (FaithfulnessTemplate_generate_reason cs sc) =
     Inr (Inr (no_data\<lparr>reason_key := Some ''because''\<rparr>), 0)"
| "faith_responses p = Inl (ModelError ''unexpected prompt'')"

definition faith_judge :: adapter where
  "faith_judge = \<lparr>generate = faith_responses, a_generate = faith_responses\<rparr>"

text \<open>
  A judge for the summarization metric. It finds one claim in every text, and every
  claim of a summary aligned. From the text \<open>doc1\<close> it generates the question \<open>q1\<close>,
  from any other text the question \<open>q2\<close>; \<open>q1\<close> is answered \<open>yes\<close> by \<open>doc1\<close> and
  \<open>sum1\<close>, \<open>q2\<close> by \<open>doc2\<close> and \<open>sum2\<close>. To the questions \<open>a, b, c\<close> it answers
  \<open>yes, yes, no\<close> for \<open>doc1\<close> and \<open>yes, no, no\<close> for any other text; to the questions
  \<open>d, e, f\<close> it gives three answers for \<open>doc1\<close> and two for any other text.
\<close>

definition summ_answers :: "string list option \<Rightarrow> string \<Rightarrow> string list" where
  "summ_answers qs t =
     (if qs = Some [''a'', ''b'', ''c''] then
        (if t = ''doc1'' then [''yes'', ''yes'', ''no''] else [''yes'', ''no'', ''no''])
      else if qs = Some [''d'', ''e'', ''f''] then
        (if t = ''doc1'' then [''yes'', ''yes'', ''no''] else [''yes'', ''no''])
      else if qs = Some [''q1''] \<and> (t = ''doc1'' \<or> t = ''sum1'') then [''yes'']
      else if qs = Some [''q2''] \<and> (t = ''doc2'' \<or> t = ''sum2'') then [''yes'']
      else [''no''])"

fun summ_responses :: "prompt \<Rightarrow> py_error + response \<times> real" where
  "summ_responses (FaithfulnessTemplate_generate_claims t) =
     Inr (Inr (no_data\<lparr>claims_key := Some [''claim'']\<rparr>), 0)"
| "summ_responses (SummarizationTemplate_generate_questions t k) =
     Inr (Inr (no_data\<lparr>questions_key := Some (if t = ''doc1'' then [''q1''] else [''q2''])\<rparr>), 0)"
| "summ_responses (SummarizationTemplate_generate_answers qs t) =
     Inr (Inr (no_data\<lparr>answers_key := Some (summ_answers qs t)\<rparr>), 0)"
| "summ_responses (SummarizationTemplate_generate_alignment_verdicts cs t) =
     Inr (Inr (no_data\<lparr>verdicts_key := Some [(''yes'', None)]\<rparr>), 0)"
| "summ_responses (SummarizationTemplate_generate_reason cs rs qs sc) =
     Inr (Inr (no_data\<lparr>reason_key := Some ''because''\<rparr>), 0)"
| "summ_responses p = Inl (ModelError ''unexpected prompt'')"

definition summ_judge :: adapter where
  "summ_judge = \<lparr>generate = summ_responses, a_generate = summ_responses\<rparr>"

definition tc1 :: test_case where
  "tc1 = \<lparr>input = ''doc1'', actual_output = ''sum1'', retrieval_context = None\<rparr>"

definition tc2 :: test_case where
  "tc2 = \<lparr>input = ''doc2'', actual_output = ''sum2'', retrieval_context = None\<rparr>"

definition tc3 :: test_case where
  "tc3 = \<lparr>input = ''doc1'', actual_output = ''other'', retrieval_context = None\<rparr>"

text \<open>
  A cached result of a bias metric with threshold 1/2, evaluation model \<open>judge\<close> and
  without strict mode, and a lookup that has it for every metric that is not strict.
\<close>

definition cached_example :: MetricMetadata where
  "cached_example = \<lparr>cached_score = Some (1/4), cached_threshold = 1/2,
     cached_success = True, cached_reason = Some ''cached'', cached_strict_mode = False,
     cached_evaluation_model = ''judge''\<rparr>"

definition cache_example :: "bias_metric \<Rightarrow> unit \<Rightarrow> CachedMetricData option" where
  "cache_example metric c =
     (if strict_mode metric then None
      else Some \<lparr>metric_metadata = Some cached_example\<rparr>)"

text \<open>A summarization metric without configured questions, to be shared by the
  evaluations of two test cases.\<close>

definition shared_summarizer :: summarization_metric where
  "shared_summarizer = SummarizationMetric (1/2) 5 ''judge'' False None True True False False"

section \<open>Facts about the state transformers\<close>

lemma ret_apply [simp]: "ret x s = (Inr x, s)"
  by (simp add: ret_def)

lemma raise_apply [simp]: "raise e s = (Inl e, s)"
  by (simp add: raise_def)

lemma read_apply [simp]: "read f s = (Inr (f s), s)"
  by (simp add: read_def)

lemma assign_apply [simp]: "assign u s = (Inr (), u s)"
  by (simp add: assign_def)

lemma seq_apply:
  "seq f g s = (case f s of (Inl e, s') \<Rightarrow> (Inl e, s') | (Inr x, s') \<Rightarrow> g x s')"
  by (simp add: seq_def)

lemma seq_Inr:
  "seq f g s = (Inr v, s') \<longleftrightarrow> (\<exists>x s1. f s = (Inr x, s1) \<and> g x s1 = (Inr v, s'))"
  by (auto simp: seq_def split: prod.splits sum.splits)

lemma getkey_Inr: "getkey k v s = (Inr x, s') \<longleftrightarrow> (v = Some x \<and> s' = s)"
  by (auto simp: getkey_def split: option.splits)

lemma check_Inr: "check_llm_test_case_params tc ps s = (Inr x, s') \<Longrightarrow> s' = s"
  by (auto simp: check_llm_test_case_params_def split: if_splits)

lemma reset_cost_apply:
  "reset_cost m =
     (Inr (), m\<lparr>evaluation_cost := (if using_native_model m then Some 0 else None)\<rparr>)"
  by (simp add: reset_cost_def)

text \<open>A call of the judge changes the log and the cost only.\<close>

lemma invoke_frame:
  "invoke g p m = (r, m') \<Longrightarrow>
   \<exists>c. m' = m\<lparr>judge_log := judge_log m @ [p], evaluation_cost := c\<rparr>"
  by (auto simp: invoke_def Let_def split: sum.splits prod.splits if_splits option.splits
      intro: exI[of _ "evaluation_cost m"])

lemma frame_refl:
  "\<exists>l c. (m::'a base_metric_scheme) = m\<lparr>judge_log := l, evaluation_cost := c\<rparr>"
  by (rule exI[of _ "judge_log m"], rule exI[of _ "evaluation_cost m"]) simp

section \<open>Facts about the aggregation rules\<close>

lemma ratio_bounds: "k \<le> l \<Longrightarrow> 0 \<le> real k / real l \<and> real k / real l \<le> 1"
  by (cases "l = 0") (simp_all add: divide_le_eq_1)

lemma bias_ratio_bounds: "0 \<le> bias_ratio vs \<and> bias_ratio vs \<le> 1"
  unfolding bias_ratio_def by (rule ratio_bounds) simp

lemma faith_ratio_bounds: "0 \<le> faith_ratio vs \<and> faith_ratio vs \<le> 1"
  unfolding faith_ratio_def by (rule ratio_bounds) simp

lemma alignment_ratio_bounds: "0 \<le> alignment_ratio vs \<and> alignment_ratio vs \<le> 1"
  unfolding alignment_ratio_def by (rule ratio_bounds) simp

lemma coverage_count_le: "coverage_count vs \<le> coverage_denom vs"
proof -
  have "coverage_count vs =
      length (filter (\<lambda>v. lower (strip (summary_verdict v)) = ''yes'')
        (filter (\<lambda>v. lower (strip (original_verdict v)) = ''yes'') vs))"
    by (simp add: coverage_count_def conj_commute)
  also have "\<dots> \<le> length (filter (\<lambda>v. lower (strip (original_verdict v)) = ''yes'') vs)"
    by (rule length_filter_le)
  finally show ?thesis
    by (simp only: coverage_denom_def)
qed

lemma coverage_ratio_bounds: "0 \<le> coverage_ratio vs \<and> coverage_ratio vs \<le> 1"
  unfolding coverage_ratio_def by (rule ratio_bounds) (rule coverage_count_le)

lemma Bias_calculate_score_Some:
  "verdicts m = Some vs \<Longrightarrow>
   Bias_calculate_score m =
     (Inr (if vs = [] then 0
           else if strict_mode m \<and> bias_ratio vs > threshold m then 1 else bias_ratio vs), m)"
  by (simp add: Bias_calculate_score_def Let_def bias_ratio_def)

lemma Bias_calculate_score_Inr:
  "Bias_calculate_score m = (Inr s, m') \<Longrightarrow>
   m' = m \<and> (\<exists>vs. verdicts m = Some vs \<and>
      s = (if vs = [] then 0
           else if strict_mode m \<and> bias_ratio vs > threshold m then 1 else bias_ratio vs))"
  by (cases "verdicts m") (auto simp: Bias_calculate_score_Some, auto simp: Bias_calculate_score_def)

lemma Faith_calculate_score_Some:
  "faith_verdicts m = Some vs \<Longrightarrow>
   Faith_calculate_score m =
     (Inr (if vs = [] then 1
           else if strict_mode m \<and> faith_ratio vs < threshold m then 0 else faith_ratio vs), m)"
  by (simp add: Faith_calculate_score_def Let_def faith_ratio_def)

lemma Faith_calculate_score_Inr:
  "Faith_calculate_score m = (Inr s, m') \<Longrightarrow>
   m' = m \<and> (\<exists>vs. faith_verdicts m = Some vs \<and>
      s = (if vs = [] then 1
           else if strict_mode m \<and> faith_ratio vs < threshold m then 0 else faith_ratio vs))"
  by (cases "faith_verdicts m")
    (auto simp: Faith_calculate_score_Some, auto simp: Faith_calculate_score_def)

lemma Summ_alignment_Some:
  "alignment_verdicts m = Some vs \<Longrightarrow>
   Summ_calculate_score ALIGNMENT m =
     (Inr (if vs = [] then 0
           else if strict_mode m \<and> alignment_ratio vs < threshold m then 0
           else alignment_ratio vs), m)"
  by (simp add: Summ_calculate_score_def Let_def alignment_ratio_def)

lemma Summ_coverage_Some:
  "coverage_verdicts m = Some vs \<Longrightarrow>
   Summ_calculate_score COVERAGE m =
     (Inr (if assessment_questions m = None then 1
           else if coverage_denom vs = 0 then 0
           else if strict_mode m \<and> coverage_ratio vs < threshold m then 0
           else coverage_ratio vs), m)"
  by (simp add: Summ_calculate_score_def Let_def coverage_ratio_def coverage_count_def
      coverage_denom_def conj_commute)

lemma Bias_score_range:
  "verdicts m = Some vs \<Longrightarrow>
   \<exists>s. Bias_calculate_score m = (Inr s, m) \<and> 0 \<le> s \<and> s \<le> 1"
  using bias_ratio_bounds[where vs=vs] by (simp add: Bias_calculate_score_Some)

lemma Faith_score_range:
  "faith_verdicts m = Some vs \<Longrightarrow>
   \<exists>s. Faith_calculate_score m = (Inr s, m) \<and> 0 \<le> s \<and> s \<le> 1"
  using faith_ratio_bounds[where vs=vs] by (simp add: Faith_calculate_score_Some)

lemma Summ_alignment_range:
  "alignment_verdicts m = Some vs \<Longrightarrow>
   \<exists>s. Summ_calculate_score ALIGNMENT m = (Inr s, m) \<and> 0 \<le> s \<and> s \<le> 1"
  using alignment_ratio_bounds[where vs=vs] by (simp add: Summ_alignment_Some)

lemma Summ_coverage_range:
  "coverage_verdicts m = Some vs \<Longrightarrow>
   \<exists>s. Summ_calculate_score COVERAGE m = (Inr s, m) \<and> 0 \<le> s \<and> s \<le> 1"
  using coverage_ratio_bounds[where vs=vs] by (simp add: Summ_coverage_Some)

text \<open>The scoring statements of the summarization metric, run one after the other.\<close>

lemma Summ_aggregate:
  assumes av: "alignment_verdicts m = Some avs" and cv: "coverage_verdicts m = Some cvs"
  shows "\<exists>a c.
      seq (Summ_calculate_score ALIGNMENT) (\<lambda>a.
      seq (assign (\<lambda>m. m\<lparr>alignment_score := Some a\<rparr>)) (\<lambda>_.
      seq (Summ_calculate_score COVERAGE) (\<lambda>c.
      seq (assign (\<lambda>m. m\<lparr>coverage_score := Some c\<rparr>)) (\<lambda>_.
      seq Summ_set_score (\<lambda>_.
      read score))))) m
        = (Inr (Some (min a c)),
           m\<lparr>alignment_score := Some a, coverage_score := Some c, score := Some (min a c)\<rparr>)
      \<and> 0 \<le> a \<and> a \<le> 1 \<and> 0 \<le> c \<and> c \<le> 1"
proof -
  obtain a where a: "Summ_calculate_score ALIGNMENT m = (Inr a, m)" "0 \<le> a" "a \<le> 1"
    using Summ_alignment_range[OF av] by auto
  have "coverage_verdicts (m\<lparr>alignment_score := Some a\<rparr>) = Some cvs"
    using cv by simp
  from Summ_coverage_range[OF this]
  obtain c where c: "Summ_calculate_score COVERAGE (m\<lparr>alignment_score := Some a\<rparr>)
      = (Inr c, m\<lparr>alignment_score := Some a\<rparr>)" "0 \<le> c" "c \<le> 1"
    by auto
  show ?thesis
    apply (rule exI[of _ a], rule exI[of _ c])
    using a(2,3) c(2,3) by (simp add: seq_apply a(1) c(1) Summ_set_score_def)
qed

lemma is_successful_ge_eq:
  "is_successful_ge m =
     (Inr (Some (error m = None \<and> (case score m of None \<Rightarrow> False | Some s \<Rightarrow> s \<ge> threshold m))),
      m\<lparr>success := Some (error m = None
            \<and> (case score m of None \<Rightarrow> False | Some s \<Rightarrow> s \<ge> threshold m))\<rparr>)"
  by (simp add: is_successful_ge_def py_ge_def Let_def split: option.splits)

lemma Bias_is_successful_eq:
  "Bias_is_successful m =
     (Inr (Some (error m = None \<and> (case score m of None \<Rightarrow> False | Some s \<Rightarrow> s \<le> threshold m))),
      m\<lparr>success := Some (error m = None
            \<and> (case score m of None \<Rightarrow> False | Some s \<Rightarrow> s \<le> threshold m))\<rparr>)"
  by (simp add: Bias_is_successful_def py_le_def Let_def split: option.splits)

section \<open>Facts about the bias metric\<close>

lemma Bias_generate_opinions_frame:
  "Bias_generate_opinions J x m = (Inr os, m') \<Longrightarrow>
   \<exists>l c. m' = m\<lparr>judge_log := l, evaluation_cost := c\<rparr>"
  by (auto simp: Bias_generate_opinions_def seq_Inr getkey_Inr dest!: invoke_frame)

lemma Bias_a_generate_opinions_frame:
  "Bias_a_generate_opinions J x m = (Inr os, m') \<Longrightarrow>
   \<exists>l c. m' = m\<lparr>judge_log := l, evaluation_cost := c\<rparr>"
  by (auto simp: Bias_a_generate_opinions_def seq_Inr getkey_Inr dest!: invoke_frame)

lemma Bias_generate_verdicts_frame:
  "Bias_generate_verdicts J m = (Inr vs, m') \<Longrightarrow>
   \<exists>l c. m' = m\<lparr>judge_log := l, evaluation_cost := c\<rparr>"
  by (auto simp: Bias_generate_verdicts_def seq_Inr getkey_Inr dest!: invoke_frame
      split: option.splits if_splits sum.splits intro: frame_refl)

lemma Bias_a_generate_verdicts_frame:
  "Bias_a_generate_verdicts J m = (Inr vs, m') \<Longrightarrow>
   \<exists>l c. m' = m\<lparr>judge_log := l, evaluation_cost := c\<rparr>"
  by (auto simp: Bias_a_generate_verdicts_def seq_Inr getkey_Inr dest!: invoke_frame
      split: option.splits if_splits sum.splits intro: frame_refl)

lemma Bias_generate_reason_frame:
  "Bias_generate_reason J m = (Inr r, m') \<Longrightarrow>
   \<exists>l c. m' = m\<lparr>judge_log := l, evaluation_cost := c\<rparr>"
  by (auto simp: Bias_generate_reason_def seq_Inr getkey_Inr dest!: invoke_frame
      split: option.splits if_splits sum.splits intro: frame_refl)

lemma Bias_a_generate_reason_frame:
  "Bias_a_generate_reason J m = (Inr r, m') \<Longrightarrow>
   \<exists>l c. m' = m\<lparr>judge_log := l, evaluation_cost := c\<rparr>"
  by (auto simp: Bias_a_generate_reason_def seq_Inr getkey_Inr dest!: invoke_frame
      split: option.splits if_splits sum.splits intro: frame_refl)

lemma Bias_set_success_Inr:
  "Bias_set_success m = (Inr u, m') \<Longrightarrow>
   \<exists>s. score m = Some s \<and> m' = m\<lparr>success := Some (s \<le> threshold m)\<rparr>"
  by (auto simp: Bias_set_success_def seq_Inr py_le_def split: option.splits)

text \<open>What a run of \<open>a_measure\<close> that returns leaves behind.\<close>

lemma Bias_a_measure_Inr:
  assumes "Bias_a_measure J tc m = (Inr r, m')"
  shows "\<exists>vs s. verdicts m' = Some vs \<and> score m' = Some s \<and> r = Some s \<and>
      s = (if vs = [] then 0
           else if strict_mode m \<and> bias_ratio vs > threshold m then 1 else bias_ratio vs) \<and>
      success m' = Some (s \<le> threshold m) \<and> threshold m' = threshold m \<and>
      strict_mode m' = strict_mode m"
proof -
  from assms obtain u0 s0 u1 s1 os s2 vs s4 sc s6 rs s8 u10 s10 where
    st: "check_llm_test_case_params tc Bias_required_params m = (Inr u0, s0)"
      "reset_cost s0 = (Inr u1, s1)"
      "Bias_a_generate_opinions J (actual_output tc) s1 = (Inr os, s2)"
      "Bias_a_generate_verdicts J (s2\<lparr>opinions := Some os\<rparr>) = (Inr vs, s4)"
      "Bias_calculate_score (s4\<lparr>verdicts := Some vs\<rparr>) = (Inr sc, s6)"
      "Bias_a_generate_reason J (s6\<lparr>score := Some sc\<rparr>) = (Inr rs, s8)"
      "Bias_set_success (s8\<lparr>reason := rs\<rparr>) = (Inr u10, s10)"
      "r = score s10" "m' = s10"
    unfolding Bias_a_measure_def seq_Inr by auto
  have e0: "s0 = m" using st(1) by (rule check_Inr)
  obtain c1 where e1: "s1 = m\<lparr>evaluation_cost := c1\<rparr>"
    using st(2) e0 by (auto simp: reset_cost_apply)
  obtain l2 c2 where e2: "s2 = s1\<lparr>judge_log := l2, evaluation_cost := c2\<rparr>"
    using Bias_a_generate_opinions_frame[OF st(3)] by blast
  obtain l4 c4 where e4: "s4 = s2\<lparr>opinions := Some os, judge_log := l4, evaluation_cost := c4\<rparr>"
    using Bias_a_generate_verdicts_frame[OF st(4)] by blast
  from Bias_calculate_score_Inr[OF st(5)] have e6: "s6 = s4\<lparr>verdicts := Some vs\<rparr>"
    and sc: "sc = (if vs = [] then 0
           else if strict_mode s4 \<and> bias_ratio vs > threshold s4 then 1 else bias_ratio vs)"
    by auto
  obtain l8 c8 where e8: "s8 = s6\<lparr>score := Some sc, judge_log := l8, evaluation_cost := c8\<rparr>"
    using Bias_a_generate_reason_frame[OF st(6)] by blast
  from Bias_set_success_Inr[OF st(7)]
  have e10: "s10 = s8\<lparr>reason := rs, success := Some (sc \<le> threshold s8)\<rparr>"
    using e8 by auto
  show ?thesis
    using st(8,9) sc by (simp add: e10 e8 e6 e4 e2 e1)
qed

lemma Bias_measure_sync_Inr:
  assumes "Bias_measure J tc m = (Inr r, m')" and "\<not> async_mode m"
  shows "\<exists>vs s. verdicts m' = Some vs \<and> score m' = Some s \<and> r = Some s \<and>
      s = (if vs = [] then 0
           else if strict_mode m \<and> bias_ratio vs > threshold m then 1 else bias_ratio vs) \<and>
      success m' = Some (s \<le> threshold m) \<and> threshold m' = threshold m \<and>
      strict_mode m' = strict_mode m"
proof -
  from assms(1) obtain u0 s0 u1 s1 where
    pre: "check_llm_test_case_params tc Bias_required_params m = (Inr u0, s0)"
      "reset_cost s0 = (Inr u1, s1)"
    and rest: "(if async_mode s1 then
         seq (Bias_measure_async J tc) (\<lambda>(os, vs, sc, r, su).
         seq (assign (\<lambda>m. m\<lparr>opinions := os, verdicts := vs, score := sc, reason := r,
                success := su\<rparr>)) (\<lambda>_.
         ret None))
       else
         seq (Bias_generate_opinions J (actual_output tc)) (\<lambda>os.
         seq (assign (\<lambda>m. m\<lparr>opinions := Some os\<rparr>)) (\<lambda>_.
         seq (Bias_generate_verdicts J) (\<lambda>vs.
         seq (assign (\<lambda>m. m\<lparr>verdicts := Some vs\<rparr>)) (\<lambda>_.
         seq Bias_calculate_score (\<lambda>sc.
         seq (assign (\<lambda>m. m\<lparr>score := Some sc\<rparr>)) (\<lambda>_.
         seq (Bias_generate_reason J) (\<lambda>r.
         seq (assign (\<lambda>m. m\<lparr>reason := r\<rparr>)) (\<lambda>_.
         seq Bias_set_success (\<lambda>_.
         read score)))))))))) s1 = (Inr r, m')"
    unfolding Bias_measure_def seq_Inr by auto
  have e0: "s0 = m" using pre(1) by (rule check_Inr)
  obtain c1 where e1: "s1 = m\<lparr>evaluation_cost := c1\<rparr>"
    using pre(2) e0 by (auto simp: reset_cost_apply)
  have na: "\<not> async_mode s1" using assms(2) e1 by simp
  from rest na have "seq (Bias_generate_opinions J (actual_output tc)) (\<lambda>os.
         seq (assign (\<lambda>m. m\<lparr>opinions := Some os\<rparr>)) (\<lambda>_.
         seq (Bias_generate_verdicts J) (\<lambda>vs.
         seq (assign (\<lambda>m. m\<lparr>verdicts := Some vs\<rparr>)) (\<lambda>_.
         seq Bias_calculate_score (\<lambda>sc.
         seq (assign (\<lambda>m. m\<lparr>score := Some sc\<rparr>)) (\<lambda>_.
         seq (Bias_generate_reason J) (\<lambda>r.
         seq (assign (\<lambda>m. m\<lparr>reason := r\<rparr>)) (\<lambda>_.
         seq Bias_set_success (\<lambda>_.
         read score))))))))) s1 = (Inr r, m')"
    by simp
  then obtain os s2 vs s4 sc s6 rs s8 u10 s10 where
    st: "Bias_generate_opinions J (actual_output tc) s1 = (Inr os, s2)"
      "Bias_generate_verdicts J (s2\<lparr>opinions := Some os\<rparr>) = (Inr vs, s4)"
      "Bias_calculate_score (s4\<lparr>verdicts := Some vs\<rparr>) = (Inr sc, s6)"
      "Bias_generate_reason J (s6\<lparr>score := Some sc\<rparr>) = (Inr rs, s8)"
      "Bias_set_success (s8\<lparr>reason := rs\<rparr>) = (Inr u10, s10)"
      "r = score s10" "m' = s10"
    unfolding seq_Inr by auto
  obtain l2 c2 where e2: "s2 = s1\<lparr>judge_log := l2, evaluation_cost := c2\<rparr>"
    using Bias_generate_opinions_frame[OF st(1)] by blast
  obtain l4 c4 where e4: "s4 = s2\<lparr>opinions := Some os, judge_log := l4, evaluation_cost := c4\<rparr>"
    using Bias_generate_verdicts_frame[OF st(2)] by blast
  from Bias_calculate_score_Inr[OF st(3)] have e6: "s6 = s4\<lparr>verdicts := Some vs\<rparr>"
    and sc: "sc = (if vs = [] then 0
           else if strict_mode s4 \<and> bias_ratio vs > threshold s4 then 1 else bias_ratio vs)"
    by auto
  obtain l8 c8 where e8: "s8 = s6\<lparr>score := Some sc, judge_log := l8, evaluation_cost := c8\<rparr>"
    using Bias_generate_reason_frame[OF st(4)] by blast
  from Bias_set_success_Inr[OF st(5)]
  have e10: "s10 = s8\<lparr>reason := rs, success := Some (sc \<le> threshold s8)\<rparr>"
    using e8 by auto
  show ?thesis
    using st(6,7) sc by (simp add: e10 e8 e6 e4 e2 e1)
qed

lemma Bias_measure_async_mode_Inr:
  assumes "Bias_measure J tc m = (Inr r, m')" and "async_mode m"
  shows "r = None \<and> (\<exists>m1. Bias_a_measure J tc
      (m\<lparr>evaluation_cost := (if using_native_model m then Some 0 else None)\<rparr>) = (Inr (score m'), m1)
      \<and> m' = m1)"
proof -
  let ?s1 = "m\<lparr>evaluation_cost := (if using_native_model m then Some 0 else None)\<rparr>"
  from assms(1) obtain u0 s0 u1 s1 where
    pre: "check_llm_test_case_params tc Bias_required_params m = (Inr u0, s0)"
      "reset_cost s0 = (Inr u1, s1)"
    and rest: "(if async_mode s1 then
         seq (Bias_measure_async J tc) (\<lambda>(os, vs, sc, r, su).
         seq (assign (\<lambda>m. m\<lparr>opinions := os, verdicts := vs, score := sc, reason := r,
                success := su\<rparr>)) (\<lambda>_.
         ret None))
       else
         seq (Bias_generate_opinions J (actual_output tc)) (\<lambda>os.
         seq (assign (\<lambda>m. m\<lparr>opinions := Some os\<rparr>)) (\<lambda>_.
         seq (Bias_generate_verdicts J) (\<lambda>vs.
         seq (assign (\<lambda>m. m\<lparr>verdicts := Some vs\<rparr>)) (\<lambda>_.
         seq Bias_calculate_score (\<lambda>sc.
         seq (assign (\<lambda>m. m\<lparr>score := Some sc\<rparr>)) (\<lambda>_.
         seq (Bias_generate_reason J) (\<lambda>r.
         seq (assign (\<lambda>m. m\<lparr>reason := r\<rparr>)) (\<lambda>_.
         seq Bias_set_success (\<lambda>_.
         read score)))))))))) s1 = (Inr r, m')"
    unfolding Bias_measure_def seq_Inr by auto
  have e0: "s0 = m" using pre(1) by (rule check_Inr)
  have e1: "s1 = ?s1"
    using pre(2) e0 by (auto simp: reset_cost_apply)
  have am: "async_mode s1" using assms(2) e1 by simp
  from rest am have "seq (Bias_measure_async J tc) (\<lambda>(os, vs, sc, r, su).
         seq (assign (\<lambda>m. m\<lparr>opinions := os, verdicts := vs, score := sc, reason := r,
                success := su\<rparr>)) (\<lambda>_.
         ret None)) s1 = (Inr r, m')"
    by simp
  then obtain x m1 where
    st: "Bias_a_measure J tc s1 = (Inr x, m1)"
      "r = None"
      "m' = m1\<lparr>opinions := opinions m1, verdicts := verdicts m1, score := score m1,
          reason := reason m1, success := success m1\<rparr>"
    by (auto simp: seq_Inr Bias_measure_async_def)
  have "m' = m1" using st(3) by simp
  moreover have "x = score m1"
    using st(1) unfolding Bias_a_measure_def seq_Inr by auto
  ultimately show ?thesis using st(1,2) e1 by simp
qed


section \<open>Evaluation of concrete runs\<close>

lemmas label_eval = lower_def strip_def is_space_def whitespace_def lower_char_def
  upper_chars_def lower_chars_def

lemmas bias_eval = Bias_measure_def Bias_a_measure_def Bias_measure_async_def seq_apply
  check_llm_test_case_params_def Bias_required_params_def reset_cost_def BiasMetric_def
  Bias_generate_opinions_def Bias_a_generate_opinions_def Bias_generate_verdicts_def
  Bias_a_generate_verdicts_def Bias_generate_reason_def Bias_a_generate_reason_def
  Bias_reason_prompt_def Bias_calculate_score_def Bias_set_success_def py_le_def
  invoke_def getkey_def Let_def bias_judge_def tc_example_def no_data_def

lemma bias_run_strict:
  "fst (Bias_measure bias_judge tc_example (BiasMetric (1/2) ''judge'' False True False True False))
     = Inr (Some 1)"
  by (simp add: bias_eval label_eval)

lemma bias_run_plain:
  "fst (Bias_a_measure bias_judge tc_example (BiasMetric (1/2) ''judge'' False True True False False))
     = Inr (Some (1/4))"
  by (simp add: bias_eval label_eval)

lemma bias_run_async:
  "fst (Bias_measure bias_judge tc_example (BiasMetric (1/2) ''judge'' False True True False False))
     = Inr None"
  by (simp add: bias_eval label_eval)

text \<open>With a judge whose two methods answer alike, \<open>measure\<close> leaves the state that
  \<open>a_measure\<close> leaves, and raises what it raises; the value returned differs with
  \<open>async_mode\<close>.\<close>

lemma Bias_stage_eq:
  assumes "generate J = a_generate J"
  shows "Bias_generate_opinions J = Bias_a_generate_opinions J"
    and "Bias_generate_verdicts J = Bias_a_generate_verdicts J"
    and "Bias_generate_reason J = Bias_a_generate_reason J"
  unfolding Bias_generate_opinions_def Bias_a_generate_opinions_def
      Bias_generate_verdicts_def Bias_a_generate_verdicts_def
      Bias_generate_reason_def Bias_a_generate_reason_def assms
  by (rule refl)+

lemma Bias_measure_refines:
  assumes "generate J = a_generate J"
  shows "Bias_measure J tc m =
     (case Bias_a_measure J tc m of
        (Inl e, m') \<Rightarrow> (Inl e, m')
      | (Inr x, m') \<Rightarrow> (Inr (if async_mode m then None else x), m'))"
proof -
  define R where "R =
     seq (Bias_a_generate_opinions J (actual_output tc)) (\<lambda>os.
     seq (assign (\<lambda>m. m\<lparr>opinions := Some os\<rparr>)) (\<lambda>_.
     seq (Bias_a_generate_verdicts J) (\<lambda>vs.
     seq (assign (\<lambda>m. m\<lparr>verdicts := Some vs\<rparr>)) (\<lambda>_.
     seq Bias_calculate_score (\<lambda>sc.
     seq (assign (\<lambda>m. m\<lparr>score := Some sc\<rparr>)) (\<lambda>_.
     seq (Bias_a_generate_reason J) (\<lambda>r.
     seq (assign (\<lambda>m. m\<lparr>reason := r\<rparr>)) (\<lambda>_.
     seq Bias_set_success (\<lambda>_.
     read score)))))))))"
  define reset where "reset = (\<lambda>s::bias_metric.
     s\<lparr>evaluation_cost := (if using_native_model s then Some 0 else None)\<rparr>)"
  have a: "Bias_a_measure J tc s =
      (if list_all (has_param tc) Bias_required_params then R (reset s)
       else (Inl ValidationError, s))" for s
    by (simp add: Bias_a_measure_def R_def reset_def seq_apply check_llm_test_case_params_def
        reset_cost_def)
  have idem: "reset (reset s) = reset s" for s
    by (simp add: reset_def)
  have am: "async_mode (reset s) = async_mode s" for s
    by (simp add: reset_def)
  have b: "Bias_measure J tc s =
      (if list_all (has_param tc) Bias_required_params then
         (if async_mode s then
            (case Bias_a_measure J tc (reset s) of
               (Inl e, m') \<Rightarrow> (Inl e, m')
             | (Inr x, m') \<Rightarrow> (Inr None, m'))
          else R (reset s))
       else (Inl ValidationError, s))" for s
    by (simp add: Bias_measure_def Bias_measure_async_def R_def reset_def seq_apply
        check_llm_test_case_params_def reset_cost_def Bias_stage_eq[OF assms]
        split: prod.splits sum.splits)
  show ?thesis
    by (simp add: a b idem split: prod.splits sum.splits)
qed

section \<open>Facts about the faithfulness metric\<close>

lemma Faith_generate_truths_frame:
  "Faith_generate_truths J x m = (Inr ts, m') \<Longrightarrow>
   \<exists>l c. m' = m\<lparr>judge_log := l, evaluation_cost := c\<rparr>"
  by (auto simp: Faith_generate_truths_def seq_Inr getkey_Inr dest!: invoke_frame
      split: option.splits)

lemma Faith_a_generate_truths_frame:
  "Faith_a_generate_truths J x m = (Inr ts, m') \<Longrightarrow>
   \<exists>l c. m' = m\<lparr>judge_log := l, evaluation_cost := c\<rparr>"
  by (auto simp: Faith_a_generate_truths_def seq_Inr getkey_Inr dest!: invoke_frame
      split: option.splits)

lemma Faith_generate_claims_frame:
  "Faith_generate_claims J x m = (Inr cs, m') \<Longrightarrow>
   \<exists>l c. m' = m\<lparr>judge_log := l, evaluation_cost := c\<rparr>"
  by (auto simp: Faith_generate_claims_def seq_Inr getkey_Inr dest!: invoke_frame)

lemma Faith_a_generate_claims_frame:
  "Faith_a_generate_claims J x m = (Inr cs, m') \<Longrightarrow>
   \<exists>l c. m' = m\<lparr>judge_log := l, evaluation_cost := c\<rparr>"
  by (auto simp: Faith_a_generate_claims_def seq_Inr getkey_Inr dest!: invoke_frame)

lemma Faith_generate_verdicts_frame:
  "Faith_generate_verdicts J m = (Inr vs, m') \<Longrightarrow>
   \<exists>l c. m' = m\<lparr>judge_log := l, evaluation_cost := c\<rparr>"
  by (auto simp: Faith_generate_verdicts_def seq_Inr getkey_Inr dest!: invoke_frame
      split: option.splits if_splits sum.splits intro: frame_refl)

lemma Faith_a_generate_verdicts_frame:
  "Faith_a_generate_verdicts J m = (Inr vs, m') \<Longrightarrow>
   \<exists>l c. m' = m\<lparr>judge_log := l, evaluation_cost := c\<rparr>"
  by (auto simp: Faith_a_generate_verdicts_def seq_Inr getkey_Inr dest!: invoke_frame
      split: option.splits if_splits sum.splits intro: frame_refl)

lemma Faith_generate_reason_frame:
  "Faith_generate_reason J m = (Inr r, m') \<Longrightarrow>
   \<exists>l c. m' = m\<lparr>judge_log := l, evaluation_cost := c\<rparr>"
  by (auto simp: Faith_generate_reason_def seq_Inr getkey_Inr dest!: invoke_frame
      split: option.splits if_splits sum.splits intro: frame_refl)

lemma Faith_a_generate_reason_frame:
  "Faith_a_generate_reason J m = (Inr r, m') \<Longrightarrow>
   \<exists>l c. m' = m\<lparr>judge_log := l, evaluation_cost := c\<rparr>"
  by (auto simp: Faith_a_generate_reason_def seq_Inr getkey_Inr dest!: invoke_frame
      split: option.splits if_splits sum.splits intro: frame_refl)

lemma set_success_ge_Inr:
  "set_success_ge m = (Inr u, m') \<Longrightarrow>
   \<exists>s. score m = Some s \<and> m' = m\<lparr>success := Some (s \<ge> threshold m)\<rparr>"
  by (auto simp: set_success_ge_def seq_Inr py_ge_def split: option.splits)

lemma Faith_a_measure_Inr:
  assumes "Faith_a_measure J tc m = (Inr r, m')"
  shows "\<exists>vs s. faith_verdicts m' = Some vs \<and> score m' = Some s \<and> r = Some s \<and>
      s = (if vs = [] then 1
           else if strict_mode m \<and> faith_ratio vs < threshold m then 0 else faith_ratio vs) \<and>
      success m' = Some (s \<ge> threshold m) \<and> threshold m' = threshold m \<and>
      strict_mode m' = strict_mode m"
proof -
  from assms obtain u0 s0 u1 s1 ts s2 cs s3 vs s4 sc s6 rs s8 u10 s10 where
    st: "check_llm_test_case_params tc Faith_required_params m = (Inr u0, s0)"
      "reset_cost s0 = (Inr u1, s1)"
      "Faith_a_generate_truths J (retrieval_context tc) s1 = (Inr ts, s2)"
      "Faith_a_generate_claims J (actual_output tc) s2 = (Inr cs, s3)"
      "Faith_a_generate_verdicts J (s3\<lparr>truths := Some ts, claims := Some cs\<rparr>) = (Inr vs, s4)"
      "Faith_calculate_score (s4\<lparr>faith_verdicts := Some vs\<rparr>) = (Inr sc, s6)"
      "Faith_a_generate_reason J (s6\<lparr>score := Some sc\<rparr>) = (Inr rs, s8)"
      "set_success_ge (s8\<lparr>reason := rs\<rparr>) = (Inr u10, s10)"
      "r = score s10" "m' = s10"
    unfolding Faith_a_measure_def seq_Inr by auto
  have e0: "s0 = m" using st(1) by (rule check_Inr)
  obtain c1 where e1: "s1 = m\<lparr>evaluation_cost := c1\<rparr>"
    using st(2) e0 by (auto simp: reset_cost_apply)
  obtain l2 c2 where e2: "s2 = s1\<lparr>judge_log := l2, evaluation_cost := c2\<rparr>"
    using Faith_a_generate_truths_frame[OF st(3)] by blast
  obtain l3 c3 where e3: "s3 = s2\<lparr>judge_log := l3, evaluation_cost := c3\<rparr>"
    using Faith_a_generate_claims_frame[OF st(4)] by blast
  obtain l4 c4 where e4: "s4 = s3\<lparr>truths := Some ts, claims := Some cs, judge_log := l4,
      evaluation_cost := c4\<rparr>"
    using Faith_a_generate_verdicts_frame[OF st(5)] by blast
  from Faith_calculate_score_Inr[OF st(6)] have e6: "s6 = s4\<lparr>faith_verdicts := Some vs\<rparr>"
    and sc: "sc = (if vs = [] then 1
           else if strict_mode s4 \<and> faith_ratio vs < threshold s4 then 0 else faith_ratio vs)"
    by auto
  obtain l8 c8 where e8: "s8 = s6\<lparr>score := Some sc, judge_log := l8, evaluation_cost := c8\<rparr>"
    using Faith_a_generate_reason_frame[OF st(7)] by blast
  from set_success_ge_Inr[OF st(8)]
  have e10: "s10 = s8\<lparr>reason := rs, success := Some (sc \<ge> threshold s8)\<rparr>"
    using e8 by auto
  show ?thesis
    using st(9,10) sc by (simp add: e10 e8 e6 e4 e3 e2 e1)
qed

lemma Faith_measure_sync_Inr:
  assumes "Faith_measure J tc m = (Inr r, m')" and "\<not> async_mode m"
  shows "\<exists>vs s. faith_verdicts m' = Some vs \<and> score m' = Some s \<and> r = Some s \<and>
      s = (if vs = [] then 1
           else if strict_mode m \<and> faith_ratio vs < threshold m then 0 else faith_ratio vs) \<and>
      success m' = Some (s \<ge> threshold m) \<and> threshold m' = threshold m \<and>
      strict_mode m' = strict_mode m"
proof -
  from assms(1) obtain u0 s0 u1 s1 where
    pre: "check_llm_test_case_params tc Faith_required_params m = (Inr u0, s0)"
      "reset_cost s0 = (Inr u1, s1)"
    and rest: "(if async_mode s1 then
         seq (Faith_measure_async J tc) (\<lambda>(ts, cs, vs, sc, r, su).
         seq (assign (\<lambda>m. m\<lparr>truths := ts, claims := cs, faith_verdicts := vs, score := sc,
                reason := r, success := su\<rparr>)) (\<lambda>_.
         ret None))
       else
         seq (Faith_generate_truths J (retrieval_context tc)) (\<lambda>ts.
         seq (assign (\<lambda>m. m\<lparr>truths := Some ts\<rparr>)) (\<lambda>_.
         seq (Faith_generate_claims J (actual_output tc)) (\<lambda>cs.
         seq (assign (\<lambda>m. m\<lparr>claims := Some cs\<rparr>)) (\<lambda>_.
         seq (Faith_generate_verdicts J) (\<lambda>vs.
         seq (assign (\<lambda>m. m\<lparr>faith_verdicts := Some vs\<rparr>)) (\<lambda>_.
         seq Faith_calculate_score (\<lambda>sc.
         seq (assign (\<lambda>m. m\<lparr>score := Some sc\<rparr>)) (\<lambda>_.
         seq (Faith_generate_reason J) (\<lambda>r.
         seq (assign (\<lambda>m. m\<lparr>reason := r\<rparr>)) (\<lambda>_.
         seq set_success_ge (\<lambda>_.
         read score)))))))))))) s1 = (Inr r, m')"
    unfolding Faith_measure_def seq_Inr by auto
  have e0: "s0 = m" using pre(1) by (rule check_Inr)
  obtain c1 where e1: "s1 = m\<lparr>evaluation_cost := c1\<rparr>"
    using pre(2) e0 by (auto simp: reset_cost_apply)
  have na: "\<not> async_mode s1" using assms(2) e1 by simp
  from rest na have "seq (Faith_generate_truths J (retrieval_context tc)) (\<lambda>ts.
         seq (assign (\<lambda>m. m\<lparr>truths := Some ts\<rparr>)) (\<lambda>_.
         seq (Faith_generate_claims J (actual_output tc)) (\<lambda>cs.
         seq (assign (\<lambda>m. m\<lparr>claims := Some cs\<rparr>)) (\<lambda>_.
         seq (Faith_generate_verdicts J) (\<lambda>vs.
         seq (assign (\<lambda>m. m\<lparr>faith_verdicts := Some vs\<rparr>)) (\<lambda>_.
         seq Faith_calculate_score (\<lambda>sc.
         seq (assign (\<lambda>m. m\<lparr>score := Some sc\<rparr>)) (\<lambda>_.
         seq (Faith_generate_reason J) (\<lambda>r.
         seq (assign (\<lambda>m. m\<lparr>reason := r\<rparr>)) (\<lambda>_.
         seq set_success_ge (\<lambda>_.
         read score))))))))))) s1 = (Inr r, m')"
    by simp
  then obtain ts s2 cs s3 vs s4 sc s6 rs s8 u10 s10 where
    st: "Faith_generate_truths J (retrieval_context tc) s1 = (Inr ts, s2)"
      "Faith_generate_claims J (actual_output tc) (s2\<lparr>truths := Some ts\<rparr>) = (Inr cs, s3)"
      "Faith_generate_verdicts J (s3\<lparr>claims := Some cs\<rparr>) = (Inr vs, s4)"
      "Faith_calculate_score (s4\<lparr>faith_verdicts := Some vs\<rparr>) = (Inr sc, s6)"
      "Faith_generate_reason J (s6\<lparr>score := Some sc\<rparr>) = (Inr rs, s8)"
      "set_success_ge (s8\<lparr>reason := rs\<rparr>) = (Inr u10, s10)"
      "r = score s10" "m' = s10"
    unfolding seq_Inr by auto
  obtain l2 c2 where e2: "s2 = s1\<lparr>judge_log := l2, evaluation_cost := c2\<rparr>"
    using Faith_generate_truths_frame[OF st(1)] by blast
  obtain l3 c3 where e3: "s3 = s2\<lparr>truths := Some ts, judge_log := l3, evaluation_cost := c3\<rparr>"
    using Faith_generate_claims_frame[OF st(2)] by blast
  obtain l4 c4 where e4: "s4 = s3\<lparr>claims := Some cs, judge_log := l4, evaluation_cost := c4\<rparr>"
    using Faith_generate_verdicts_frame[OF st(3)] by blast
  from Faith_calculate_score_Inr[OF st(4)] have e6: "s6 = s4\<lparr>faith_verdicts := Some vs\<rparr>"
    and sc: "sc = (if vs = [] then 1
           else if strict_mode s4 \<and> faith_ratio vs < threshold s4 then 0 else faith_ratio vs)"
    by auto
  obtain l8 c8 where e8: "s8 = s6\<lparr>score := Some sc, judge_log := l8, evaluation_cost := c8\<rparr>"
    using Faith_generate_reason_frame[OF st(5)] by blast
  from set_success_ge_Inr[OF st(6)]
  have e10: "s10 = s8\<lparr>reason := rs, success := Some (sc \<ge> threshold s8)\<rparr>"
    using e8 by auto
  show ?thesis
    using st(7,8) sc by (simp add: e10 e8 e6 e4 e3 e2 e1)
qed

lemma Faith_measure_async_mode_Inr:
  assumes "Faith_measure J tc m = (Inr r, m')" and "async_mode m"
  shows "r = None \<and> Faith_a_measure J tc
      (m\<lparr>evaluation_cost := (if using_native_model m then Some 0 else None)\<rparr>)
        = (Inr (score m'), m')"
proof -
  let ?s1 = "m\<lparr>evaluation_cost := (if using_native_model m then Some 0 else None)\<rparr>"
  from assms(1) obtain u0 s0 u1 s1 where
    pre: "check_llm_test_case_params tc Faith_required_params m = (Inr u0, s0)"
      "reset_cost s0 = (Inr u1, s1)"
    and rest: "(if async_mode s1 then
         seq (Faith_measure_async J tc) (\<lambda>(ts, cs, vs, sc, r, su).
         seq (assign (\<lambda>m. m\<lparr>truths := ts, claims := cs, faith_verdicts := vs, score := sc,
                reason := r, success := su\<rparr>)) (\<lambda>_.
         ret None))
       else
         seq (Faith_generate_truths J (retrieval_context tc)) (\<lambda>ts.
         seq (assign (\<lambda>m. m\<lparr>truths := Some ts\<rparr>)) (\<lambda>_.
         seq (Faith_generate_claims J (actual_output tc)) (\<lambda>cs.
         seq (assign (\<lambda>m. m\<lparr>claims := Some cs\<rparr>)) (\<lambda>_.
         seq (Faith_generate_verdicts J) (\<lambda>vs.
         seq (assign (\<lambda>m. m\<lparr>faith_verdicts := Some vs\<rparr>)) (\<lambda>_.
         seq Faith_calculate_score (\<lambda>sc.
         seq (assign (\<lambda>m. m\<lparr>score := Some sc\<rparr>)) (\<lambda>_.
         seq (Faith_generate_reason J) (\<lambda>r.
         seq (assign (\<lambda>m. m\<lparr>reason := r\<rparr>)) (\<lambda>_.
         seq set_success_ge (\<lambda>_.
         read score)))))))))))) s1 = (Inr r, m')"
    unfolding Faith_measure_def seq_Inr by auto
  have e0: "s0 = m" using pre(1) by (rule check_Inr)
  have e1: "s1 = ?s1"
    using pre(2) e0 by (auto simp: reset_cost_apply)
  have am: "async_mode s1" using assms(2) e1 by simp
  from rest am have "seq (Faith_measure_async J tc) (\<lambda>(ts, cs, vs, sc, r, su).
         seq (assign (\<lambda>m. m\<lparr>truths := ts, claims := cs, faith_verdicts := vs, score := sc,
                reason := r, success := su\<rparr>)) (\<lambda>_.
         ret None)) s1 = (Inr r, m')"
    by simp
  then obtain x m1 where
    st: "Faith_a_measure J tc s1 = (Inr x, m1)"
      "r = None"
      "m' = m1\<lparr>truths := truths m1, claims := claims m1, faith_verdicts := faith_verdicts m1,
          score := score m1, reason := reason m1, success := success m1\<rparr>"
    by (auto simp: seq_Inr Faith_measure_async_def)
  have "m' = m1" using st(3) by simp
  moreover have "x = score m1"
    using st(1) unfolding Faith_a_measure_def seq_Inr by auto
  ultimately show ?thesis using st(1,2) e1 by simp
qed

lemmas faith_eval = Faith_measure_def Faith_a_measure_def Faith_measure_async_def seq_apply
  check_llm_test_case_params_def Faith_required_params_def reset_cost_def FaithfulnessMetric_def
  Faith_generate_truths_def Faith_a_generate_truths_def Faith_generate_claims_def
  Faith_a_generate_claims_def Faith_generate_verdicts_def Faith_a_generate_verdicts_def
  Faith_verdicts_prompt_def Faith_generate_reason_def Faith_a_generate_reason_def
  Faith_reason_prompt_def Faith_calculate_score_def set_success_ge_def py_ge_def
  invoke_def getkey_def Let_def faith_judge_def faith_judge_none_def tc_example_def no_data_def

lemma faith_run_none:
  "fst (Faith_a_measure faith_judge_none tc_example
      (FaithfulnessMetric (1/2) ''judge'' False True True False False)) = Inr (Some 1)"
  by (simp add: faith_eval label_eval)

lemma faith_run_strict:
  "fst (Faith_measure faith_judge tc_example
      (FaithfulnessMetric (1/2) ''judge'' False True False True False)) = Inr (Some 0)"
  by (simp add: faith_eval label_eval)

lemma faith_run_async:
  "fst (Faith_measure faith_judge tc_example
      (FaithfulnessMetric (1/2) ''judge'' False True True False False)) = Inr None"
  by (simp add: faith_eval label_eval)

lemma Faith_stage_eq:
  assumes "generate J = a_generate J"
  shows "Faith_generate_truths J = Faith_a_generate_truths J"
    and "Faith_generate_claims J = Faith_a_generate_claims J"
    and "Faith_generate_reason J = Faith_a_generate_reason J"
  unfolding Faith_generate_truths_def Faith_a_generate_truths_def
      Faith_generate_claims_def Faith_a_generate_claims_def
      Faith_generate_reason_def Faith_a_generate_reason_def assms
  by (rule refl)+

lemma Faith_verdicts_eq:
  assumes "generate J = a_generate J"
  shows "Faith_generate_verdicts J = Faith_a_generate_verdicts J"
  unfolding Faith_generate_verdicts_def Faith_a_generate_verdicts_def assms if_cancel
  by (simp add: seq_def fun_eq_iff split: option.splits)

text \<open>
  The blocking path stores the truths before it asks for the claims, the suspending path
  stores both once both have arrived: when a stage raises, the two paths may differ in
  the field \<open>truths\<close>, and in nothing else.
\<close>

lemma Faith_measure_refines:
  assumes "generate J = a_generate J"
  shows "\<exists>t. Faith_measure J tc m =
     (case Faith_a_measure J tc m of
        (Inl e, m') \<Rightarrow> (Inl e, m'\<lparr>truths := t\<rparr>)
      | (Inr x, m') \<Rightarrow> (Inr (if async_mode m then None else x), m'))"
proof -
  define T where "T =
     seq (Faith_a_generate_verdicts J) (\<lambda>vs.
     seq (assign (\<lambda>m. m\<lparr>faith_verdicts := Some vs\<rparr>)) (\<lambda>_.
     seq Faith_calculate_score (\<lambda>sc.
     seq (assign (\<lambda>m. m\<lparr>score := Some sc\<rparr>)) (\<lambda>_.
     seq (Faith_a_generate_reason J) (\<lambda>r.
     seq (assign (\<lambda>m. m\<lparr>reason := r\<rparr>)) (\<lambda>_.
     seq set_success_ge (\<lambda>_.
     read score)))))))"
  define R where "R =
     seq (Faith_a_generate_truths J (retrieval_context tc)) (\<lambda>ts.
     seq (Faith_a_generate_claims J (actual_output tc)) (\<lambda>cs.
     seq (assign (\<lambda>m. m\<lparr>truths := Some ts, claims := Some cs\<rparr>)) (\<lambda>_. T)))"
  define R' where "R' =
     seq (Faith_a_generate_truths J (retrieval_context tc)) (\<lambda>ts.
     seq (assign (\<lambda>m. m\<lparr>truths := Some ts\<rparr>)) (\<lambda>_.
     seq (Faith_a_generate_claims J (actual_output tc)) (\<lambda>cs.
     seq (assign (\<lambda>m. m\<lparr>claims := Some cs\<rparr>)) (\<lambda>_. T))))"
  define reset where "reset = (\<lambda>s::faithfulness_metric.
     s\<lparr>evaluation_cost := (if using_native_model s then Some 0 else None)\<rparr>)"
  have claims_truths: "Faith_a_generate_claims J x (s\<lparr>truths := t\<rparr>) =
      (case Faith_a_generate_claims J x s of (r, s') \<Rightarrow> (r, s'\<lparr>truths := t\<rparr>))" for x s t
    by (simp add: Faith_a_generate_claims_def seq_apply invoke_def Let_def getkey_def
        split: sum.splits prod.splits option.splits)
  have RR': "\<exists>t. R' s =
      (case R s of (Inl e, s') \<Rightarrow> (Inl e, s'\<lparr>truths := t\<rparr>) | (Inr x, s') \<Rightarrow> (Inr x, s'))" for s
  proof (cases "Faith_a_generate_truths J (retrieval_context tc) s")
    case (Pair r1 s2)
    show ?thesis
    proof (cases r1)
      case (Inl e)
      with Pair have "R' s = (Inl e, s2)" "R s = (Inl e, s2)"
        by (simp_all add: R_def R'_def seq_apply)
      then show ?thesis
        by (auto intro: exI[of _ "truths s2"])
    next
      case (Inr ts)
      show ?thesis
      proof (cases "Faith_a_generate_claims J (actual_output tc) s2")
        case c: (Pair r2 s3)
        show ?thesis
        proof (cases r2)
          case (Inl e)
          with Pair Inr c have "R' s = (Inl e, s3\<lparr>truths := Some ts\<rparr>)" "R s = (Inl e, s3)"
            by (simp_all add: R_def R'_def seq_apply claims_truths)
          then show ?thesis
            by (auto intro: exI[of _ "Some ts"])
        next
          case cs: (Inr cs)
          with Pair Inr c have "R' s = T (s3\<lparr>truths := Some ts, claims := Some cs\<rparr>)"
            "R s = T (s3\<lparr>truths := Some ts, claims := Some cs\<rparr>)"
            by (simp_all add: R_def R'_def seq_apply claims_truths)
          then show ?thesis
            by (auto split: prod.splits sum.splits intro: exI[of _ "truths (snd (R s))"])
        qed
      qed
    qed
  qed
  have a: "Faith_a_measure J tc s =
      (if list_all (has_param tc) Faith_required_params then R (reset s)
       else (Inl ValidationError, s))" for s
    by (simp add: Faith_a_measure_def R_def T_def reset_def seq_apply
        check_llm_test_case_params_def reset_cost_def)
  have idem: "reset (reset s) = reset s" for s
    by (simp add: reset_def)
  have b: "Faith_measure J tc s =
      (if list_all (has_param tc) Faith_required_params then
         (if async_mode s then
            (case Faith_a_measure J tc (reset s) of
               (Inl e, m') \<Rightarrow> (Inl e, m')
             | (Inr x, m') \<Rightarrow> (Inr None, m'))
          else R' (reset s))
       else (Inl ValidationError, s))" for s
    by (simp add: Faith_measure_def Faith_measure_async_def R'_def T_def reset_def seq_apply
        check_llm_test_case_params_def reset_cost_def Faith_stage_eq[OF assms]
        Faith_verdicts_eq[OF assms] split: prod.splits sum.splits)
  show ?thesis
  proof (cases "list_all (has_param tc) Faith_required_params")
    case False
    then show ?thesis
      by (auto simp: a b intro: exI[of _ "truths m"])
  next
    case True
    show ?thesis
    proof (cases "async_mode m")
      case am: True
      show ?thesis
        by (rule exI[of _ "truths (snd (R (reset m)))"])
          (simp add: a b idem True am split: prod.splits sum.splits)
    next
      case am: False
      from RR'[of "reset m"] obtain t where
        "R' (reset m) = (case R (reset m) of (Inl e, s') \<Rightarrow> (Inl e, s'\<lparr>truths := t\<rparr>)
           | (Inr x, s') \<Rightarrow> (Inr x, s'))"
        by blast
      then show ?thesis
        by (intro exI[of _ t]) (simp add: a b True am split: prod.splits sum.splits)
    qed
  qed
qed

lemma faith_run_plain:
  "fst (Faith_a_measure faith_judge tc_example
      (FaithfulnessMetric (1/2) ''judge'' False True True False False)) = Inr (Some 0)"
  by (simp add: faith_eval label_eval)

section \<open>Facts about the summarization metric\<close>

lemma Summ_generate_claims_frame:
  "Summ_generate_claims J x m = (Inr cs, m') \<Longrightarrow>
   \<exists>l c. m' = m\<lparr>judge_log := l, evaluation_cost := c\<rparr>"
  by (auto simp: Summ_generate_claims_def seq_Inr getkey_Inr dest!: invoke_frame)

lemma Summ_a_generate_claims_frame:
  "Summ_a_generate_claims J x m = (Inr cs, m') \<Longrightarrow>
   \<exists>l c. m' = m\<lparr>judge_log := l, evaluation_cost := c\<rparr>"
  by (auto simp: Summ_a_generate_claims_def seq_Inr getkey_Inr dest!: invoke_frame)

lemma Summ_generate_answers_frame:
  "Summ_generate_answers J x m = (r, m') \<Longrightarrow>
   \<exists>l c. m' = m\<lparr>judge_log := l, evaluation_cost := c\<rparr>"
  by (auto simp: Summ_generate_answers_def seq_apply getkey_def dest!: invoke_frame
      split: prod.splits sum.splits option.splits)

lemma Summ_a_generate_answers_frame:
  "Summ_a_generate_answers J x m = (r, m') \<Longrightarrow>
   \<exists>l c. m' = m\<lparr>judge_log := l, evaluation_cost := c\<rparr>"
  by (auto simp: Summ_a_generate_answers_def seq_apply getkey_def dest!: invoke_frame
      split: prod.splits sum.splits option.splits)

lemma Summ_generate_assessment_questions_frame:
  "Summ_generate_assessment_questions J x m = (r, m') \<Longrightarrow>
   \<exists>l c. m' = m\<lparr>judge_log := l, evaluation_cost := c\<rparr>"
  by (auto simp: Summ_generate_assessment_questions_def seq_apply getkey_def dest!: invoke_frame
      split: prod.splits sum.splits option.splits)

lemma Summ_a_generate_assessment_questions_frame:
  "Summ_a_generate_assessment_questions J x m = (r, m') \<Longrightarrow>
   \<exists>l c. m' = m\<lparr>judge_log := l, evaluation_cost := c\<rparr>"
  by (auto simp: Summ_a_generate_assessment_questions_def seq_apply getkey_def
      dest!: invoke_frame split: prod.splits sum.splits option.splits)

text \<open>The statement that makes sure there are assessment questions.\<close>

lemma Summ_a_questions_block:
  "(if assessment_questions m = None then
      seq (Summ_a_generate_assessment_questions J x) (\<lambda>qs.
      assign (\<lambda>m. m\<lparr>assessment_questions := Some qs\<rparr>))
    else ret ()) m = (Inr u, m') \<Longrightarrow>
   \<exists>l c q. m' = m\<lparr>judge_log := l, evaluation_cost := c, assessment_questions := Some q\<rparr>"
proof (cases "assessment_questions m")
  case None
  assume "(if assessment_questions m = None then
      seq (Summ_a_generate_assessment_questions J x) (\<lambda>qs.
      assign (\<lambda>m. m\<lparr>assessment_questions := Some qs\<rparr>))
    else ret ()) m = (Inr u, m')"
  with None obtain qs s where "Summ_a_generate_assessment_questions J x m = (Inr qs, s)"
      "m' = s\<lparr>assessment_questions := Some qs\<rparr>"
    by (auto simp: seq_Inr)
  then show ?thesis
    using Summ_a_generate_assessment_questions_frame by fastforce
next
  case (Some q)
  assume "(if assessment_questions m = None then
      seq (Summ_a_generate_assessment_questions J x) (\<lambda>qs.
      assign (\<lambda>m. m\<lparr>assessment_questions := Some qs\<rparr>))
    else ret ()) m = (Inr u, m')"
  with Some have "m' = m" by simp
  with Some show ?thesis
    by (intro exI[of _ "judge_log m"] exI[of _ "evaluation_cost m"] exI[of _ q]) simp
qed

lemma Summ_questions_block:
  "(if assessment_questions m = None then
      seq (Summ_generate_assessment_questions J x) (\<lambda>qs.
      assign (\<lambda>m. m\<lparr>assessment_questions := Some qs\<rparr>))
    else ret ()) m = (Inr u, m') \<Longrightarrow>
   \<exists>l c q. m' = m\<lparr>judge_log := l, evaluation_cost := c, assessment_questions := Some q\<rparr>"
proof (cases "assessment_questions m")
  case None
  assume "(if assessment_questions m = None then
      seq (Summ_generate_assessment_questions J x) (\<lambda>qs.
      assign (\<lambda>m. m\<lparr>assessment_questions := Some qs\<rparr>))
    else ret ()) m = (Inr u, m')"
  with None obtain qs s where "Summ_generate_assessment_questions J x m = (Inr qs, s)"
      "m' = s\<lparr>assessment_questions := Some qs\<rparr>"
    by (auto simp: seq_Inr)
  then show ?thesis
    using Summ_generate_assessment_questions_frame by fastforce
next
  case (Some q)
  assume "(if assessment_questions m = None then
      seq (Summ_generate_assessment_questions J x) (\<lambda>qs.
      assign (\<lambda>m. m\<lparr>assessment_questions := Some qs\<rparr>))
    else ret ()) m = (Inr u, m')"
  with Some have "m' = m" by simp
  with Some show ?thesis
    by (intro exI[of _ "judge_log m"] exI[of _ "evaluation_cost m"] exI[of _ q]) simp
qed

lemma Summ_a_generate_coverage_verdicts_frame:
  assumes "Summ_a_generate_coverage_verdicts J tc m = (Inr vs, m')"
  shows "\<exists>l c q. m' = m\<lparr>judge_log := l, evaluation_cost := c, assessment_questions := Some q\<rparr>"
proof -
  from assms obtain u s1 oa s2 sa s3 where
    st: "(if assessment_questions m = None then
            seq (Summ_a_generate_assessment_questions J (input tc)) (\<lambda>qs.
            assign (\<lambda>m. m\<lparr>assessment_questions := Some qs\<rparr>))
          else ret ()) m = (Inr u, s1)"
      "Summ_a_generate_answers J (input tc) s1 = (Inr oa, s2)"
      "Summ_a_generate_answers J (actual_output tc) s2 = (Inr sa, s3)"
      "m' = s3"
    unfolding Summ_a_generate_coverage_verdicts_def seq_Inr
    by (auto split: if_splits)
  from Summ_a_questions_block[OF st(1)] obtain l1 c1 q where
    e1: "s1 = m\<lparr>judge_log := l1, evaluation_cost := c1, assessment_questions := Some q\<rparr>"
    by blast
  from Summ_a_generate_answers_frame[OF st(2)] obtain l2 c2 where
    e2: "s2 = s1\<lparr>judge_log := l2, evaluation_cost := c2\<rparr>" by blast
  from Summ_a_generate_answers_frame[OF st(3)] obtain l3 c3 where
    e3: "s3 = s2\<lparr>judge_log := l3, evaluation_cost := c3\<rparr>" by blast
  show ?thesis
    by (intro exI[of _ l3] exI[of _ c3] exI[of _ q]) (simp add: st(4) e3 e2 e1)
qed

lemma Summ_generate_coverage_verdicts_frame:
  assumes "Summ_generate_coverage_verdicts J tc m = (Inr vs, m')"
  shows "\<exists>l c q. m' = m\<lparr>judge_log := l, evaluation_cost := c, assessment_questions := Some q\<rparr>"
proof -
  from assms obtain u s1 oa s2 sa s3 where
    st: "(if assessment_questions m = None then
            seq (Summ_generate_assessment_questions J (input tc)) (\<lambda>qs.
            assign (\<lambda>m. m\<lparr>assessment_questions := Some qs\<rparr>))
          else ret ()) m = (Inr u, s1)"
      "Summ_generate_answers J (input tc) s1 = (Inr oa, s2)"
      "Summ_generate_answers J (actual_output tc) s2 = (Inr sa, s3)"
      "m' = s3"
    unfolding Summ_generate_coverage_verdicts_def seq_Inr
    by (auto split: if_splits)
  from Summ_questions_block[OF st(1)] obtain l1 c1 q where
    e1: "s1 = m\<lparr>judge_log := l1, evaluation_cost := c1, assessment_questions := Some q\<rparr>"
    by blast
  from Summ_generate_answers_frame[OF st(2)] obtain l2 c2 where
    e2: "s2 = s1\<lparr>judge_log := l2, evaluation_cost := c2\<rparr>" by blast
  from Summ_generate_answers_frame[OF st(3)] obtain l3 c3 where
    e3: "s3 = s2\<lparr>judge_log := l3, evaluation_cost := c3\<rparr>" by blast
  show ?thesis
    by (intro exI[of _ l3] exI[of _ c3] exI[of _ q]) (simp add: st(4) e3 e2 e1)
qed

lemma Summ_generate_alignment_verdicts_frame:
  "Summ_generate_alignment_verdicts J m = (Inr vs, m') \<Longrightarrow>
   \<exists>l c. m' = m\<lparr>judge_log := l, evaluation_cost := c\<rparr>"
  by (auto simp: Summ_generate_alignment_verdicts_def seq_Inr getkey_Inr dest!: invoke_frame
      split: option.splits if_splits sum.splits intro: frame_refl)

lemma Summ_a_generate_alignment_verdicts_frame:
  "Summ_a_generate_alignment_verdicts J m = (Inr vs, m') \<Longrightarrow>
   \<exists>l c. m' = m\<lparr>judge_log := l, evaluation_cost := c\<rparr>"
  by (auto simp: Summ_a_generate_alignment_verdicts_def seq_Inr getkey_Inr dest!: invoke_frame
      split: option.splits if_splits sum.splits intro: frame_refl)

lemma Summ_generate_reason_frame:
  "Summ_generate_reason J m = (Inr r, m') \<Longrightarrow>
   \<exists>l c. m' = m\<lparr>judge_log := l, evaluation_cost := c\<rparr>"
  by (auto simp: Summ_generate_reason_def seq_Inr getkey_Inr dest!: invoke_frame
      split: option.splits if_splits sum.splits intro: frame_refl)

lemma Summ_a_generate_reason_frame:
  "Summ_a_generate_reason J m = (Inr r, m') \<Longrightarrow>
   \<exists>l c. m' = m\<lparr>judge_log := l, evaluation_cost := c\<rparr>"
  by (auto simp: Summ_a_generate_reason_def seq_Inr getkey_Inr dest!: invoke_frame
      split: option.splits if_splits sum.splits intro: frame_refl)

text \<open>The two parts of the coverage stage, and the gathered verdict stages.\<close>

lemma Summ_a_coverage_questions_apply:
  "Summ_a_coverage_questions J tc m =
     (if assessment_questions m = None then
        seq (Summ_a_generate_assessment_questions J (input tc)) (\<lambda>qs.
        assign (\<lambda>m. m\<lparr>assessment_questions := Some qs\<rparr>))
      else ret ()) m"
  by (simp add: Summ_a_coverage_questions_def seq_apply)


lemma Summ_a_coverage_questions_frame:
  assumes "Summ_a_coverage_questions J tc m = (Inr u, m')"
  shows "\<exists>l c q. m' = m\<lparr>judge_log := l, evaluation_cost := c, assessment_questions := Some q\<rparr>"
  using assms unfolding Summ_a_coverage_questions_apply
  by (rule Summ_a_questions_block)

lemma Summ_a_coverage_answers_frame:
  assumes "Summ_a_coverage_answers J tc m = (r, m')"
  shows "\<exists>l c. m' = m\<lparr>judge_log := l, evaluation_cost := c\<rparr>"
proof -
  obtain r1 s1 where a1: "Summ_a_generate_answers J (input tc) m = (r1, s1)"
    by (cases "Summ_a_generate_answers J (input tc) m")
  obtain r2 s2 where a2: "Summ_a_generate_answers J (actual_output tc) s1 = (r2, s2)"
    by (cases "Summ_a_generate_answers J (actual_output tc) s1")
  obtain l1 c1 where e1: "s1 = m\<lparr>judge_log := l1, evaluation_cost := c1\<rparr>"
    using Summ_a_generate_answers_frame[OF a1] by blast
  obtain l2 c2 where e2: "s2 = s1\<lparr>judge_log := l2, evaluation_cost := c2\<rparr>"
    using Summ_a_generate_answers_frame[OF a2] by blast
  have "m' = s1 \<or> m' = s2"
    using assms a1 a2
    by (auto simp: Summ_a_coverage_answers_def seq_apply split: sum.splits if_splits)
  then show ?thesis
  proof
    assume "m' = s1"
    then show ?thesis using e1 by blast
  next
    assume "m' = s2"
    then have "m' = m\<lparr>judge_log := l2, evaluation_cost := c2\<rparr>"
      by (simp add: e2 e1)
    then show ?thesis by blast
  qed
qed

lemma Summ_a_gather_verdicts_Inr:
  assumes "Summ_a_gather_verdicts J tc m = (Inr (cvs, avs), m')"
  shows "\<exists>u s1 s2. Summ_a_coverage_questions J tc m = (Inr u, s1) \<and>
      Summ_a_generate_alignment_verdicts J s1 = (Inr avs, s2) \<and>
      Summ_a_coverage_answers J tc s2 = (Inr cvs, m')"
  using assms unfolding Summ_a_gather_verdicts_def seq_Inr by auto

lemma Summ_a_gather_verdicts_frame:
  assumes "Summ_a_gather_verdicts J tc m = (Inr (cvs, avs), m')"
  shows "\<exists>l c q. m' = m\<lparr>judge_log := l, evaluation_cost := c, assessment_questions := Some q\<rparr>"
proof -
  from Summ_a_gather_verdicts_Inr[OF assms] obtain u s1 s2 where
    st: "Summ_a_coverage_questions J tc m = (Inr u, s1)"
      "Summ_a_generate_alignment_verdicts J s1 = (Inr avs, s2)"
      "Summ_a_coverage_answers J tc s2 = (Inr cvs, m')"
    by blast
  from Summ_a_coverage_questions_frame[OF st(1)] obtain l1 c1 q where
    e1: "s1 = m\<lparr>judge_log := l1, evaluation_cost := c1, assessment_questions := Some q\<rparr>"
    by blast
  from Summ_a_generate_alignment_verdicts_frame[OF st(2)] obtain l2 c2 where
    e2: "s2 = s1\<lparr>judge_log := l2, evaluation_cost := c2\<rparr>" by blast
  from Summ_a_coverage_answers_frame[OF st(3)] obtain l3 c3 where
    e3: "m' = s2\<lparr>judge_log := l3, evaluation_cost := c3\<rparr>" by blast
  show ?thesis
    by (intro exI[of _ l3] exI[of _ c3] exI[of _ q]) (simp add: e3 e2 e1)
qed

lemma Summ_alignment_Inr:
  "Summ_calculate_score ALIGNMENT m = (Inr s, m') \<Longrightarrow>
   m' = m \<and> (\<exists>vs. alignment_verdicts m = Some vs \<and>
      s = (if vs = [] then 0
           else if strict_mode m \<and> alignment_ratio vs < threshold m then 0
           else alignment_ratio vs))"
  by (cases "alignment_verdicts m")
    (auto simp: Summ_alignment_Some, auto simp: Summ_calculate_score_def)

lemma Summ_coverage_Inr:
  "Summ_calculate_score COVERAGE m = (Inr s, m') \<Longrightarrow> assessment_questions m \<noteq> None \<Longrightarrow>
   m' = m \<and> (\<exists>vs. coverage_verdicts m = Some vs \<and>
      s = (if coverage_denom vs = 0 then 0
           else if strict_mode m \<and> coverage_ratio vs < threshold m then 0
           else coverage_ratio vs))"
  by (cases "coverage_verdicts m")
    (auto simp: Summ_coverage_Some, auto simp: Summ_calculate_score_def)

lemma Summ_set_score_Inr:
  "Summ_set_score m = (Inr u, m') \<Longrightarrow>
   \<exists>a c. alignment_score m = Some a \<and> coverage_score m = Some c \<and>
     m' = m\<lparr>score := Some (min a c)\<rparr>"
  by (auto simp: Summ_set_score_def split: option.splits)

text \<open>What a run of \<open>a_measure\<close> that returns leaves behind.\<close>

lemma Summ_a_measure_Inr:
  assumes "Summ_a_measure J tc m = (Inr r, m')"
  shows "\<exists>avs cvs a c. alignment_verdicts m' = Some avs \<and> coverage_verdicts m' = Some cvs \<and>
      alignment_score m' = Some a \<and> coverage_score m' = Some c \<and>
      a = (if avs = [] then 0
           else if strict_mode m \<and> alignment_ratio avs < threshold m then 0
           else alignment_ratio avs) \<and>
      c = (if coverage_denom cvs = 0 then 0
           else if strict_mode m \<and> coverage_ratio cvs < threshold m then 0
           else coverage_ratio cvs) \<and>
      score m' = Some (min a c) \<and> r = Some (min a c) \<and>
      success m' = Some (min a c \<ge> threshold m) \<and> threshold m' = threshold m \<and>
      strict_mode m' = strict_mode m \<and> assessment_questions m' \<noteq> None"
proof -
  from assms obtain u0 s0 u1 s1 ts s2 cs s3 cvs avs s5 a s6 c s7 u8 s8 rs s9 u10 s10 where
    st: "check_llm_test_case_params tc Summ_required_params m = (Inr u0, s0)"
      "reset_cost s0 = (Inr u1, s1)"
      "Summ_a_generate_claims J (input tc) s1 = (Inr ts, s2)"
      "Summ_a_generate_claims J (actual_output tc) s2 = (Inr cs, s3)"
      "Summ_a_gather_verdicts J tc (s3\<lparr>summ_truths := Some ts, summ_claims := Some cs\<rparr>)
         = (Inr (cvs, avs), s5)"
      "Summ_calculate_score ALIGNMENT
         (s5\<lparr>coverage_verdicts := Some cvs, alignment_verdicts := Some avs\<rparr>) = (Inr a, s6)"
      "Summ_calculate_score COVERAGE (s6\<lparr>alignment_score := Some a\<rparr>) = (Inr c, s7)"
      "Summ_set_score (s7\<lparr>coverage_score := Some c\<rparr>) = (Inr u8, s8)"
      "Summ_a_generate_reason J s8 = (Inr rs, s9)"
      "set_success_ge (s9\<lparr>reason := rs\<rparr>) = (Inr u10, s10)"
      "r = score s10" "m' = s10"
    unfolding Summ_a_measure_def seq_Inr by (auto simp: seq_Inr)
  have e0: "s0 = m" using st(1) by (rule check_Inr)
  obtain c1 where e1: "s1 = m\<lparr>evaluation_cost := c1\<rparr>"
    using st(2) e0 by (auto simp: reset_cost_apply)
  obtain l2 c2 where e2: "s2 = s1\<lparr>judge_log := l2, evaluation_cost := c2\<rparr>"
    using Summ_a_generate_claims_frame[OF st(3)] by blast
  obtain l3 c3 where e3: "s3 = s2\<lparr>judge_log := l3, evaluation_cost := c3\<rparr>"
    using Summ_a_generate_claims_frame[OF st(4)] by blast
  obtain l5 c5 q where e5: "s5 = s3\<lparr>summ_truths := Some ts, summ_claims := Some cs,
      judge_log := l5, evaluation_cost := c5, assessment_questions := Some q\<rparr>"
    using Summ_a_gather_verdicts_frame[OF st(5)] by blast
  from Summ_alignment_Inr[OF st(6)]
  have e6: "s6 = s5\<lparr>coverage_verdicts := Some cvs, alignment_verdicts := Some avs\<rparr>"
    and a: "a = (if avs = [] then 0
           else if strict_mode s5 \<and> alignment_ratio avs < threshold s5 then 0
           else alignment_ratio avs)"
    by auto
  have q6: "assessment_questions (s6\<lparr>alignment_score := Some a\<rparr>) \<noteq> None"
    by (simp add: e6 e5)
  from Summ_coverage_Inr[OF st(7) q6]
  have e7: "s7 = s6\<lparr>alignment_score := Some a\<rparr>"
    and c: "c = (if coverage_denom cvs = 0 then 0
           else if strict_mode s5 \<and> coverage_ratio cvs < threshold s5 then 0
           else coverage_ratio cvs)"
    by (auto simp: e6)
  from Summ_set_score_Inr[OF st(8)]
  have e8: "s8 = s7\<lparr>coverage_score := Some c, score := Some (min a c)\<rparr>"
    by (auto simp: e7)
  obtain l9 c9 where e9: "s9 = s8\<lparr>judge_log := l9, evaluation_cost := c9\<rparr>"
    using Summ_a_generate_reason_frame[OF st(9)] by blast
  from set_success_ge_Inr[OF st(10)]
  have e10: "s10 = s9\<lparr>reason := rs, success := Some (min a c \<ge> threshold s9)\<rparr>"
    by (auto simp: e9 e8)
  have cfg: "strict_mode s5 = strict_mode m" "threshold s5 = threshold m"
    by (simp_all add: e5 e3 e2 e1)
  show ?thesis
    apply (rule exI[of _ avs], rule exI[of _ cvs], rule exI[of _ a], rule exI[of _ c])
    using st(11,12) a c cfg
    by (simp add: e10 e9 e8 e7 e6 e5 e3 e2 e1 split del: if_split cong del: if_weak_cong)
qed

lemma Summ_measure_sync_Inr:
  assumes "Summ_measure J tc m = (Inr r, m')" and "\<not> async_mode m"
  shows "\<exists>avs cvs a c. alignment_verdicts m' = Some avs \<and> coverage_verdicts m' = Some cvs \<and>
      alignment_score m' = Some a \<and> coverage_score m' = Some c \<and>
      a = (if avs = [] then 0
           else if strict_mode m \<and> alignment_ratio avs < threshold m then 0
           else alignment_ratio avs) \<and>
      c = (if coverage_denom cvs = 0 then 0
           else if strict_mode m \<and> coverage_ratio cvs < threshold m then 0
           else coverage_ratio cvs) \<and>
      score m' = Some (min a c) \<and> r = Some (min a c) \<and>
      success m' = Some (min a c \<ge> threshold m) \<and> threshold m' = threshold m \<and>
      strict_mode m' = strict_mode m \<and> assessment_questions m' \<noteq> None"
proof -
  from assms(1) obtain u0 s0 u1 s1 where
    pre: "check_llm_test_case_params tc Summ_required_params m = (Inr u0, s0)"
      "reset_cost s0 = (Inr u1, s1)"
    and rest: "(if async_mode s1 then
         seq (Summ_measure_async J tc) (\<lambda>(ts, cs, cvs, avs, c, a, sb, sc, r, su).
         seq (assign (\<lambda>m. m\<lparr>summ_truths := ts, summ_claims := cs, coverage_verdicts := cvs,
                alignment_verdicts := avs, coverage_score := c, alignment_score := a,
                score_breakdown := sb, score := sc, reason := r, success := su\<rparr>)) (\<lambda>_.
         ret None))
       else
         seq (Summ_generate_claims J (input tc)) (\<lambda>ts.
         seq (assign (\<lambda>m. m\<lparr>summ_truths := Some ts\<rparr>)) (\<lambda>_.
         seq (Summ_generate_claims J (actual_output tc)) (\<lambda>cs.
         seq (assign (\<lambda>m. m\<lparr>summ_claims := Some cs\<rparr>)) (\<lambda>_.
         seq (Summ_generate_coverage_verdicts J tc) (\<lambda>cvs.
         seq (assign (\<lambda>m. m\<lparr>coverage_verdicts := Some cvs\<rparr>)) (\<lambda>_.
         seq (Summ_generate_alignment_verdicts J) (\<lambda>avs.
         seq (assign (\<lambda>m. m\<lparr>alignment_verdicts := Some avs\<rparr>)) (\<lambda>_.
         seq (Summ_calculate_score ALIGNMENT) (\<lambda>a.
         seq (assign (\<lambda>m. m\<lparr>alignment_score := Some a\<rparr>)) (\<lambda>_.
         seq (Summ_calculate_score COVERAGE) (\<lambda>c.
         seq (assign (\<lambda>m. m\<lparr>coverage_score := Some c\<rparr>)) (\<lambda>_.
         seq (assign (\<lambda>m. m\<lparr>score_breakdown := Some (alignment_score m, coverage_score m)\<rparr>)) (\<lambda>_.
         seq Summ_set_score (\<lambda>_.
         seq (Summ_generate_reason J) (\<lambda>r.
         seq (assign (\<lambda>m. m\<lparr>reason := r\<rparr>)) (\<lambda>_.
         seq set_success_ge (\<lambda>_.
         read score)))))))))))))))))) s1 = (Inr r, m')"
    unfolding Summ_measure_def seq_Inr by auto
  have e0: "s0 = m" using pre(1) by (rule check_Inr)
  obtain c1 where e1: "s1 = m\<lparr>evaluation_cost := c1\<rparr>"
    using pre(2) e0 by (auto simp: reset_cost_apply)
  have na: "\<not> async_mode s1" using assms(2) e1 by simp
  from rest na have "seq (Summ_generate_claims J (input tc)) (\<lambda>ts.
         seq (assign (\<lambda>m. m\<lparr>summ_truths := Some ts\<rparr>)) (\<lambda>_.
         seq (Summ_generate_claims J (actual_output tc)) (\<lambda>cs.
         seq (assign (\<lambda>m. m\<lparr>summ_claims := Some cs\<rparr>)) (\<lambda>_.
         seq (Summ_generate_coverage_verdicts J tc) (\<lambda>cvs.
         seq (assign (\<lambda>m. m\<lparr>coverage_verdicts := Some cvs\<rparr>)) (\<lambda>_.
         seq (Summ_generate_alignment_verdicts J) (\<lambda>avs.
         seq (assign (\<lambda>m. m\<lparr>alignment_verdicts := Some avs\<rparr>)) (\<lambda>_.
         seq (Summ_calculate_score ALIGNMENT) (\<lambda>a.
         seq (assign (\<lambda>m. m\<lparr>alignment_score := Some a\<rparr>)) (\<lambda>_.
         seq (Summ_calculate_score COVERAGE) (\<lambda>c.
         seq (assign (\<lambda>m. m\<lparr>coverage_score := Some c\<rparr>)) (\<lambda>_.
         seq (assign (\<lambda>m. m\<lparr>score_breakdown := Some (alignment_score m, coverage_score m)\<rparr>)) (\<lambda>_.
         seq Summ_set_score (\<lambda>_.
         seq (Summ_generate_reason J) (\<lambda>r.
         seq (assign (\<lambda>m. m\<lparr>reason := r\<rparr>)) (\<lambda>_.
         seq set_success_ge (\<lambda>_.
         read score))))))))))))))))) s1 = (Inr r, m')"
    by simp
  then obtain ts s2 cs s3 cvs s4 avs s5 a s6 c s7 u8 s8 rs s9 u10 s10 where
    st: "Summ_generate_claims J (input tc) s1 = (Inr ts, s2)"
      "Summ_generate_claims J (actual_output tc) (s2\<lparr>summ_truths := Some ts\<rparr>) = (Inr cs, s3)"
      "Summ_generate_coverage_verdicts J tc (s3\<lparr>summ_claims := Some cs\<rparr>) = (Inr cvs, s4)"
      "Summ_generate_alignment_verdicts J (s4\<lparr>coverage_verdicts := Some cvs\<rparr>) = (Inr avs, s5)"
      "Summ_calculate_score ALIGNMENT (s5\<lparr>alignment_verdicts := Some avs\<rparr>) = (Inr a, s6)"
      "Summ_calculate_score COVERAGE (s6\<lparr>alignment_score := Some a\<rparr>) = (Inr c, s7)"
      "Summ_set_score (s7\<lparr>coverage_score := Some c,
          score_breakdown := Some (alignment_score s7, Some c)\<rparr>) = (Inr u8, s8)"
      "Summ_generate_reason J s8 = (Inr rs, s9)"
      "set_success_ge (s9\<lparr>reason := rs\<rparr>) = (Inr u10, s10)"
      "r = score s10" "m' = s10"
    unfolding seq_Inr by auto
  obtain l2 c2 where e2: "s2 = s1\<lparr>judge_log := l2, evaluation_cost := c2\<rparr>"
    using Summ_generate_claims_frame[OF st(1)] by blast
  obtain l3 c3 where e3: "s3 = s2\<lparr>summ_truths := Some ts, judge_log := l3, evaluation_cost := c3\<rparr>"
    using Summ_generate_claims_frame[OF st(2)] by blast
  obtain l4 c4 q where e4: "s4 = s3\<lparr>summ_claims := Some cs,
      judge_log := l4, evaluation_cost := c4, assessment_questions := Some q\<rparr>"
    using Summ_generate_coverage_verdicts_frame[OF st(3)] by blast
  obtain l5 c5 where e5: "s5 = s4\<lparr>coverage_verdicts := Some cvs, judge_log := l5,
      evaluation_cost := c5\<rparr>"
    using Summ_generate_alignment_verdicts_frame[OF st(4)] by blast
  from Summ_alignment_Inr[OF st(5)]
  have e6: "s6 = s5\<lparr>alignment_verdicts := Some avs\<rparr>"
    and a: "a = (if avs = [] then 0
           else if strict_mode s5 \<and> alignment_ratio avs < threshold s5 then 0
           else alignment_ratio avs)"
    by auto
  have q6: "assessment_questions (s6\<lparr>alignment_score := Some a\<rparr>) \<noteq> None"
    by (simp add: e6 e5 e4)
  from Summ_coverage_Inr[OF st(6) q6]
  have e7: "s7 = s6\<lparr>alignment_score := Some a\<rparr>"
    and c: "c = (if coverage_denom cvs = 0 then 0
           else if strict_mode s5 \<and> coverage_ratio cvs < threshold s5 then 0
           else coverage_ratio cvs)"
    by (auto simp: e6 e5)
  from Summ_set_score_Inr[OF st(7)]
  have e8: "s8 = s7\<lparr>coverage_score := Some c,
      score_breakdown := Some (alignment_score s7, Some c), score := Some (min a c)\<rparr>"
    by (auto simp: e7)
  obtain l9 c9 where e9: "s9 = s8\<lparr>judge_log := l9, evaluation_cost := c9\<rparr>"
    using Summ_generate_reason_frame[OF st(8)] by blast
  from set_success_ge_Inr[OF st(9)]
  have e10: "s10 = s9\<lparr>reason := rs, success := Some (min a c \<ge> threshold s9)\<rparr>"
    by (auto simp: e9 e8)
  have cfg: "strict_mode s5 = strict_mode m" "threshold s5 = threshold m"
    by (simp_all add: e5 e4 e3 e2 e1)
  show ?thesis
    apply (rule exI[of _ avs], rule exI[of _ cvs], rule exI[of _ a], rule exI[of _ c])
    using st(10,11) a c cfg
    by (simp add: e10 e9 e8 e7 e6 e5 e4 e3 e2 e1 split del: if_split cong del: if_weak_cong)
qed

lemma Summ_measure_async_mode_Inr:
  assumes "Summ_measure J tc m = (Inr r, m')" and "async_mode m"
  shows "r = None \<and> Summ_a_measure J tc
      (m\<lparr>evaluation_cost := (if using_native_model m then Some 0 else None)\<rparr>)
        = (Inr (score m'), m')"
proof -
  let ?s1 = "m\<lparr>evaluation_cost := (if using_native_model m then Some 0 else None)\<rparr>"
  from assms(1) obtain u0 s0 u1 s1 where
    pre: "check_llm_test_case_params tc Summ_required_params m = (Inr u0, s0)"
      "reset_cost s0 = (Inr u1, s1)"
    and rest: "(if async_mode s1 then
         seq (Summ_measure_async J tc) (\<lambda>(ts, cs, cvs, avs, c, a, sb, sc, r, su).
         seq (assign (\<lambda>m. m\<lparr>summ_truths := ts, summ_claims := cs, coverage_verdicts := cvs,
                alignment_verdicts := avs, coverage_score := c, alignment_score := a,
                score_breakdown := sb, score := sc, reason := r, success := su\<rparr>)) (\<lambda>_.
         ret None))
       else
         seq (Summ_generate_claims J (input tc)) (\<lambda>ts.
         seq (assign (\<lambda>m. m\<lparr>summ_truths := Some ts\<rparr>)) (\<lambda>_.
         seq (Summ_generate_claims J (actual_output tc)) (\<lambda>cs.
         seq (assign (\<lambda>m. m\<lparr>summ_claims := Some cs\<rparr>)) (\<lambda>_.
         seq (Summ_generate_coverage_verdicts J tc) (\<lambda>cvs.
         seq (assign (\<lambda>m. m\<lparr>coverage_verdicts := Some cvs\<rparr>)) (\<lambda>_.
         seq (Summ_generate_alignment_verdicts J) (\<lambda>avs.
         seq (assign (\<lambda>m. m\<lparr>alignment_verdicts := Some avs\<rparr>)) (\<lambda>_.
         seq (Summ_calculate_score ALIGNMENT) (\<lambda>a.
         seq (assign (\<lambda>m. m\<lparr>alignment_score := Some a\<rparr>)) (\<lambda>_.
         seq (Summ_calculate_score COVERAGE) (\<lambda>c.
         seq (assign (\<lambda>m. m\<lparr>coverage_score := Some c\<rparr>)) (\<lambda>_.
         seq (assign (\<lambda>m. m\<lparr>score_breakdown := Some (alignment_score m, coverage_score m)\<rparr>)) (\<lambda>_.
         seq Summ_set_score (\<lambda>_.
         seq (Summ_generate_reason J) (\<lambda>r.
         seq (assign (\<lambda>m. m\<lparr>reason := r\<rparr>)) (\<lambda>_.
         seq set_success_ge (\<lambda>_.
         read score)))))))))))))))))) s1 = (Inr r, m')"
    unfolding Summ_measure_def seq_Inr by auto
  have e0: "s0 = m" using pre(1) by (rule check_Inr)
  have e1: "s1 = ?s1"
    using pre(2) e0 by (auto simp: reset_cost_apply)
  have am: "async_mode s1" using assms(2) e1 by simp
  from rest am have "seq (Summ_measure_async J tc)
         (\<lambda>(ts, cs, cvs, avs, c, a, sb, sc, r, su).
         seq (assign (\<lambda>m. m\<lparr>summ_truths := ts, summ_claims := cs, coverage_verdicts := cvs,
                alignment_verdicts := avs, coverage_score := c, alignment_score := a,
                score_breakdown := sb, score := sc, reason := r, success := su\<rparr>)) (\<lambda>_.
         ret None)) s1 = (Inr r, m')"
    by simp
  then obtain x m1 where
    st: "Summ_a_measure J tc s1 = (Inr x, m1)"
      "r = None"
      "m' = m1\<lparr>summ_truths := summ_truths m1, summ_claims := summ_claims m1,
          coverage_verdicts := coverage_verdicts m1, alignment_verdicts := alignment_verdicts m1,
          coverage_score := coverage_score m1, alignment_score := alignment_score m1,
          score_breakdown := score_breakdown m1, score := score m1,
          reason := reason m1, success := success m1\<rparr>"
    by (auto simp: seq_Inr Summ_measure_async_def)
  have "m' = m1" using st(3) by simp
  moreover have "x = score m1"
    using st(1) unfolding Summ_a_measure_def seq_Inr by (auto simp: seq_Inr)
  ultimately show ?thesis using st(1,2) e1 by simp
qed

lemmas summ_eval = Summ_measure_def Summ_a_measure_def Summ_measure_async_def seq_apply
  check_llm_test_case_params_def Summ_required_params_def reset_cost_def SummarizationMetric_def
  Summ_generate_claims_def Summ_a_generate_claims_def
  Summ_generate_coverage_verdicts_def Summ_a_generate_coverage_verdicts_def
  Summ_generate_assessment_questions_def Summ_a_generate_assessment_questions_def
  Summ_generate_answers_def Summ_a_generate_answers_def
  Summ_generate_alignment_verdicts_def Summ_a_generate_alignment_verdicts_def
  Summ_alignment_prompt_def Summ_generate_reason_def Summ_a_generate_reason_def
  Summ_reason_prompt_def Summ_calculate_score_def Summ_set_score_def set_success_ge_def py_ge_def
  invoke_def getkey_def Let_def summ_judge_def summ_answers_def tc1_def tc2_def tc3_def
  no_data_def Summ_task_context_def in_context_def Summ_a_gather_verdicts_def
  Summ_a_coverage_questions_def Summ_a_coverage_answers_def

lemma summ_run_abc:
  "fst (Summ_a_measure summ_judge tc3
      (SummarizationMetric (1/2) 5 ''judge'' False (Some [''a'', ''b'', ''c'']) True True False False))
     = Inr (Some (1/2))"
  by (simp add: summ_eval label_eval)

lemma summ_run_abc_strict:
  "coverage_score (snd (Summ_a_measure summ_judge tc3
      (SummarizationMetric (1/2) 5 ''judge'' False (Some [''a'', ''b'', ''c'']) True True True False)))
     = Some 0"
  by (simp add: summ_eval label_eval)


lemma summ_abc_verdicts:
  "coverage_verdicts (snd (Summ_a_measure summ_judge tc3
      (SummarizationMetric (1/2) 5 ''judge'' False (Some [''a'', ''b'', ''c'']) True True strict'
         False)))
     = Some [SummarizationCoverageVerdict ''yes'' ''yes'' (Some ''a''),
             SummarizationCoverageVerdict ''no'' ''yes'' (Some ''b''),
             SummarizationCoverageVerdict ''no'' ''no'' (Some ''c'')]"
  by (simp add: summ_eval label_eval)

lemma abc_counts:
  "coverage_denom [SummarizationCoverageVerdict ''yes'' ''yes'' (Some ''a''),
             SummarizationCoverageVerdict ''no'' ''yes'' (Some ''b''),
             SummarizationCoverageVerdict ''no'' ''no'' (Some ''c'')] = 2"
  "coverage_count [SummarizationCoverageVerdict ''yes'' ''yes'' (Some ''a''),
             SummarizationCoverageVerdict ''no'' ''yes'' (Some ''b''),
             SummarizationCoverageVerdict ''no'' ''no'' (Some ''c'')] = 1"
  by (simp_all add: coverage_denom_def coverage_count_def label_eval)




lemma Summ_a_measure_gather_raises:
  assumes c1: "Summ_a_generate_claims J (input tc)
        (m\<lparr>evaluation_cost := (if using_native_model m then Some 0 else None)\<rparr>) = (Inr ts, s1)"
    and c2: "Summ_a_generate_claims J (actual_output tc) s1 = (Inr cs, s2)"
    and gv: "Summ_a_gather_verdicts J tc
        (s2\<lparr>summ_truths := Some ts, summ_claims := Some cs\<rparr>) = (Inl e, s5)"
  shows "Summ_a_measure J tc m = (Inl e, s5)"
    and "async_mode m \<Longrightarrow> Summ_measure J tc m = (Inl e, s5)"
proof -
  show a: "Summ_a_measure J tc m = (Inl e, s5)"
    unfolding Summ_a_measure_def
    by (simp add: seq_apply check_llm_test_case_params_def Summ_required_params_def
        reset_cost_def c1 c2 gv)
  have a': "Summ_a_measure J tc
      (m\<lparr>evaluation_cost := (if using_native_model m then Some 0 else None)\<rparr>) = (Inl e, s5)"
    unfolding Summ_a_measure_def
    by (simp add: seq_apply check_llm_test_case_params_def Summ_required_params_def
        reset_cost_def c1 c2 gv)
  show "Summ_measure J tc m = (Inl e, s5)" if "async_mode m"
    unfolding Summ_measure_def Summ_measure_async_def
    using that
    by (simp add: seq_apply check_llm_test_case_params_def Summ_required_params_def
        reset_cost_def a')
qed


text \<open>The suspending path: the alignment verdicts are asked for before the answers. If
  that call fails, its error is the one \<open>a_measure\<close> raises.\<close>

lemma Summ_a_alignment_error_first:
  assumes c1: "Summ_a_generate_claims J (input tc)
        (m\<lparr>evaluation_cost := (if using_native_model m then Some 0 else None)\<rparr>) = (Inr ts, s1)"
    and c2: "Summ_a_generate_claims J (actual_output tc) s1 = (Inr cs, s2)"
    and q: "Summ_a_coverage_questions J tc (s2\<lparr>summ_truths := Some ts, summ_claims := Some cs\<rparr>)
        = (Inr (), s3)"
    and al: "Summ_a_generate_alignment_verdicts J s3 = (Inl e, s4)"
  shows "Summ_a_measure J tc m = (Inl e, s4)"
proof -
  have "Summ_a_gather_verdicts J tc (s2\<lparr>summ_truths := Some ts, summ_claims := Some cs\<rparr>)
      = (Inl e, s4)"
    unfolding Summ_a_gather_verdicts_def by (simp add: seq_apply q al)
  from Summ_a_measure_gather_raises(1)[OF c1 c2 this] show ?thesis .
qed













section \<open>The orchestrator on a cache hit\<close>

lemma measure_metric_task_hit:
  assumes "cached_metric_metadata g metric c = Some md"
    and "\<not> finished p"
    and "task_id < length p"
  shows "measure_metric_task a g task_id tc c (p, metric) =
     (Inr (), (p[task_id := p ! task_id + 100],
        metric\<lparr>score := cached_score md, success := Some (cached_success md),
          reason := cached_reason md\<rparr>))"
  by (simp add: measure_metric_task_def assms)

text \<open>A task advances its own entry of the display, or leaves the display as it is.\<close>

lemma measure_metric_task_progress:
  assumes "measure_metric_task a g task_id tc c (p, metric) = (r, (p1, metric'))"
  shows "p1 = p \<or> (task_id < length p \<and> p1 = p[task_id := p ! task_id + 100])"
  using assms
  by (auto simp: measure_metric_task_def Let_def
      split: if_splits option.splits prod.splits sum.splits)

text \<open>While the entries of the tasks still to run are below 100, the display is not
  finished, and the task of a metric with a cached result sets the score, the success
  and the reason of the metric from it. The caller reads the metric in its own
  context.\<close>

lemma gather_metric_tasks_hit:
  assumes "i < length metrics"
    and "cached_metric_metadata g (metrics ! i) c = Some md"
    and "\<forall>j. task_id \<le> j \<and> j < task_id + length metrics \<longrightarrow> j < length p \<and> p ! j < 100"
  shows "snd (snd (gather_metric_tasks ctx a g tc c task_id p metrics)) ! i =
     ctx (metrics ! i)
       ((metrics ! i)\<lparr>score := cached_score md, success := Some (cached_success md),
          reason := cached_reason md\<rparr>)"
  using assms
proof (induction metrics arbitrary: i task_id p)
  case Nil
  then show ?case by simp
next
  case (Cons metric metrics)
  obtain r p1 metric' where t:
    "measure_metric_task a g task_id tc c (p, metric) = (r, (p1, metric'))"
    by (metis prod_cases3)
  obtain rs p2 ms' where gt:
    "gather_metric_tasks ctx a g tc c (Suc task_id) p1 metrics = (rs, p2, ms')"
    by (metis prod_cases3)
  have inv: "\<forall>j. Suc task_id \<le> j \<and> j < Suc task_id + length metrics
      \<longrightarrow> j < length p1 \<and> p1 ! j < 100"
    using measure_metric_task_progress[OF t] Cons.prems(3) by auto
  show ?case
  proof (cases i)
    case 0
    have here: "task_id < length p" "p ! task_id < 100"
      using Cons.prems(3) by auto
    then have nf: "\<not> finished p"
      by (auto simp: finished_def list_all_length)
    have hit: "cached_metric_metadata g metric c = Some md"
      using Cons.prems(2) 0 by simp
    have "metric' = metric\<lparr>score := cached_score md, success := Some (cached_success md),
        reason := cached_reason md\<rparr>"
      using measure_metric_task_hit[OF hit nf here(1), of a tc] t by simp
    then show ?thesis
      using 0 t gt by simp
  next
    case (Suc k)
    then have k: "k < length metrics" "cached_metric_metadata g (metrics ! k) c = Some md"
      using Cons.prems by auto
    have "ms' ! k = ctx (metrics ! k) ((metrics ! k)\<lparr>score := cached_score md,
        success := Some (cached_success md), reason := cached_reason md\<rparr>)"
      using Cons.IH[OF k inv] gt by simp
    then show ?thesis
      using Suc t gt by simp
  qed
qed

lemma orchestrator_hit_with_indicator:
  assumes "i < length metrics"
    and "cached_metric_metadata g (metrics ! i) c = Some md"
  shows "snd (measure_metrics_with_indicator True ctx a g metrics tc c) ! i =
     ctx (metrics ! i)
       ((metrics ! i)\<lparr>score := cached_score md, success := Some (cached_success md),
          reason := cached_reason md\<rparr>)"
proof -
  have "snd (snd (gather_metric_tasks ctx a g tc c 0 (replicate (length metrics) 0) metrics))
      ! i =
     ctx (metrics ! i)
       ((metrics ! i)\<lparr>score := cached_score md, success := Some (cached_success md),
          reason := cached_reason md\<rparr>)"
    by (rule gather_metric_tasks_hit[OF assms]) simp
  then show ?thesis
    by (auto simp add: measure_metrics_with_indicator_def split: prod.splits)
qed

text \<open>Without the display a hit is handled in the loop of the caller, which sets six
  fields of the metric; the metric is not measured.\<close>

lemma orchestrator_hit_without_indicator:
  assumes "i < length metrics"
    and "cached_metric_metadata g (metrics ! i) c = Some md"
  shows "snd (measure_metrics_with_indicator False ctx a g metrics tc c) ! i =
     (metrics ! i)\<lparr>score := cached_score md, threshold := cached_threshold md,
        success := Some (cached_success md), reason := cached_reason md,
        strict_mode := cached_strict_mode md,
        evaluation_model := cached_evaluation_model md\<rparr>"
  using assms
  by (simp add: measure_metrics_with_indicator_def run_scheduled_def schedule_metric_def)

text \<open>What a task assigns to \<open>score\<close>, \<open>success\<close> and \<open>reason\<close> is not read by its
  caller.\<close>

lemma Bias_task_context_assigned:
  "Bias_task_context m (m\<lparr>score := a, success := b, reason := c\<rparr>) = m"
  by (simp add: Bias_task_context_def in_context_def)

section \<open>Two evaluations by one summarization metric\<close>

lemma shared_alone:
  "fst (Summ_a_measure summ_judge tc2 shared_summarizer) = Inr (Some 1)"
  by (simp add: shared_summarizer_def summ_eval label_eval)

lemma shared_12:
  "map fst (Summ_evaluate_all summ_judge shared_summarizer shared_summarizer [tc1, tc2])
     = [Inr (Some 1), Inr (Some 0)]"
  by (simp add: shared_summarizer_def summ_eval label_eval)

lemma shared_21:
  "map fst (Summ_evaluate_all summ_judge shared_summarizer shared_summarizer [tc2, tc1])
     = [Inr (Some 1), Inr (Some 0)]"
  by (simp add: shared_summarizer_def summ_eval label_eval)

lemma shared_12_questions:
  "assessment_questions (snd (Summ_evaluate_all summ_judge shared_summarizer shared_summarizer
      [tc1, tc2] ! 1)) = Some [''q1'']"
  by (simp add: shared_summarizer_def summ_eval label_eval)

lemma shared_12_log:
  "SummarizationTemplate_generate_answers (Some [''q1'']) ''doc2''
     \<in> set (judge_log (snd (Summ_evaluate_all summ_judge shared_summarizer shared_summarizer
          [tc1, tc2] ! 1)))"
  by (simp add: shared_summarizer_def summ_eval label_eval)

section \<open>The claims\<close>

text \<open>
  Claim C9. For each of the three metrics and every state of the metric object,
  \<open>is_successful\<close> returns a boolean and does not raise: this holds when an error is
  recorded, and when no score was ever computed (the comparison of \<open>None\<close> with the
  threshold raises and is caught). With an error recorded the result is \<open>False\<close>, and
  \<open>success\<close> is set to it.
\<close>

theorem is_successful_never_raises:
  "(\<exists>b. Bias_is_successful mb = (Inr (Some b), mb\<lparr>success := Some b\<rparr>)) \<and>
   (\<exists>b. Faith_is_successful mf = (Inr (Some b), mf\<lparr>success := Some b\<rparr>)) \<and>
   (\<exists>b. Summ_is_successful ms = (Inr (Some b), ms\<lparr>success := Some b\<rparr>)) \<and>
   Bias_is_successful (mb\<lparr>error := Some e\<rparr>)
     = (Inr (Some False), mb\<lparr>error := Some e, success := Some False\<rparr>) \<and>
   Faith_is_successful (mf\<lparr>error := Some e\<rparr>)
     = (Inr (Some False), mf\<lparr>error := Some e, success := Some False\<rparr>) \<and>
   Summ_is_successful (ms\<lparr>error := Some e\<rparr>)
     = (Inr (Some False), ms\<lparr>error := Some e, success := Some False\<rparr>) \<and>
   Bias_is_successful (mb\<lparr>error := None, score := None\<rparr>)
     = (Inr (Some False), mb\<lparr>error := None, score := None, success := Some False\<rparr>) \<and>
   Faith_is_successful (mf\<lparr>error := None, score := None\<rparr>)
     = (Inr (Some False), mf\<lparr>error := None, score := None, success := Some False\<rparr>) \<and>
   Summ_is_successful (ms\<lparr>error := None, score := None\<rparr>)
     = (Inr (Some False), ms\<lparr>error := None, score := None, success := Some False\<rparr>)"
  by (simp add: Bias_is_successful_eq Faith_is_successful_def Summ_is_successful_def
      is_successful_ge_eq)

text \<open>
  Claim C10. For every list of verdicts and every configuration of the metric, the
  aggregation stage returns a score between 0 and 1: \<open>_calculate_score\<close> of the bias and
  of the faithfulness metric, and for the summarization metric the alignment score, the
  coverage score and their minimum, as the scoring statements of \<open>a_measure\<close> compute
  them. The empty-input defaults and the values snapped by strict mode are included.
\<close>

theorem score_in_unit_interval:
  "(\<exists>s. Bias_calculate_score (mb\<lparr>verdicts := Some bvs\<rparr>) = (Inr s, mb\<lparr>verdicts := Some bvs\<rparr>)
        \<and> 0 \<le> s \<and> s \<le> 1) \<and>
   (\<exists>s. Faith_calculate_score (mf\<lparr>faith_verdicts := Some fvs\<rparr>)
          = (Inr s, mf\<lparr>faith_verdicts := Some fvs\<rparr>)
        \<and> 0 \<le> s \<and> s \<le> 1) \<and>
   (\<exists>a c ms'.
      seq (Summ_calculate_score ALIGNMENT) (\<lambda>a.
      seq (assign (\<lambda>m. m\<lparr>alignment_score := Some a\<rparr>)) (\<lambda>_.
      seq (Summ_calculate_score COVERAGE) (\<lambda>c.
      seq (assign (\<lambda>m. m\<lparr>coverage_score := Some c\<rparr>)) (\<lambda>_.
      seq Summ_set_score (\<lambda>_.
      read score)))))
        (ms\<lparr>alignment_verdicts := Some avs, coverage_verdicts := Some cvs\<rparr>)
        = (Inr (Some (min a c)), ms')
      \<and> alignment_score ms' = Some a \<and> coverage_score ms' = Some c \<and> score ms' = Some (min a c)
      \<and> 0 \<le> a \<and> a \<le> 1 \<and> 0 \<le> c \<and> c \<le> 1 \<and> 0 \<le> min a c \<and> min a c \<le> 1)"
proof (intro conjI)
  show "\<exists>s. Bias_calculate_score (mb\<lparr>verdicts := Some bvs\<rparr>) = (Inr s, mb\<lparr>verdicts := Some bvs\<rparr>)
        \<and> 0 \<le> s \<and> s \<le> 1"
    by (rule Bias_score_range[of _ bvs]) simp
  show "\<exists>s. Faith_calculate_score (mf\<lparr>faith_verdicts := Some fvs\<rparr>)
          = (Inr s, mf\<lparr>faith_verdicts := Some fvs\<rparr>)
        \<and> 0 \<le> s \<and> s \<le> 1"
    by (rule Faith_score_range[of _ fvs]) simp
  let ?m0 = "ms\<lparr>alignment_verdicts := Some avs, coverage_verdicts := Some cvs\<rparr>"
  have "alignment_verdicts ?m0 = Some avs" "coverage_verdicts ?m0 = Some cvs"
    by simp_all
  from Summ_aggregate[OF this] obtain a c where
    run: "seq (Summ_calculate_score ALIGNMENT) (\<lambda>a.
      seq (assign (\<lambda>m. m\<lparr>alignment_score := Some a\<rparr>)) (\<lambda>_.
      seq (Summ_calculate_score COVERAGE) (\<lambda>c.
      seq (assign (\<lambda>m. m\<lparr>coverage_score := Some c\<rparr>)) (\<lambda>_.
      seq Summ_set_score (\<lambda>_.
      read score))))) ?m0
        = (Inr (Some (min a c)),
           ?m0\<lparr>alignment_score := Some a, coverage_score := Some c, score := Some (min a c)\<rparr>)"
    and b: "0 \<le> a" "a \<le> 1" "0 \<le> c" "c \<le> 1"
    by blast
  show "\<exists>a c ms'.
      seq (Summ_calculate_score ALIGNMENT) (\<lambda>a.
      seq (assign (\<lambda>m. m\<lparr>alignment_score := Some a\<rparr>)) (\<lambda>_.
      seq (Summ_calculate_score COVERAGE) (\<lambda>c.
      seq (assign (\<lambda>m. m\<lparr>coverage_score := Some c\<rparr>)) (\<lambda>_.
      seq Summ_set_score (\<lambda>_.
      read score)))))
        (ms\<lparr>alignment_verdicts := Some avs, coverage_verdicts := Some cvs\<rparr>)
        = (Inr (Some (min a c)), ms')
      \<and> alignment_score ms' = Some a \<and> coverage_score ms' = Some c \<and> score ms' = Some (min a c)
      \<and> 0 \<le> a \<and> a \<le> 1 \<and> 0 \<le> c \<and> c \<le> 1 \<and> 0 \<le> min a c \<and> min a c \<le> 1"
    apply (rule exI[of _ a], rule exI[of _ c])
    apply (rule exI[of _ "?m0\<lparr>alignment_score := Some a, coverage_score := Some c,
        score := Some (min a c)\<rparr>"])
    using b by (simp only: run) simp
qed

text \<open>
  Claim C5. A bias metric in whose state strict mode implies threshold 0, as
  \<open>__init__\<close> leaves it, is measured by \<open>measure\<close> or by \<open>a_measure\<close>. When the
  call returns, the score is the number of verdicts whose label, after \<open>strip\<close> and
  \<open>lower\<close>, is \<open>yes\<close>, divided by the number of verdicts; it is 0 for no verdicts; under
  strict mode a quotient greater than 0 is replaced by 1. \<open>success\<close> holds iff the score
  is at most the threshold, and \<open>__init__\<close> sets the threshold to 0 under strict mode.
\<close>

theorem Bias_score_and_success:
  assumes run: "Bias_measure J tc m = (Inr r, m') \<or> Bias_a_measure J tc m = (Inr r, m')"
      and forced: "strict_mode m \<longrightarrow> threshold m = 0"
  shows "(\<exists>vs s. verdicts m' = Some vs \<and> score m' = Some s \<and>
            s = (if vs = [] then 0
                 else if strict_mode m \<and> bias_ratio vs > 0 then 1 else bias_ratio vs) \<and>
            success m' = Some (s \<le> threshold m')) \<and>
         threshold m' = threshold m \<and> strict_mode m' = strict_mode m \<and>
         threshold (BiasMetric thr nm native incl am strict' vb) = (if strict' then 0 else thr) \<and>
         strict_mode (BiasMetric thr nm native incl am strict' vb) = strict'"
proof -
  have init: "threshold (BiasMetric thr nm native incl am strict' vb) = (if strict' then 0 else thr) \<and>
         strict_mode (BiasMetric thr nm native incl am strict' vb) = strict'"
    by (simp add: BiasMetric_def)
  have main: "\<exists>vs s. verdicts m' = Some vs \<and> score m' = Some s \<and>
      s = (if vs = [] then 0
           else if strict_mode m \<and> bias_ratio vs > threshold m then 1 else bias_ratio vs) \<and>
      success m' = Some (s \<le> threshold m) \<and> threshold m' = threshold m \<and>
      strict_mode m' = strict_mode m"
  proof -
    consider (a) "Bias_a_measure J tc m = (Inr r, m')"
      | (s) "Bias_measure J tc m = (Inr r, m')" "\<not> async_mode m"
      | (am) "Bias_measure J tc m = (Inr r, m')" "async_mode m"
      using run by blast
    then show ?thesis
    proof cases
      case a
      then show ?thesis using Bias_a_measure_Inr by blast
    next
      case s
      then show ?thesis using Bias_measure_sync_Inr by blast
    next
      case am
      from Bias_measure_async_mode_Inr[OF am] have
        "Bias_a_measure J tc (m\<lparr>evaluation_cost := (if using_native_model m then Some 0 else None)\<rparr>)
          = (Inr (score m'), m')" by auto
      from Bias_a_measure_Inr[OF this] show ?thesis
        by (simp split del: if_split cong del: if_weak_cong)
    qed
  qed
  then obtain vs s where f: "verdicts m' = Some vs" "score m' = Some s"
      "s = (if vs = [] then 0
           else if strict_mode m \<and> bias_ratio vs > threshold m then 1 else bias_ratio vs)"
      "success m' = Some (s \<le> threshold m)" "threshold m' = threshold m"
      "strict_mode m' = strict_mode m"
    by blast
  have "s = (if vs = [] then 0
                 else if strict_mode m \<and> bias_ratio vs > 0 then 1 else bias_ratio vs)"
    using f(3) forced by auto
  then have "\<exists>vs s. verdicts m' = Some vs \<and> score m' = Some s \<and>
            s = (if vs = [] then 0
                 else if strict_mode m \<and> bias_ratio vs > 0 then 1 else bias_ratio vs) \<and>
            success m' = Some (s \<le> threshold m')"
    using f by auto
  then show ?thesis using f(5,6) init by blast
qed


text \<open>The verdicts \<open>yes, no, no, no\<close>: score 1 and no success under strict mode, score
  0.25 and success with threshold 0.5 otherwise.\<close>

theorem Bias_score_and_success_witness:
  "strict_mode (BiasMetric (1/2) ''judge'' False True False True False) \<and>
   threshold (BiasMetric (1/2) ''judge'' False True False True False) = 0 \<and>
   (\<exists>r m'. Bias_measure bias_judge tc_example
        (BiasMetric (1/2) ''judge'' False True False True False) = (Inr r, m') \<and>
      verdicts m' = Some [BiasVerdict ''yes'' (Some ''r1''), BiasVerdict ''no'' None,
        BiasVerdict ''no'' None, BiasVerdict ''no'' None] \<and>
      score m' = Some 1 \<and> success m' = Some False \<and> threshold m' = 0) \<and>
   (\<exists>r m'. Bias_a_measure bias_judge tc_example
        (BiasMetric (1/2) ''judge'' False True True False False) = (Inr r, m') \<and>
      verdicts m' = Some [BiasVerdict ''yes'' (Some ''r1''), BiasVerdict ''no'' None,
        BiasVerdict ''no'' None, BiasVerdict ''no'' None] \<and>
      score m' = Some (1/4) \<and> success m' = Some True \<and> threshold m' = 1/2)"
proof -
  let ?vs = "[BiasVerdict ''yes'' (Some ''r1''), BiasVerdict ''no'' None,
        BiasVerdict ''no'' None, BiasVerdict ''no'' None]"
  have ratio: "bias_ratio ?vs = 1/4"
    by (simp add: bias_ratio_def label_eval)
  let ?m1 = "BiasMetric (1/2) ''judge'' False True False True False"
  let ?run1 = "Bias_measure bias_judge tc_example ?m1"
  have f1: "strict_mode ?m1 \<longrightarrow> threshold ?m1 = 0"
    by (simp add: BiasMetric_def)
  have r1: "?run1 = (Inr (Some 1), snd ?run1)"
    using bias_run_strict by (cases ?run1) simp
  have v1: "verdicts (snd ?run1) = Some ?vs"
    by (simp add: bias_eval label_eval)
  from Bias_score_and_success[OF disjI1[OF r1] f1] v1 ratio
  have "score (snd ?run1) = Some 1 \<and> success (snd ?run1) = Some False
      \<and> threshold (snd ?run1) = 0"
    by (auto simp: BiasMetric_def)
  with r1 v1 have one: "\<exists>r m'. ?run1 = (Inr r, m') \<and> verdicts m' = Some ?vs \<and>
      score m' = Some 1 \<and> success m' = Some False \<and> threshold m' = 0"
    by blast
  let ?m2 = "BiasMetric (1/2) ''judge'' False True True False False"
  let ?run2 = "Bias_a_measure bias_judge tc_example ?m2"
  have f2: "strict_mode ?m2 \<longrightarrow> threshold ?m2 = 0"
    by (simp add: BiasMetric_def)
  have r2: "?run2 = (Inr (Some (1/4)), snd ?run2)"
    using bias_run_plain by (cases ?run2) simp
  have v2: "verdicts (snd ?run2) = Some ?vs"
    by (simp add: bias_eval label_eval)
  from Bias_score_and_success[OF disjI2[OF r2] f2] v2 ratio
  have "score (snd ?run2) = Some (1/4) \<and> success (snd ?run2) = Some True
      \<and> threshold (snd ?run2) = 1/2"
    by (auto simp: BiasMetric_def)
  with r2 v2 have two: "\<exists>r m'. ?run2 = (Inr r, m') \<and> verdicts m' = Some ?vs \<and>
      score m' = Some (1/4) \<and> success m' = Some True \<and> threshold m' = 1/2"
    by blast
  have "strict_mode ?m1 \<and> threshold ?m1 = 0"
    by (simp add: BiasMetric_def)
  with one two show ?thesis
    by blast
qed

text \<open>
  Claim C6. A faithfulness metric in whose state strict mode implies threshold 1, as
  \<open>__init__\<close> leaves it, is measured by \<open>measure\<close> or by \<open>a_measure\<close>. When the
  call returns, the score is the number of verdicts whose label, after \<open>strip\<close> and
  \<open>lower\<close>, is not \<open>no\<close>, divided by the number of verdicts; it is 1 for no verdicts;
  under strict mode a quotient below 1 is replaced by 0. \<open>success\<close> holds iff the score
  is at least the threshold, and \<open>__init__\<close> sets the threshold to 1 under strict mode.
\<close>

theorem Faith_score_and_success:
  assumes run: "Faith_measure J tc m = (Inr r, m') \<or> Faith_a_measure J tc m = (Inr r, m')"
      and forced: "strict_mode m \<longrightarrow> threshold m = 1"
  shows "(\<exists>vs s. faith_verdicts m' = Some vs \<and> score m' = Some s \<and>
            s = (if vs = [] then 1
                 else if strict_mode m \<and> faith_ratio vs < 1 then 0 else faith_ratio vs) \<and>
            success m' = Some (s \<ge> threshold m')) \<and>
         threshold m' = threshold m \<and> strict_mode m' = strict_mode m \<and>
         threshold (FaithfulnessMetric thr nm native incl am strict' vb)
           = (if strict' then 1 else thr) \<and>
         strict_mode (FaithfulnessMetric thr nm native incl am strict' vb) = strict'"
proof -
  have init: "threshold (FaithfulnessMetric thr nm native incl am strict' vb)
           = (if strict' then 1 else thr) \<and>
         strict_mode (FaithfulnessMetric thr nm native incl am strict' vb) = strict'"
    by (simp add: FaithfulnessMetric_def)
  have main: "\<exists>vs s. faith_verdicts m' = Some vs \<and> score m' = Some s \<and>
      s = (if vs = [] then 1
           else if strict_mode m \<and> faith_ratio vs < threshold m then 0 else faith_ratio vs) \<and>
      success m' = Some (s \<ge> threshold m) \<and> threshold m' = threshold m \<and>
      strict_mode m' = strict_mode m"
  proof -
    consider (a) "Faith_a_measure J tc m = (Inr r, m')"
      | (s) "Faith_measure J tc m = (Inr r, m')" "\<not> async_mode m"
      | (am) "Faith_measure J tc m = (Inr r, m')" "async_mode m"
      using run by blast
    then show ?thesis
    proof cases
      case a
      then show ?thesis using Faith_a_measure_Inr by blast
    next
      case s
      then show ?thesis using Faith_measure_sync_Inr by blast
    next
      case am
      from Faith_measure_async_mode_Inr[OF am] have
        "Faith_a_measure J tc
           (m\<lparr>evaluation_cost := (if using_native_model m then Some 0 else None)\<rparr>)
          = (Inr (score m'), m')" by auto
      from Faith_a_measure_Inr[OF this] show ?thesis
        by (simp split del: if_split cong del: if_weak_cong)
    qed
  qed
  then obtain vs s where f: "faith_verdicts m' = Some vs" "score m' = Some s"
      "s = (if vs = [] then 1
           else if strict_mode m \<and> faith_ratio vs < threshold m then 0 else faith_ratio vs)"
      "success m' = Some (s \<ge> threshold m)" "threshold m' = threshold m"
      "strict_mode m' = strict_mode m"
    by blast
  have "s = (if vs = [] then 1
                 else if strict_mode m \<and> faith_ratio vs < 1 then 0 else faith_ratio vs)"
    using f(3) forced by auto
  then have "\<exists>vs s. faith_verdicts m' = Some vs \<and> score m' = Some s \<and>
            s = (if vs = [] then 1
                 else if strict_mode m \<and> faith_ratio vs < 1 then 0 else faith_ratio vs) \<and>
            success m' = Some (s \<ge> threshold m')"
    using f by auto
  then show ?thesis using f(5,6) init by blast
qed

text \<open>No verdicts: score 1 and success at the default threshold 0.5. The verdicts
  \<open>no, no\<close> under strict mode: score 0 and no success.\<close>

theorem Faith_score_and_success_witness:
  "strict_mode (FaithfulnessMetric (1/2) ''judge'' False True False True False) \<and>
   threshold (FaithfulnessMetric (1/2) ''judge'' False True False True False) = 1 \<and>
   (\<exists>r m'. Faith_a_measure faith_judge_none tc_example
        (FaithfulnessMetric (1/2) ''judge'' False True True False False) = (Inr r, m') \<and>
      faith_verdicts m' = Some [] \<and>
      score m' = Some 1 \<and> success m' = Some True \<and> threshold m' = 1/2) \<and>
   (\<exists>r m'. Faith_measure faith_judge tc_example
        (FaithfulnessMetric (1/2) ''judge'' False True False True False) = (Inr r, m') \<and>
      faith_verdicts m' = Some [FaithfulnessVerdict ''no'' (Some ''r1''),
        FaithfulnessVerdict '' No'' (Some ''r2'')] \<and>
      score m' = Some 0 \<and> success m' = Some False \<and> threshold m' = 1)"
proof -
  let ?m1 = "FaithfulnessMetric (1/2) ''judge'' False True True False False"
  let ?run1 = "Faith_a_measure faith_judge_none tc_example ?m1"
  have f1: "strict_mode ?m1 \<longrightarrow> threshold ?m1 = 1"
    by (simp add: FaithfulnessMetric_def)
  have r1: "?run1 = (Inr (Some 1), snd ?run1)"
    using faith_run_none by (cases ?run1) simp
  have v1: "faith_verdicts (snd ?run1) = Some []"
    by (simp add: faith_eval label_eval)
  from Faith_score_and_success[OF disjI2[OF r1] f1] v1
  have "score (snd ?run1) = Some 1 \<and> success (snd ?run1) = Some True
      \<and> threshold (snd ?run1) = 1/2"
    by (auto simp: FaithfulnessMetric_def)
  with r1 v1 have one: "\<exists>r m'. ?run1 = (Inr r, m') \<and> faith_verdicts m' = Some [] \<and>
      score m' = Some 1 \<and> success m' = Some True \<and> threshold m' = 1/2"
    by blast
  let ?vs = "[FaithfulnessVerdict ''no'' (Some ''r1''), FaithfulnessVerdict '' No'' (Some ''r2'')]"
  have ratio: "faith_ratio ?vs = 0"
    by (simp add: faith_ratio_def label_eval)
  let ?m2 = "FaithfulnessMetric (1/2) ''judge'' False True False True False"
  let ?run2 = "Faith_measure faith_judge tc_example ?m2"
  have f2: "strict_mode ?m2 \<longrightarrow> threshold ?m2 = 1"
    by (simp add: FaithfulnessMetric_def)
  have r2: "?run2 = (Inr (Some 0), snd ?run2)"
    using faith_run_strict by (cases ?run2) simp
  have v2: "faith_verdicts (snd ?run2) = Some ?vs"
    by (simp add: faith_eval label_eval)
  from Faith_score_and_success[OF disjI1[OF r2] f2] v2 ratio
  have "score (snd ?run2) = Some 0 \<and> success (snd ?run2) = Some False
      \<and> threshold (snd ?run2) = 1"
    by (auto simp: FaithfulnessMetric_def)
  with r2 v2 have two: "\<exists>r m'. ?run2 = (Inr r, m') \<and> faith_verdicts m' = Some ?vs \<and>
      score m' = Some 0 \<and> success m' = Some False \<and> threshold m' = 1"
    by blast
  have "strict_mode ?m2 \<and> threshold ?m2 = 1"
    by (simp add: FaithfulnessMetric_def)
  with one two show ?thesis
    by blast
qed

text \<open>
  Claim C1 does not hold of the code: with \<open>async_mode\<close>, the default, \<open>measure\<close> ends
  without a \<open>return\<close> and yields \<open>None\<close>, where \<open>a_measure\<close> returns the score. For the
  bias metric and a judge that answers \<open>yes, no, no, no\<close>, \<open>measure\<close> computes the score
  0.25, stores it and returns \<open>None\<close>; \<open>a_measure\<close> returns 0.25. The faithfulness
  metric does the same. Lemmas \<open>Bias_measure_refines\<close> and \<open>Faith_measure_refines\<close>
  give the part of the claim that holds: the two entry points leave the same score,
  success and reason.
\<close>

theorem measure_returns_None_in_async_mode:
  "fst (Bias_measure bias_judge tc_example
      (BiasMetric (1/2) ''judge'' False True True False False)) = Inr None \<and>
   score (snd (Bias_measure bias_judge tc_example
      (BiasMetric (1/2) ''judge'' False True True False False))) = Some (1/4) \<and>
   fst (Bias_a_measure bias_judge tc_example
      (BiasMetric (1/2) ''judge'' False True True False False)) = Inr (Some (1/4)) \<and>
   fst (Faith_measure faith_judge tc_example
      (FaithfulnessMetric (1/2) ''judge'' False True True False False)) = Inr None \<and>
   fst (Faith_a_measure faith_judge tc_example
      (FaithfulnessMetric (1/2) ''judge'' False True True False False)) = Inr (Some 0)"
proof -
  have "score (snd (Bias_measure bias_judge tc_example
      (BiasMetric (1/2) ''judge'' False True True False False))) = Some (1/4)"
    by (simp add: bias_eval label_eval)
  then show ?thesis
    using bias_run_async bias_run_plain faith_run_async faith_run_plain by simp
qed

text \<open>
  Claim C7 does not hold as stated: under strict mode the coverage score of the original
  answers \<open>yes, yes, no\<close> and the summary answers \<open>yes, no, no\<close> is 0, not 0.5
  (denominator 2, count 1).
\<close>

theorem coverage_score_strict_counterexample:
  "coverage_verdicts (snd (Summ_a_measure summ_judge tc3
      (SummarizationMetric (1/2) 5 ''judge'' False (Some [''a'', ''b'', ''c'']) True True True False)))
     = Some [SummarizationCoverageVerdict ''yes'' ''yes'' (Some ''a''),
             SummarizationCoverageVerdict ''no'' ''yes'' (Some ''b''),
             SummarizationCoverageVerdict ''no'' ''no'' (Some ''c'')] \<and>
   coverage_denom [SummarizationCoverageVerdict ''yes'' ''yes'' (Some ''a''),
             SummarizationCoverageVerdict ''no'' ''yes'' (Some ''b''),
             SummarizationCoverageVerdict ''no'' ''no'' (Some ''c'')] = 2 \<and>
   coverage_count [SummarizationCoverageVerdict ''yes'' ''yes'' (Some ''a''),
             SummarizationCoverageVerdict ''no'' ''yes'' (Some ''b''),
             SummarizationCoverageVerdict ''no'' ''no'' (Some ''c'')] = 1 \<and>
   coverage_score (snd (Summ_a_measure summ_judge tc3
      (SummarizationMetric (1/2) 5 ''judge'' False (Some [''a'', ''b'', ''c'']) True True True False)))
     = Some 0"
  using summ_abc_verdicts[of True] abc_counts summ_run_abc_strict by simp

text \<open>
  Claim C7, amended. When \<open>measure\<close> or \<open>a_measure\<close> of the summarization metric
  returns, the coverage score is the number of verdict pairs whose original and summary
  labels are both \<open>yes\<close>, divided by the number of pairs whose original label is \<open>yes\<close>,
  and 0 when that denominator is 0; under strict mode a quotient below the threshold
  is replaced by 0. The final score is the minimum of the alignment and the coverage
  score, and \<open>success\<close> holds iff the final score is at least the threshold.
\<close>

theorem Summ_score_and_success:
  assumes run: "Summ_measure J tc m = (Inr r, m') \<or> Summ_a_measure J tc m = (Inr r, m')"
  shows "\<exists>cvs a c. coverage_verdicts m' = Some cvs \<and>
      alignment_score m' = Some a \<and> coverage_score m' = Some c \<and>
      c = (if coverage_denom cvs = 0 then 0
           else if strict_mode m \<and> coverage_ratio cvs < threshold m then 0
           else coverage_ratio cvs) \<and>
      score m' = Some (min a c) \<and> success m' = Some (min a c \<ge> threshold m') \<and>
      threshold m' = threshold m"
proof -
  have main: "\<exists>avs cvs a c x. alignment_verdicts m' = Some avs \<and> coverage_verdicts m' = Some cvs \<and>
      alignment_score m' = Some a \<and> coverage_score m' = Some c \<and>
      a = (if avs = [] then 0
           else if strict_mode m \<and> alignment_ratio avs < threshold m then 0
           else alignment_ratio avs) \<and>
      c = (if coverage_denom cvs = 0 then 0
           else if strict_mode m \<and> coverage_ratio cvs < threshold m then 0
           else coverage_ratio cvs) \<and>
      score m' = Some (min a c) \<and> x = Some (min a c) \<and>
      success m' = Some (min a c \<ge> threshold m) \<and> threshold m' = threshold m \<and>
      strict_mode m' = strict_mode m \<and> assessment_questions m' \<noteq> None"
  proof -
    consider (a) "Summ_a_measure J tc m = (Inr r, m')"
      | (s) "Summ_measure J tc m = (Inr r, m')" "\<not> async_mode m"
      | (am) "Summ_measure J tc m = (Inr r, m')" "async_mode m"
      using run by blast
    then show ?thesis
    proof cases
      case a
      from Summ_a_measure_Inr[OF a] show ?thesis
        by blast
    next
      case s
      from Summ_measure_sync_Inr[OF s] show ?thesis
        by blast
    next
      case am
      from Summ_measure_async_mode_Inr[OF am] have
        "Summ_a_measure J tc
           (m\<lparr>evaluation_cost := (if using_native_model m then Some 0 else None)\<rparr>)
          = (Inr (score m'), m')" by auto
      from Summ_a_measure_Inr[OF this]
      have "\<exists>avs cvs a c. alignment_verdicts m' = Some avs \<and> coverage_verdicts m' = Some cvs \<and>
        alignment_score m' = Some a \<and> coverage_score m' = Some c \<and>
        a = (if avs = [] then 0
             else if strict_mode m \<and> alignment_ratio avs < threshold m then 0
             else alignment_ratio avs) \<and>
        c = (if coverage_denom cvs = 0 then 0
             else if strict_mode m \<and> coverage_ratio cvs < threshold m then 0
             else coverage_ratio cvs) \<and>
        score m' = Some (min a c) \<and> score m' = Some (min a c) \<and>
        success m' = Some (min a c \<ge> threshold m) \<and> threshold m' = threshold m \<and>
        strict_mode m' = strict_mode m \<and> assessment_questions m' \<noteq> None"
        by (simp split del: if_split cong del: if_weak_cong)
      then show ?thesis
        by blast
    qed
  qed
  then obtain cvs a c where "coverage_verdicts m' = Some cvs"
      "alignment_score m' = Some a" "coverage_score m' = Some c"
      "c = (if coverage_denom cvs = 0 then 0
           else if strict_mode m \<and> coverage_ratio cvs < threshold m then 0
           else coverage_ratio cvs)"
      "score m' = Some (min a c)" "success m' = Some (min a c \<ge> threshold m)"
      "threshold m' = threshold m"
    by blast
  then show ?thesis
    by (intro exI[of _ cvs] exI[of _ a] exI[of _ c]) simp
qed

text \<open>The answers \<open>yes, yes, no\<close> and \<open>yes, no, no\<close> without strict mode: coverage score
  0.5, final score 0.5, success at threshold 0.5.\<close>

theorem Summ_score_and_success_witness:
  "\<exists>r m'. Summ_a_measure summ_judge tc3
      (SummarizationMetric (1/2) 5 ''judge'' False (Some [''a'', ''b'', ''c'']) True True False False)
        = (Inr r, m') \<and>
      coverage_verdicts m' = Some [SummarizationCoverageVerdict ''yes'' ''yes'' (Some ''a''),
             SummarizationCoverageVerdict ''no'' ''yes'' (Some ''b''),
             SummarizationCoverageVerdict ''no'' ''no'' (Some ''c'')] \<and>
      coverage_score m' = Some (1/2) \<and> score m' = Some (1/2) \<and> success m' = Some True"
proof -
  let ?m = "SummarizationMetric (1/2) 5 ''judge'' False (Some [''a'', ''b'', ''c'']) True True
      False False"
  let ?run = "Summ_a_measure summ_judge tc3 ?m"
  let ?vs = "[SummarizationCoverageVerdict ''yes'' ''yes'' (Some ''a''),
             SummarizationCoverageVerdict ''no'' ''yes'' (Some ''b''),
             SummarizationCoverageVerdict ''no'' ''no'' (Some ''c'')]"
  have r: "?run = (Inr (Some (1/2)), snd ?run)"
    using summ_run_abc by (cases ?run) simp
  have v: "coverage_verdicts (snd ?run) = Some ?vs"
    by (rule summ_abc_verdicts)
  have cfg: "\<not> strict_mode ?m" "threshold ?m = 1/2"
    by (simp_all add: SummarizationMetric_def)
  have ratio: "coverage_ratio ?vs = 1/2" "coverage_denom ?vs \<noteq> 0"
    by (simp_all add: coverage_ratio_def abc_counts)
  have sc: "score (snd ?run) = Some (1/2)"
    by (simp add: summ_eval label_eval)
  from Summ_score_and_success[OF disjI2[OF r]] v cfg ratio sc
  have "coverage_score (snd ?run) = Some (1/2) \<and> success (snd ?run) = Some True"
    by auto
  with r v sc show ?thesis
    by blast
qed






text \<open>
  Claim C3 does not hold of the code when the progress display is shown. A cache hit is
  then handled by \<open>measure_metric_task\<close>, in a task of \<open>asyncio.gather\<close>: it assigns
  the cached score, success and reason to task-local attributes of the metric, and
  does not assign the threshold, the strict mode and the evaluation model at all.
  Without the display the loop of \<open>measure_metrics_with_indicator\<close> assigns all six in
  the context of the caller (lemma \<open>orchestrator_hit_without_indicator\<close>). Here the
  second of two bias metrics has a cached result with score 0.25, and the cached
  threshold, strict mode and evaluation model are those of the metric. Without the
  display the caller reads the cached score, success and reason from the metric; with
  the display it reads the metric as it was, without a score.
\<close>

theorem cache_hit_not_adopted_with_display:
  "cached_metric_metadata cache_example
      ([BiasMetric (1/2) ''judge'' False True True True False,
        BiasMetric (1/2) ''judge'' False True True False False] ! 1) (Some ())
      = Some cached_example \<and>
   cached_score cached_example = Some (1/4) \<and>
   snd (measure_metrics_with_indicator False Bias_task_context (Bias_a_measure bias_judge)
      cache_example
      [BiasMetric (1/2) ''judge'' False True True True False,
       BiasMetric (1/2) ''judge'' False True True False False] tc_example (Some ())) ! 1
     = (BiasMetric (1/2) ''judge'' False True True False False)
         \<lparr>score := Some (1/4), success := Some True, reason := Some ''cached''\<rparr> \<and>
   snd (measure_metrics_with_indicator True Bias_task_context (Bias_a_measure bias_judge)
      cache_example
      [BiasMetric (1/2) ''judge'' False True True True False,
       BiasMetric (1/2) ''judge'' False True True False False] tc_example (Some ())) ! 1
     = BiasMetric (1/2) ''judge'' False True True False False \<and>
   score (snd (measure_metrics_with_indicator True Bias_task_context (Bias_a_measure bias_judge)
      cache_example
      [BiasMetric (1/2) ''judge'' False True True True False,
       BiasMetric (1/2) ''judge'' False True True False False] tc_example (Some ())) ! 1)
     = None \<and>
   success (snd (measure_metrics_with_indicator True Bias_task_context
      (Bias_a_measure bias_judge) cache_example
      [BiasMetric (1/2) ''judge'' False True True True False,
       BiasMetric (1/2) ''judge'' False True True False False] tc_example (Some ())) ! 1)
     = None \<and>
   reason (snd (measure_metrics_with_indicator True Bias_task_context
      (Bias_a_measure bias_judge) cache_example
      [BiasMetric (1/2) ''judge'' False True True True False,
       BiasMetric (1/2) ''judge'' False True True False False] tc_example (Some ())) ! 1)
     = None"
proof -
  let ?ms = "[BiasMetric (1/2) ''judge'' False True True True False,
        BiasMetric (1/2) ''judge'' False True True False False]"
  have hit: "cached_metric_metadata cache_example (?ms ! 1) (Some ()) = Some cached_example"
    by (simp add: cached_metric_metadata_def cache_example_def BiasMetric_def)
  have len: "1 < length ?ms"
    by simp
  have off: "snd (measure_metrics_with_indicator False Bias_task_context
        (Bias_a_measure bias_judge) cache_example ?ms tc_example (Some ())) ! 1
      = (BiasMetric (1/2) ''judge'' False True True False False)
         \<lparr>score := Some (1/4), success := Some True, reason := Some ''cached''\<rparr>"
    using orchestrator_hit_without_indicator[OF len hit, of Bias_task_context
        "Bias_a_measure bias_judge" tc_example]
    by (simp add: cached_example_def BiasMetric_def)
  have on: "snd (measure_metrics_with_indicator True Bias_task_context
        (Bias_a_measure bias_judge) cache_example ?ms tc_example (Some ())) ! 1
      = BiasMetric (1/2) ''judge'' False True True False False"
    using orchestrator_hit_with_indicator[OF len hit, of Bias_task_context
        "Bias_a_measure bias_judge" tc_example]
    by (simp add: Bias_task_context_assigned)
  have none: "score (BiasMetric (1/2) ''judge'' False True True False False) = None"
      "success (BiasMetric (1/2) ''judge'' False True True False False) = None"
      "reason (BiasMetric (1/2) ''judge'' False True True False False) = None"
    by (simp_all add: BiasMetric_def)
  have cs: "cached_score cached_example = Some (1/4)"
    by (simp add: cached_example_def)
  show ?thesis
    using hit cs off on none by simp
qed

text \<open>
  Claim C2 does not hold of the code. The summarization metric keeps the claims, the
  verdicts and the two sub-scores of an evaluation in context variables, but the
  questions it generates are assigned to the attribute \<open>assessment_questions\<close> of the
  object, which every evaluation reads. Let one metric without configured questions
  evaluate \<open>tc1\<close> (\<open>doc1\<close>, \<open>sum1\<close>) and \<open>tc2\<close> (\<open>doc2\<close>, \<open>sum2\<close>), each in a task
  of its own, and let the judge answer all calls of one task before those of the
  other. If the task of \<open>tc1\<close> is served first, it scores 1 and the task of \<open>tc2\<close>
  finds the question \<open>q1\<close> generated from \<open>doc1\<close>, asks the judge to answer it for
  \<open>doc2\<close>, and scores 0; evaluated alone, \<open>tc2\<close> scores 1. If the task of \<open>tc2\<close> is
  served first, \<open>tc2\<close> scores 1 and \<open>tc1\<close> scores 0. So the questions written by one
  evaluation are seen by the other, and the results depend on the interleaving.
\<close>

theorem generated_questions_shared_between_evaluations:
  "assessment_questions shared_summarizer = None \<and>
   fst (Summ_a_measure summ_judge tc2 shared_summarizer) = Inr (Some 1) \<and>
   map fst (Summ_evaluate_all summ_judge shared_summarizer shared_summarizer [tc1, tc2])
     = [Inr (Some 1), Inr (Some 0)] \<and>
   map fst (Summ_evaluate_all summ_judge shared_summarizer shared_summarizer [tc2, tc1])
     = [Inr (Some 1), Inr (Some 0)] \<and>
   assessment_questions (snd (Summ_evaluate_all summ_judge shared_summarizer shared_summarizer
      [tc1, tc2] ! 1)) = Some [''q1''] \<and>
   SummarizationTemplate_generate_answers (Some [''q1'']) ''doc2''
     \<in> set (judge_log (snd (Summ_evaluate_all summ_judge shared_summarizer shared_summarizer
          [tc1, tc2] ! 1)))"
proof -
  have "assessment_questions shared_summarizer = None"
    by (simp add: shared_summarizer_def SummarizationMetric_def)
  then show ?thesis
    using shared_alone shared_12 shared_21 shared_12_questions shared_12_log by blast
qed
end
